(* ===== verification/Prelude.thy ===== *)
theory Prelude
  imports Complex_Main "HOL-Library.Word" "HOL-Library.State_Monad"
begin

text \<open>
  Shared vocabulary of the SI4703 development: the machine types of the C++ source
  (\<open>uint8_t\<close>, \<open>uint16_t\<close>, \<open>uint32_t\<close> as words of that width, \<open>float\<close> as the
  rational value of a binary32 number), the theorem collections the component proofs
  draw on, and the generic facts on words, byte splitting and list updates that the
  register synchronizer and the sequencer share.
\<close>

unbundle bit_operations_syntax

type_synonym u8 = "8 word"
type_synonym u16 = "16 word"
type_synonym u32 = "32 word"

text \<open>
  A C \<open>float\<close> is modelled by the rational number it denotes; the rounding of every
  arithmetic operation to binary32 is written out in theory \<open>Float32\<close>.
\<close>

type_synonym float32 = rat

named_theorems reg_consts "numeric values of the register map constants"
named_theorems run_simps "run_state equations of the modelled operations"

subsection \<open>Bytes of a 16-bit word\<close>

text \<open>
  The source sends a register as \<open>Wire.write(r >> 8)\<close> then \<open>Wire.write(r & 0xFF)\<close>
  (each converted to \<open>uint8_t\<close>) and rebuilds one from two bytes as
  \<open>(hi << 8) | lo\<close>. Both directions, as functions on words:
\<close>

definition hi_byte :: "u16 \<Rightarrow> u8" where
  "hi_byte r = ucast (drop_bit 8 r)"

definition lo_byte :: "u16 \<Rightarrow> u8" where
  "lo_byte r = ucast (r AND 0xFF)"

definition word16_of :: "u16 \<Rightarrow> u16 \<Rightarrow> u16" where
  "word16_of hi lo = push_bit 8 hi OR lo"

lemma mask8_u16: "(0xFF :: u16) = mask 8"
  by (simp add: mask_eq_exp_minus_1)

lemma word16_of_bytes [simp]:
  "word16_of (ucast (hi_byte r)) (ucast (lo_byte r)) = r"
  unfolding word16_of_def hi_byte_def lo_byte_def mask8_u16
  by (rule bit_word_eqI) (auto simp: bit_simps)

lemma hi_byte_word16_of [simp]:
  fixes a b :: u8
  shows "hi_byte (word16_of (ucast a) (ucast b)) = a"
  unfolding word16_of_def hi_byte_def
  by (rule bit_word_eqI) (auto simp: bit_simps dest: bit_imp_le_length)

lemma lo_byte_word16_of [simp]:
  fixes a b :: u8
  shows "lo_byte (word16_of (ucast a) (ucast b)) = b"
  unfolding word16_of_def lo_byte_def mask8_u16
  by (rule bit_word_eqI) (auto simp: bit_simps dest: bit_imp_le_length)

lemma run_bind_return [run_simps]:
  "run_state (State_Monad.bind m (\<lambda>x. State_Monad.return (f x))) s
     = (f (fst (run_state m s)), snd (run_state m s))"
  by (simp add: State_Monad.bind_def split: prod.splits)

lemma and_not_or_low [simp]:
  fixes r v m :: u16
  assumes "v AND NOT m = 0"
  shows "(r AND NOT m OR v) AND m = v"
    and "(r AND NOT m OR v) AND NOT m = r AND NOT m"
proof -
  have "bit v n \<Longrightarrow> bit m n" for n
    using arg_cong [OF assms, of "\<lambda>w. bit w n"] bit_imp_le_length [of v n]
    by (auto simp: bit_simps)
  then show "(r AND NOT m OR v) AND m = v"
    and "(r AND NOT m OR v) AND NOT m = r AND NOT m"
    by (auto intro!: bit_word_eqI simp: bit_simps)
qed

subsection \<open>Lists of fixed length\<close>

lemma nth_list_update_if:
  "i < length xs \<Longrightarrow> xs[i := v] ! j = (if j = i then v else xs ! j)"
  by (simp add: nth_list_update)

end
