(* ===== verification/Float32.thy ===== *)
theory Float32
  imports Prelude
begin

text \<open>
  IEEE 754 binary32 arithmetic as the ESP32 performs it for the \<open>float\<close> expressions of
  \<open>SI4703::setFrequency\<close>: every \<open>-\<close> and \<open>/\<close> is computed exactly and then rounded
  to the nearest binary32 value, ties to even (24-bit significand, exponent at least
  -149, so subnormals are rounded on the same grid). A float value is the rational it
  denotes; infinities and NaN are not values of the model. The conversion of a float to
  \<open>uint16_t\<close> truncates towards zero and is defined by C++ only when the truncated value
  fits; \<open>f2u16_defined\<close> states that condition.
  The main facts: \<open>fl32\<close> is monotone and keeps the sign, which bounds every rounded
  result between the rounded images of its bounds.
\<close>

subsection \<open>Binary exponent and rounding\<close>

function nbits :: "int \<Rightarrow> int" where
  "nbits n = (if n \<le> 0 then 0 else nbits (n div 2) + 1)"
  by pat_completeness auto
termination
  by (relation "measure nat") auto

declare nbits.simps [simp del]

definition pow2 :: "int \<Rightarrow> rat" where
  "pow2 k = 2 powi k"

text \<open>\<open>ilog2 q\<close> is \<open>\<lfloor>log\<^sub>2 q\<rfloor>\<close> for positive \<open>q\<close>, from the bit lengths of numerator and denominator.\<close>

definition ilog2 :: "rat \<Rightarrow> int" where
  "ilog2 q = (let (p, d) = quotient_of q; e = nbits p - nbits d
              in if pow2 e \<le> q then e else e - 1)"

definition round_even :: "rat \<Rightarrow> int" where
  "round_even r = (let f = \<lfloor>r\<rfloor>; h = r - of_int f in
     if h < 1/2 then f else if 1/2 < h then f + 1 else if even f then f else f + 1)"

definition fexp :: "rat \<Rightarrow> int" where
  "fexp x = max (ilog2 \<bar>x\<bar> - 23) (-149)"

definition fl32 :: "rat \<Rightarrow> float32" where
  "fl32 x = (if x = 0 then 0
             else sgn x * of_int (round_even (\<bar>x\<bar> / pow2 (fexp x))) * pow2 (fexp x))"

definition trunc_f :: "float32 \<Rightarrow> int" where
  "trunc_f x = (if x < 0 then \<lceil>x\<rceil> else \<lfloor>x\<rfloor>)"

definition f2u16_defined :: "float32 \<Rightarrow> bool" where
  "f2u16_defined x \<longleftrightarrow> 0 \<le> trunc_f x \<and> trunc_f x < 65536"

definition f2u16 :: "float32 \<Rightarrow> u16" where
  "f2u16 x = word_of_int (trunc_f x)"

subsection \<open>Bit lengths and powers of two\<close>

lemma nbits_bounds:
  "0 < n \<Longrightarrow> 0 < nbits n \<and> 2 ^ nat (nbits n - 1) \<le> n \<and> n < 2 ^ nat (nbits n)"
proof (induction n rule: nbits.induct)
  case (1 n)
  show ?case
  proof (cases "n = 1")
    case True
    then show ?thesis by (simp add: nbits.simps)
  next
    case False
    with "1.prems" have pos: "0 < n div 2" by simp
    with "1.IH" "1.prems" obtain k where k: "nbits (n div 2) = k" "0 < k"
      "2 ^ nat (k - 1) \<le> n div 2" "n div 2 < 2 ^ nat k"
      by auto
    have eq: "nbits n = k + 1"
      using "1.prems" k(1) by (simp add: nbits.simps)
    have "nat k = Suc (nat (k - 1))"
      using k(2) by simp
    then have p1: "2 ^ nat k = 2 * (2::int) ^ nat (k - 1)"
      by (metis power_Suc)
    have p2: "2 ^ nat (k + 1) = 2 * (2::int) ^ nat k"
      using k(2) by (simp add: nat_add_distrib)
    have "2 * (n div 2) \<le> n" "n \<le> 2 * (n div 2) + 1"
      by linarith+
    with k(3,4) p1 p2 have "2 ^ nat k \<le> n" "n < 2 ^ nat (k + 1)"
      by linarith+
    with eq k(2) show ?thesis
      by simp
  qed
qed

lemma pow2_pos [simp]: "0 < pow2 k"
  by (simp add: pow2_def)

lemma pow2_add: "pow2 (a + b) = pow2 a * pow2 b"
  by (simp add: pow2_def power_int_add)

lemma pow2_less_iff [simp]: "pow2 a < pow2 b \<longleftrightarrow> a < b"
proof
  assume less: "pow2 a < pow2 b"
  show "a < b"
  proof (rule ccontr)
    assume "\<not> a < b"
    then have "pow2 b \<le> pow2 a"
      unfolding pow2_def by (intro power_int_increasing) auto
    with less show False by simp
  qed
next
  assume "a < b"
  then show "pow2 a < pow2 b"
    unfolding pow2_def by (intro power_int_strict_increasing) auto
qed

lemma pow2_le_iff [simp]: "pow2 a \<le> pow2 b \<longleftrightarrow> a \<le> b"
  by (meson linorder_not_less pow2_less_iff)

lemma pow2_nonneg_exp: "0 \<le> k \<Longrightarrow> pow2 k = of_int (2 ^ nat k)"
  by (simp add: pow2_def power_int_nonneg_exp)

lemma pow2_23: "pow2 23 = 8388608" and pow2_24: "pow2 24 = 16777216"
  by (simp_all add: pow2_def)

lemma nbits_pow2:
  assumes "0 < n"
  shows "pow2 (nbits n - 1) \<le> of_int n" and "of_int n < pow2 (nbits n)"
proof -
  from nbits_bounds [OF assms] have b: "0 < nbits n" "2 ^ nat (nbits n - 1) \<le> n"
    "n < 2 ^ nat (nbits n)" by auto
  have "pow2 (nbits n - 1) = of_int (2 ^ nat (nbits n - 1))"
    using b(1) by (simp add: pow2_nonneg_exp)
  with b(2) show "pow2 (nbits n - 1) \<le> of_int n"
    by (metis of_int_le_iff)
  have "pow2 (nbits n) = of_int (2 ^ nat (nbits n))"
    using b(1) by (simp add: pow2_nonneg_exp)
  with b(3) show "of_int n < pow2 (nbits n)"
    by (metis of_int_less_iff)
qed

lemma ilog2_bounds:
  assumes "0 < q"
  shows "pow2 (ilog2 q) \<le> q \<and> q < pow2 (ilog2 q + 1)"
proof -
  obtain p d where qd: "quotient_of q = (p, d)"
    by (cases "quotient_of q")
  then have q: "q = of_int p / of_int d" and d: "0 < d"
    by (simp_all add: quotient_of_div quotient_of_denom_pos)
  with assms have p: "0 < p"
    by (simp add: zero_less_divide_iff)
  define a b where "a = nbits p" and "b = nbits d"
  have pd: "of_int p = q * of_int d"
    using q d by simp
  have pa: "pow2 (a - 1) \<le> of_int p" "of_int p < pow2 a"
    using nbits_pow2 [OF p] by (simp_all add: a_def b_def)
  have db: "pow2 (b - 1) \<le> of_int d" "of_int d < pow2 b"
    using nbits_pow2 [OF d] by (simp_all add: a_def b_def)
  have "pow2 (a - b - 1) * pow2 b = pow2 (a - 1)"
    by (simp flip: pow2_add)
  also have "\<dots> \<le> q * of_int d"
    using pa(1) pd by simp
  also have "\<dots> < q * pow2 b"
    using db(2) assms by simp
  finally have lo: "pow2 (a - b - 1) < q"
    by simp
  have "q * pow2 (b - 1) \<le> q * of_int d"
    using db(1) assms by simp
  also have "\<dots> < pow2 a"
    using pa(2) pd by simp
  also have "\<dots> = pow2 (a - b + 1) * pow2 (b - 1)"
    by (simp flip: pow2_add)
  finally have hi: "q < pow2 (a - b + 1)"
    by simp
  have e: "ilog2 q = (if pow2 (a - b) \<le> q then a - b else a - b - 1)"
    by (simp add: ilog2_def qd a_def b_def)
  show ?thesis
    using lo hi by (simp add: e)
qed

subsection \<open>Rounding to an integer\<close>

lemma round_even_floor: "\<lfloor>r\<rfloor> \<le> round_even r \<and> round_even r \<le> \<lfloor>r\<rfloor> + 1"
  by (simp add: round_even_def Let_def)

lemma round_even_of_int [simp]: "round_even (of_int k) = k"
  by (simp add: round_even_def)

lemma round_even_mono:
  assumes "r \<le> s"
  shows "round_even r \<le> round_even s"
proof (cases "\<lfloor>r\<rfloor> < \<lfloor>s\<rfloor>")
  case True
  then show ?thesis
    using round_even_floor [of r] round_even_floor [of s] by linarith
next
  case False
  with assms have "\<lfloor>r\<rfloor> = \<lfloor>s\<rfloor>"
    by (meson floor_mono order.antisym not_less)
  with assms show ?thesis
    by (auto simp: round_even_def Let_def)
qed

lemma round_even_le_int: "r \<le> of_int k \<Longrightarrow> round_even r \<le> k"
  using round_even_mono [of r "of_int k"] by simp

lemma int_le_round_even: "of_int k \<le> r \<Longrightarrow> k \<le> round_even r"
  using round_even_mono [of "of_int k" r] by simp

subsection \<open>Monotonicity of binary32 rounding\<close>

lemma fl32_zero [simp]: "fl32 0 = 0"
  by (simp add: fl32_def)

lemma fl32_pos:
  "0 < x \<Longrightarrow> fl32 x = of_int (round_even (x / pow2 (fexp x))) * pow2 (fexp x)"
  by (simp add: fl32_def)

lemma fl32_nonneg:
  assumes "0 \<le> x"
  shows "0 \<le> fl32 x"
proof (cases "x = 0")
  case False
  with assms have x: "0 < x" by simp
  then have "of_int 0 \<le> x / pow2 (fexp x)"
    by (simp add: less_imp_le)
  then have "0 \<le> round_even (x / pow2 (fexp x))"
    by (rule int_le_round_even)
  with x show ?thesis
    by (simp add: fl32_pos less_imp_le)
qed simp

lemma ilog2_mono:
  assumes "0 < x" "x \<le> y"
  shows "ilog2 x \<le> ilog2 y"
proof -
  have "pow2 (ilog2 x) \<le> x" "y < pow2 (ilog2 y + 1)"
    using ilog2_bounds [of x] ilog2_bounds [of y] assms by auto
  with assms(2) have "pow2 (ilog2 x) < pow2 (ilog2 y + 1)"
    by linarith
  then show ?thesis by simp
qed

lemma fexp_mono: "0 < x \<Longrightarrow> x \<le> y \<Longrightarrow> fexp x \<le> fexp y"
  using ilog2_mono [of x y] by (simp add: fexp_def)

text \<open>
  Within one binade the rounded significands are ordered; across binades the smaller
  number rounds to at most \<open>2\<^sup>2\<^sup>4\<close> units of its exponent, the larger to at least
  \<open>2\<^sup>2\<^sup>3\<close> units of its own.
\<close>

lemma fl32_upper:
  assumes "0 < x"
  shows "fl32 x \<le> pow2 (fexp x + 24)"
proof -
  have "x < pow2 (ilog2 x + 1)"
    using ilog2_bounds [OF assms] by simp
  also have "\<dots> \<le> pow2 (fexp x + 24)"
    using assms by (simp add: fexp_def)
  also have "\<dots> = pow2 24 * pow2 (fexp x)"
    by (simp add: pow2_add)
  finally have "x / pow2 (fexp x) \<le> of_int 16777216"
    by (simp add: pow2_24 pos_divide_le_eq)
  then have "round_even (x / pow2 (fexp x)) \<le> 16777216"
    by (rule round_even_le_int)
  then have "fl32 x \<le> 16777216 * pow2 (fexp x)"
    using assms by (simp add: fl32_pos)
  then show ?thesis
    by (simp add: pow2_add pow2_24 mult.commute)
qed

lemma fl32_lower:
  assumes "0 < y" "fexp y = ilog2 y - 23"
  shows "pow2 (fexp y + 23) \<le> fl32 y"
proof -
  have "pow2 23 * pow2 (fexp y) = pow2 (ilog2 y)"
    using assms(2) by (simp flip: pow2_add)
  also have "\<dots> \<le> y"
    using ilog2_bounds [OF assms(1)] by simp
  finally have "of_int 8388608 \<le> y / pow2 (fexp y)"
    by (simp add: pow2_23 pos_le_divide_eq)
  then have "8388608 \<le> round_even (y / pow2 (fexp y))"
    by (rule int_le_round_even)
  then have "8388608 * pow2 (fexp y) \<le> fl32 y"
    using assms(1) by (simp add: fl32_pos)
  then show ?thesis
    by (simp add: pow2_add pow2_23 mult.commute)
qed

lemma fl32_mono:
  assumes "0 \<le> x" "x \<le> y"
  shows "fl32 x \<le> fl32 y"
proof (cases "x = 0")
  case True
  with assms show ?thesis by (simp add: fl32_nonneg)
next
  case False
  with assms have x: "0 < x" and y: "0 < y" by auto
  have "fexp x \<le> fexp y"
    using fexp_mono [OF x assms(2)] .
  then consider "fexp x = fexp y" | "fexp x < fexp y"
    by linarith
  then show ?thesis
  proof cases
    case 1
    have "x / pow2 (fexp x) \<le> y / pow2 (fexp x)"
      using assms(2) by (rule divide_right_mono) (simp add: less_imp_le)
    then have "round_even (x / pow2 (fexp x)) \<le> round_even (y / pow2 (fexp y))"
      using 1 by (simp add: round_even_mono)
    with x y 1 show ?thesis
      by (simp add: fl32_pos)
  next
    case 2
    then have ey: "fexp y = ilog2 y - 23"
      using x y by (auto simp: fexp_def)
    have "fl32 x \<le> pow2 (fexp x + 24)"
      using fl32_upper [OF x] .
    also have "\<dots> \<le> pow2 (fexp y + 23)"
      using 2 by simp
    also have "\<dots> \<le> fl32 y"
      using fl32_lower [OF y ey] .
    finally show ?thesis .
  qed
qed

end
