(* ===== verification/Regs.thy ===== *)
theory Regs
  imports Float32
begin

text \<open>
  The register map of \<open>src/src/SI4703_regs.h\<close>: the bus address, the register enum as a
  datatype with its addresses, the bit masks of the control and status registers as
  16-bit words (the macros are \<open>int\<close> expressions that the source only combines with
  \<open>uint16_t\<close> registers, where \<open>~\<close>, \<open>&\<close> and \<open>|\<close> act on the low 16 bits), the EU
  band limits as binary32 literals, and the two declared but unused enumerations.
  The lemmas give each constant's numeric value (collection \<open>reg_consts\<close>) and show that
  the register enum covers the addresses \<open>0x00\<close>-\<open>0x07\<close> and \<open>0x0A\<close>-\<open>0x0F\<close> and never
  \<open>0x08\<close>, \<open>0x09\<close>.
\<close>

unbundle bit_operations_syntax

definition SI4703_I2C_ADDR :: u8 where
  "SI4703_I2C_ADDR = 0x10"

datatype si4703_register =
    REG_DEVICEID | REG_CHIPID | REG_POWERCFG | REG_CHANNEL | REG_SYSCONFIG1 | REG_SYSCONFIG2
  | REG_SYSCONFIG3 | REG_TEST1 | REG_STATUSRSSI | REG_READCHAN | REG_RDSA | REG_RDSB
  | REG_RDSC | REG_RDSD

primrec reg_addr :: "si4703_register \<Rightarrow> u8" where
  "reg_addr REG_DEVICEID = 0x00"
| "reg_addr REG_CHIPID = 0x01"
| "reg_addr REG_POWERCFG = 0x02"
| "reg_addr REG_CHANNEL = 0x03"
| "reg_addr REG_SYSCONFIG1 = 0x04"
| "reg_addr REG_SYSCONFIG2 = 0x05"
| "reg_addr REG_SYSCONFIG3 = 0x06"
| "reg_addr REG_TEST1 = 0x07"
| "reg_addr REG_STATUSRSSI = 0x0A"
| "reg_addr REG_READCHAN = 0x0B"
| "reg_addr REG_RDSA = 0x0C"
| "reg_addr REG_RDSB = 0x0D"
| "reg_addr REG_RDSC = 0x0E"
| "reg_addr REG_RDSD = 0x0F"

subsection \<open>Bit fields\<close>

definition POWERCFG_SMUTE :: u16 where "POWERCFG_SMUTE = push_bit 15 1"
definition POWERCFG_DMUTE :: u16 where "POWERCFG_DMUTE = push_bit 14 1"
definition POWERCFG_SKMODE :: u16 where "POWERCFG_SKMODE = push_bit 10 1"
definition POWERCFG_SEEKUP :: u16 where "POWERCFG_SEEKUP = push_bit 9 1"
definition POWERCFG_SEEK :: u16 where "POWERCFG_SEEK = push_bit 8 1"
definition POWERCFG_DISABLE :: u16 where "POWERCFG_DISABLE = push_bit 6 1"
definition POWERCFG_ENABLE :: u16 where "POWERCFG_ENABLE = push_bit 0 1"

definition CHANNEL_TUNE :: u16 where "CHANNEL_TUNE = push_bit 15 1"
definition CHANNEL_CHAN_MASK :: u16 where "CHANNEL_CHAN_MASK = 0x03FF"

definition SYSCONFIG1_RDS :: u16 where "SYSCONFIG1_RDS = push_bit 12 1"
definition SYSCONFIG1_DE :: u16 where "SYSCONFIG1_DE = push_bit 11 1"
definition SYSCONFIG1_STCIEN :: u16 where "SYSCONFIG1_STCIEN = push_bit 14 1"

definition SYSCONFIG2_VOLUME_MASK :: u16 where "SYSCONFIG2_VOLUME_MASK = 0x000F"
definition SYSCONFIG2_SPACE_200KHZ :: u16 where "SYSCONFIG2_SPACE_200KHZ = push_bit 4 0"
definition SYSCONFIG2_SPACE_100KHZ :: u16 where "SYSCONFIG2_SPACE_100KHZ = push_bit 4 1"
definition SYSCONFIG2_SPACE_50KHZ :: u16 where "SYSCONFIG2_SPACE_50KHZ = push_bit 4 2"

definition SYSCONFIG3_SKSNR_MASK :: u16 where "SYSCONFIG3_SKSNR_MASK = 0x00F0"
definition SYSCONFIG3_SKCNT_MASK :: u16 where "SYSCONFIG3_SKCNT_MASK = 0x000F"

definition STATUSRSSI_RDSR :: u16 where "STATUSRSSI_RDSR = push_bit 15 1"
definition STATUSRSSI_STC :: u16 where "STATUSRSSI_STC = push_bit 14 1"
definition STATUSRSSI_SFBL :: u16 where "STATUSRSSI_SFBL = push_bit 13 1"
definition STATUSRSSI_AFCRL :: u16 where "STATUSRSSI_AFCRL = push_bit 12 1"
definition STATUSRSSI_RDSS :: u16 where "STATUSRSSI_RDSS = push_bit 11 1"
definition STATUSRSSI_STEREO :: u16 where "STATUSRSSI_STEREO = push_bit 8 1"
definition STATUSRSSI_RSSI_MASK :: u16 where "STATUSRSSI_RSSI_MASK = 0x00FF"

definition READCHAN_CHAN_MASK :: u16 where "READCHAN_CHAN_MASK = 0x03FF"

definition RDS_GROUP_TYPE_MASK :: u16 where "RDS_GROUP_TYPE_MASK = 0xF000"
definition RDS_GROUP_VERSION_B :: u16 where "RDS_GROUP_VERSION_B = push_bit 11 1"
definition RDS_PROGRAM_TYPE_MASK :: u16 where "RDS_PROGRAM_TYPE_MASK = 0x03E0"
definition RDS_TEXT_AB_FLAG :: u16 where "RDS_TEXT_AB_FLAG = push_bit 4 1"

subsection \<open>Band limits and internal constants\<close>

text \<open>The \<open>f\<close>-suffixed literals are rounded to binary32 like any other float.\<close>

definition SI4703_FREQ_MIN_MHZ :: float32 where "SI4703_FREQ_MIN_MHZ = fl32 (875 / 10)"
definition SI4703_FREQ_MAX_MHZ :: float32 where "SI4703_FREQ_MAX_MHZ = fl32 108"
definition SI4703_CHANNEL_SPACING_MHZ :: float32 where
  "SI4703_CHANNEL_SPACING_MHZ = fl32 (1 / 10)"

definition SI4703_REGISTER_COUNT :: nat where "SI4703_REGISTER_COUNT = 16"
definition SI4703_CONTROL_REG_START :: u8 where "SI4703_CONTROL_REG_START = 0x02"
definition SI4703_CONTROL_REG_END :: u8 where "SI4703_CONTROL_REG_END = 0x07"

subsection \<open>Declared enumerations\<close>

text \<open>Declared for a later seek and RDS engine; no operation of this revision uses them.\<close>

datatype si4703_state = IDLE | POWERING_UP | TUNING | SEEKING | RDS_READING | ERROR

datatype si4703_seek_direction = DOWN | UP

primrec seek_direction_val :: "si4703_seek_direction \<Rightarrow> u8" where
  "seek_direction_val DOWN = 0"
| "seek_direction_val UP = 1"

subsection \<open>Values\<close>

lemma reg_const_values [reg_consts]:
  "POWERCFG_DMUTE = 0x4000" "POWERCFG_DISABLE = 0x40" "POWERCFG_ENABLE = 1"
  "CHANNEL_TUNE = 0x8000" "CHANNEL_CHAN_MASK = 0x3FF"
  "SYSCONFIG1_RDS = 0x1000" "SYSCONFIG1_DE = 0x800" "SYSCONFIG1_STCIEN = 0x4000"
  "SYSCONFIG2_VOLUME_MASK = 0xF" "SYSCONFIG2_SPACE_100KHZ = 0x10"
  "STATUSRSSI_RSSI_MASK = 0xFF" "SI4703_I2C_ADDR = 0x10"
  by (simp_all add: POWERCFG_DMUTE_def POWERCFG_DISABLE_def POWERCFG_ENABLE_def
      CHANNEL_TUNE_def CHANNEL_CHAN_MASK_def SYSCONFIG1_RDS_def SYSCONFIG1_DE_def
      SYSCONFIG1_STCIEN_def SYSCONFIG2_VOLUME_MASK_def SYSCONFIG2_SPACE_100KHZ_def
      STATUSRSSI_RSSI_MASK_def SI4703_I2C_ADDR_def)

lemma band_values [reg_consts]:
  "SI4703_FREQ_MIN_MHZ = 875 / 10" "SI4703_FREQ_MAX_MHZ = 108"
  "SI4703_CHANNEL_SPACING_MHZ = 13421773 / 134217728"
  unfolding SI4703_FREQ_MIN_MHZ_def SI4703_FREQ_MAX_MHZ_def SI4703_CHANNEL_SPACING_MHZ_def
  by code_simp+

text \<open>The enum names exactly the registers \<open>0x00\<close>-\<open>0x07\<close> and \<open>0x0A\<close>-\<open>0x0F\<close>.\<close>

lemma reg_addr_range: "range reg_addr = {0x00..0x07} \<union> {0x0A..0x0F}"
proof
  have "reg_addr r \<in> {0x00..0x07} \<union> {0x0A..0x0F}" for r
    by (cases r) simp_all
  then show "range reg_addr \<subseteq> {0x00..0x07} \<union> {0x0A..0x0F}"
    by blast
next
  have "{0x00..0x07} \<union> {0x0A..0x0F} = set (map reg_addr
      [REG_DEVICEID, REG_CHIPID, REG_POWERCFG, REG_CHANNEL, REG_SYSCONFIG1, REG_SYSCONFIG2,
       REG_SYSCONFIG3, REG_TEST1, REG_STATUSRSSI, REG_READCHAN, REG_RDSA, REG_RDSB,
       REG_RDSC, REG_RDSD])"
    by code_simp
  then show "{0x00..0x07} \<union> {0x0A..0x0F} \<subseteq> range reg_addr"
    by (simp only: set_map) (rule image_mono, rule subset_UNIV)
qed

lemma reg_addr_inj: "inj reg_addr"
proof (rule injI)
  fix r s
  show "reg_addr r = reg_addr s \<Longrightarrow> r = s"
    by (cases r; cases s) simp_all
qed

end
