(* ===== verification/Wire.thy ===== *)
theory Wire
  imports Regs
begin

text \<open>
  The register transport the driver consumes: the Arduino \<open>Wire\<close> object of the ESP32
  core and the \<open>delay\<close> primitive. They are not part of \<open>src/\<close>, so they are modelled
  from the interface the spec names (section 6) and the documented behaviour of the ESP32
  \<open>TwoWire\<close> class: \<open>requestFrom\<close> fills a receive buffer with the bytes the device
  sends, \<open>read()\<close> pops one byte or returns \<open>-1\<close> once the buffer is exhausted,
  \<open>beginTransmission\<close>/\<open>write\<close> collect bytes and \<open>endTransmission()\<close> sends them and
  returns a status (\<open>0\<close> on success).

  The device on the bus is a parameter: a record of three functions over an arbitrary
  device state \<open>'d\<close> (answer a read, accept a write, let time pass). Every lemma of the
  driver holds for every device; theory \<open>Sim_Device\<close> supplies one concrete chip.
  The bus state is an extensible record, so that the operations below act on any record
  that extends it, in particular on the driver object of theory \<open>Sync\<close>; each operation
  also appends what it did to \<open>trace\<close>, the observable history of the bus.
\<close>

datatype bus_event =
    Wire_begin int int
  | Wire_clock u32
  | Delay_ms nat
  | I2C_read u8 nat "u8 list"
  | I2C_write u8 "u8 list" u8

record 'd device =
  dv_read :: "u8 \<Rightarrow> nat \<Rightarrow> 'd \<Rightarrow> u8 list \<times> 'd"
  dv_write :: "u8 \<Rightarrow> u8 list \<Rightarrow> 'd \<Rightarrow> u8 \<times> 'd"
  dv_wait :: "nat \<Rightarrow> 'd \<Rightarrow> 'd"

record 'd bus =
  dev :: 'd
  rx_buf :: "u8 list"
  tx_addr :: u8
  tx_buf :: "u8 list"
  trace :: "bus_event list"

definition gets :: "('s \<Rightarrow> 'a) \<Rightarrow> ('s, 'a) state" where
  "gets f = State (\<lambda>s. (f s, s))"

abbreviation skip :: "('s, unit) state" where
  "skip \<equiv> State_Monad.return ()"

subsection \<open>Operations of the Wire object\<close>

definition wire_begin :: "int \<Rightarrow> int \<Rightarrow> (('d, 'x) bus_scheme, unit) state" where
  "wire_begin sda scl = State_Monad.update (\<lambda>b. b\<lparr>trace := trace b @ [Wire_begin sda scl]\<rparr>)"

definition wire_setClock :: "u32 \<Rightarrow> (('d, 'x) bus_scheme, unit) state" where
  "wire_setClock hz = State_Monad.update (\<lambda>b. b\<lparr>trace := trace b @ [Wire_clock hz]\<rparr>)"

definition delay :: "'d device \<Rightarrow> nat \<Rightarrow> (('d, 'x) bus_scheme, unit) state" where
  "delay D ms = State_Monad.update
     (\<lambda>b. b\<lparr>dev := dv_wait D ms (dev b), trace := trace b @ [Delay_ms ms]\<rparr>)"

definition wire_requestFrom :: "'d device \<Rightarrow> u8 \<Rightarrow> u8 \<Rightarrow> (('d, 'x) bus_scheme, u8) state" where
  "wire_requestFrom D addr n = State (\<lambda>b.
     let (bs, d') = dv_read D addr (unat n) (dev b); got = take (unat n) bs
     in (of_nat (length got),
         b\<lparr>dev := d', rx_buf := got, trace := trace b @ [I2C_read addr (unat n) got]\<rparr>))"

definition wire_read :: "(('d, 'x) bus_scheme, int) state" where
  "wire_read = State (\<lambda>b. case rx_buf b of
       [] \<Rightarrow> (-1, b)
     | x # xs \<Rightarrow> (uint x, b\<lparr>rx_buf := xs\<rparr>))"

definition wire_beginTransmission :: "u8 \<Rightarrow> (('d, 'x) bus_scheme, unit) state" where
  "wire_beginTransmission addr = State_Monad.update (\<lambda>b. b\<lparr>tx_addr := addr, tx_buf := []\<rparr>)"

definition wire_write :: "u8 \<Rightarrow> (('d, 'x) bus_scheme, unit) state" where
  "wire_write x = State_Monad.update (\<lambda>b. b\<lparr>tx_buf := tx_buf b @ [x]\<rparr>)"

definition wire_endTransmission :: "'d device \<Rightarrow> (('d, 'x) bus_scheme, u8) state" where
  "wire_endTransmission D = State (\<lambda>b.
     let (st, d') = dv_write D (tx_addr b) (tx_buf b) (dev b)
     in (st, b\<lparr>dev := d', tx_buf := [],
                trace := trace b @ [I2C_write (tx_addr b) (tx_buf b) st]\<rparr>))"

subsection \<open>Reading the receive buffer\<close>

text \<open>
  The value \<open>read()\<close> returns at position \<open>k\<close> of a response: the byte, or \<open>-1\<close> past
  its end. Reading consumes the buffer from the front, so a run of reads is described by
  \<open>byte_at\<close> and \<open>drop\<close>.
\<close>

definition byte_at :: "u8 list \<Rightarrow> nat \<Rightarrow> int" where
  "byte_at bs k = (if k < length bs then uint (bs ! k) else -1)"

lemma run_wire_read [run_simps]:
  "run_state wire_read b = (byte_at (rx_buf b) 0, b\<lparr>rx_buf := drop 1 (rx_buf b)\<rparr>)"
  by (cases "rx_buf b") (simp_all add: wire_read_def byte_at_def)

lemma byte_at_drop [simp]: "byte_at (drop n bs) k = byte_at bs (n + k)"
  unfolding byte_at_def by (simp add: add.commute less_diff_conv)

lemma byte_at_range: "-1 \<le> byte_at bs k \<and> byte_at bs k < 256"
proof (cases "k < length bs")
  case True
  have a: "0 \<le> uint (bs ! k)" and b: "uint (bs ! k) < 256"
    using uint_lt2p [of "bs ! k"] by simp_all
  from a have "-1 \<le> uint (bs ! k)"
    by linarith
  with b True show ?thesis
    by (simp add: byte_at_def)
qed (simp add: byte_at_def)

lemma run_gets [run_simps]: "run_state (gets f) s = (f s, s)"
  by (simp add: gets_def)

lemma run_update [run_simps]: "run_state (State_Monad.update f) s = ((), f s)"
  by (simp add: State_Monad.update_def)

lemma run_wire_write [run_simps]:
  "run_state (wire_write x) b = ((), b\<lparr>tx_buf := tx_buf b @ [x]\<rparr>)"
  by (simp add: wire_write_def State_Monad.update_def)

lemma run_wire_beginTransmission [run_simps]:
  "run_state (wire_beginTransmission a) b = ((), b\<lparr>tx_addr := a, tx_buf := []\<rparr>)"
  by (simp add: wire_beginTransmission_def State_Monad.update_def)

lemma run_delay [run_simps]:
  "run_state (delay D ms) b =
     ((), b\<lparr>dev := dv_wait D ms (dev b), trace := trace b @ [Delay_ms ms]\<rparr>)"
  by (simp add: delay_def State_Monad.update_def)

lemma run_wire_begin [run_simps]:
  "run_state (wire_begin x y) b = ((), b\<lparr>trace := trace b @ [Wire_begin x y]\<rparr>)"
  by (simp add: wire_begin_def State_Monad.update_def)

lemma run_wire_setClock [run_simps]:
  "run_state (wire_setClock hz) b = ((), b\<lparr>trace := trace b @ [Wire_clock hz]\<rparr>)"
  by (simp add: wire_setClock_def State_Monad.update_def)

lemma run_wire_requestFrom [run_simps]:
  "run_state (wire_requestFrom D addr n) b =
     (of_nat (length (take (unat n) (fst (dv_read D addr (unat n) (dev b))))),
      b\<lparr>dev := snd (dv_read D addr (unat n) (dev b)),
        rx_buf := take (unat n) (fst (dv_read D addr (unat n) (dev b))),
        trace := trace b @ [I2C_read addr (unat n) (take (unat n) (fst (dv_read D addr (unat n) (dev b))))]\<rparr>)"
  by (simp add: wire_requestFrom_def Let_def split: prod.splits)

lemma run_wire_endTransmission [run_simps]:
  "run_state (wire_endTransmission D) b =
     (fst (dv_write D (tx_addr b) (tx_buf b) (dev b)),
      b\<lparr>dev := snd (dv_write D (tx_addr b) (tx_buf b) (dev b)), tx_buf := [],
        trace := trace b @ [I2C_write (tx_addr b) (tx_buf b) (fst (dv_write D (tx_addr b) (tx_buf b) (dev b)))]\<rparr>)"
  by (simp add: wire_endTransmission_def split: prod.splits)

end
