(* ===== verification/Sync.thy ===== *)
theory Sync
  imports Wire
begin

text \<open>
  The driver object of \<open>src/src/SI4703.h\<close> and the register synchronizer of
  \<open>src/src/SI4703.cpp\<close>. The object's fields extend the bus record, so that the
  object together with the \<open>Wire\<close> bus it drives is one state threaded through the
  state monad. \<open>readRegisters\<close> requests 32 bytes and scatters them, as sixteen
  big-endian words, over the shadow store starting at address \<open>0x0A\<close> and wrapping at
  \<open>0x10\<close>; \<open>writeRegisters\<close> sends the control window \<open>0x02\<close>-\<open>0x07\<close>, high byte
  first. Both loops are \<^theory_text>\<open>function\<close>s over the \<open>uint8_t\<close> loop counter with a
  termination proof.
  The lemmas show what each operation does to the whole state: the shadow store after a
  read is the reference scatter of the spec (word \<open>k\<close> at \<open>(0x0A + k) mod 16\<close>, a missing
  byte read as \<open>-1\<close>), a write transmits exactly the twelve bytes of registers
  \<open>0x02\<close>-\<open>0x07\<close> in ascending order, and both keep the store at sixteen words.
\<close>

unbundle bit_operations_syntax

record 'd si4703 = "'d bus" +
  i2cAddr :: u8
  sda :: int
  scl :: int
  i2cClock :: u32
  regs :: "u16 list"
  currentFreq :: float32
  initialized :: bool

text \<open>\<open>SI4703::SI4703()\<close>: the bus part is the initial state of the \<open>Wire\<close> object.\<close>

definition SI4703_new :: "'d \<Rightarrow> 'd si4703" where
  "SI4703_new d = \<lparr>dev = d, rx_buf = [], tx_addr = 0, tx_buf = [], trace = [],
     i2cAddr = SI4703_I2C_ADDR, sda = -1, scl = -1, i2cClock = 100000,
     regs = replicate SI4703_REGISTER_COUNT 0, currentFreq = 0, initialized = False\<rparr>"

subsection \<open>Access to the shadow store\<close>

definition get_reg :: "u8 \<Rightarrow> (('d, 'x) si4703_scheme, u16) state" where
  "get_reg i = gets (\<lambda>s. regs s ! unat i)"

definition set_reg :: "u8 \<Rightarrow> u16 \<Rightarrow> (('d, 'x) si4703_scheme, unit) state" where
  "set_reg i v = State_Monad.update (\<lambda>s. s\<lparr>regs := (regs s)[unat i := v]\<rparr>)"

text \<open>A compound assignment \<open>_regs[i] op= e\<close>.\<close>

definition modify_reg :: "u8 \<Rightarrow> (u16 \<Rightarrow> u16) \<Rightarrow> (('d, 'x) si4703_scheme, unit) state" where
  "modify_reg i f = State_Monad.update (\<lambda>s. s\<lparr>regs := (regs s)[unat i := f (regs s ! unat i)]\<rparr>)"

subsection \<open>\<open>readRegisters\<close>\<close>

text \<open>
  The loop of \<open>readRegisters\<close>: wrap the counter at \<open>0x10\<close>, read two bytes, store the
  word, stop after address \<open>0x09\<close>. The measure is the distance to \<open>0x09\<close> counted in
  \<open>uint8_t\<close> arithmetic, which decreases on every iteration from any start.
\<close>

definition wrap_reg :: "u8 \<Rightarrow> u8" where
  "wrap_reg reg = (if reg = 0x10 then 0 else reg)"

text \<open>
  One register of the read loop: \<open>hi\<close> and \<open>lo\<close> are the \<open>uint16_t\<close> locals the two
  \<open>Wire.read()\<close> results are stored in (so \<open>-1\<close> becomes \<open>0xFFFF\<close>), and the register is
  \<open>(hi << 8) | lo\<close> truncated to 16 bits.
\<close>

definition read_word :: "int \<Rightarrow> int \<Rightarrow> u16" where
  "read_word hi lo = push_bit 8 (word_of_int hi) OR word_of_int lo"

function read_loop :: "u8 \<Rightarrow> (('d, 'x) si4703_scheme, unit) state" where
  "read_loop reg0 = (let reg = wrap_reg reg0 in do {
     hi \<leftarrow> wire_read;
     lo \<leftarrow> wire_read;
     set_reg reg (read_word hi lo);
     if reg = 0x09 then skip else read_loop (reg + 1)
   })"
  by pat_completeness auto
termination
proof (relation "measure (\<lambda>reg. unat (0x09 - wrap_reg reg))")
  fix reg0 :: u8 and reg
  assume reg: "reg = wrap_reg reg0" and ne: "reg \<noteq> 0x09"
  show "(reg + 1, reg0) \<in> measure (\<lambda>reg. unat (0x09 - wrap_reg reg))"
  proof (cases "reg + 1 = 0x10")
    case True
    have "reg = (reg + 1) - 1"
      by simp
    with True have "reg = 0x0F"
      by simp
    then show ?thesis
      using reg True by (simp add: wrap_reg_def)
  next
    case False
    have nz: "0x09 - reg \<noteq> 0"
      using ne by simp
    then have "unat (0x09 - reg) \<noteq> 0"
      by (simp add: unat_eq_zero)
    moreover have "unat (0x08 - reg) = unat (0x09 - reg) - 1"
      using unat_minus_one [OF nz] by simp
    ultimately have "unat (0x08 - reg) < unat (0x09 - reg)"
      by linarith
    moreover have "wrap_reg reg0 = reg" "wrap_reg (reg + 1) = reg + 1"
      using reg False by (simp_all add: wrap_reg_def)
    ultimately show ?thesis
      by (simp add: algebra_simps)
  qed
qed simp

declare read_loop.simps [simp del]

definition readRegisters :: "'d device \<Rightarrow> (('d, 'x) si4703_scheme, unit) state" where
  "readRegisters D = do {
     addr \<leftarrow> gets i2cAddr;
     _ \<leftarrow> wire_requestFrom D addr 32;
     read_loop 0x0A
   }"

subsection \<open>\<open>writeRegisters\<close>\<close>

function write_loop :: "u8 \<Rightarrow> (('d, 'x) si4703_scheme, unit) state" where
  "write_loop reg = (if reg \<le> reg_addr REG_TEST1 then do {
     r \<leftarrow> get_reg reg;
     wire_write (hi_byte r);
     wire_write (lo_byte r);
     write_loop (reg + 1)
   } else skip)"
  by pat_completeness auto
termination
proof (relation "measure (\<lambda>reg. 8 - unat reg)")
  fix reg :: u8
  assume "reg \<le> reg_addr REG_TEST1"
  then have "unat reg \<le> 7"
    by (simp add: word_le_nat_alt)
  then have "unat (reg + 1) = unat reg + 1"
    by (simp add: unat_add_lem [THEN iffD1])
  with \<open>unat reg \<le> 7\<close> show "(reg + 1, reg) \<in> measure (\<lambda>reg. 8 - unat reg)"
    by simp
qed simp

declare write_loop.simps [simp del]

definition writeRegisters :: "'d device \<Rightarrow> (('d, 'x) si4703_scheme, bool) state" where
  "writeRegisters D = do {
     addr \<leftarrow> gets i2cAddr;
     wire_beginTransmission addr;
     write_loop (reg_addr REG_POWERCFG);
     st \<leftarrow> wire_endTransmission D;
     State_Monad.return (st = 0)
   }"

subsection \<open>Reference behaviour of the synchronizer\<close>

text \<open>
  The spec's description of the two windows: the \<open>k\<close>-th big-endian word of a response,
  each missing byte read as \<open>-1\<close> (so a missing word reads \<open>0xFFFF\<close>); the full read
  stores word \<open>k\<close> at address \<open>(0x0A + k) mod 16\<close>, that is address \<open>i\<close> receives word
  \<open>(i + 6) mod 16\<close>; the control write sends registers \<open>0x02\<close>-\<open>0x07\<close> high byte first.
\<close>

definition word_in :: "u8 list \<Rightarrow> nat \<Rightarrow> u16" where
  "word_in bs k = read_word (byte_at bs (2 * k)) (byte_at bs (2 * k + 1))"

definition scatter :: "u8 list \<Rightarrow> u16 list" where
  "scatter bs = map (\<lambda>i. word_in bs ((i + 6) mod 16)) [0..<16]"

definition control_bytes :: "u16 list \<Rightarrow> u8 list" where
  "control_bytes rs = concat (map (\<lambda>i. [hi_byte (rs ! i), lo_byte (rs ! i)]) [2..<8])"

text \<open>The register \<open>i\<close> of the control window as a device decodes it from the twelve bytes.\<close>

definition control_word :: "u8 list \<Rightarrow> nat \<Rightarrow> u16" where
  "control_word bs i = word16_of (ucast (bs ! (2 * (i - 2)))) (ucast (bs ! (2 * (i - 2) + 1)))"

definition response :: "'d device \<Rightarrow> ('d, 'x) si4703_scheme \<Rightarrow> u8 list" where
  "response D s = take 32 (fst (dv_read D (i2cAddr s) 32 (dev s)))"

lemma low_byte_read_word: "(ucast (read_word hi lo AND 0xFF) :: u8) = word_of_int lo"
  unfolding read_word_def mask8_u16
  by (rule bit_word_eqI) (auto simp: bit_simps)

lemma length_scatter [simp]: "length (scatter bs) = 16"
  by (simp add: scatter_def)

subsection \<open>Register access\<close>

lemma run_set_reg [run_simps]:
  "run_state (set_reg i v) s = ((), s\<lparr>regs := (regs s)[unat i := v]\<rparr>)"
  by (simp add: set_reg_def State_Monad.update_def)

lemma run_get_reg [run_simps]:
  "run_state (get_reg i) s = (regs s ! unat i, s)"
  by (simp add: get_reg_def run_simps)

lemma run_modify_reg [run_simps]:
  "run_state (modify_reg i f) s = ((), s\<lparr>regs := (regs s)[unat i := f (regs s ! unat i)]\<rparr>)"
  by (simp add: modify_reg_def State_Monad.update_def)

subsection \<open>The full read\<close>

lemma read_loop_0A:
  "run_state (read_loop 0x0A) s = ((), s\<lparr>rx_buf := drop 32 (rx_buf s), regs := (regs s)
     [10 := word_in (rx_buf s) 0, 11 := word_in (rx_buf s) 1, 12 := word_in (rx_buf s) 2,
      13 := word_in (rx_buf s) 3, 14 := word_in (rx_buf s) 4, 15 := word_in (rx_buf s) 5,
      0 := word_in (rx_buf s) 6, 1 := word_in (rx_buf s) 7, 2 := word_in (rx_buf s) 8,
      3 := word_in (rx_buf s) 9, 4 := word_in (rx_buf s) 10, 5 := word_in (rx_buf s) 11,
      6 := word_in (rx_buf s) 12, 7 := word_in (rx_buf s) 13, 8 := word_in (rx_buf s) 14,
      9 := word_in (rx_buf s) 15]\<rparr>)"
  by (simp add: read_loop.simps wrap_reg_def run_simps word_in_def numeral_2_eq_2 [symmetric])

lemma scatter_updates:
  assumes "length rs = 16"
  shows "rs[10 := word_in bs 0, 11 := word_in bs 1, 12 := word_in bs 2, 13 := word_in bs 3,
      14 := word_in bs 4, 15 := word_in bs 5, 0 := word_in bs 6, 1 := word_in bs 7,
      2 := word_in bs 8, 3 := word_in bs 9, 4 := word_in bs 10, 5 := word_in bs 11,
      6 := word_in bs 12, 7 := word_in bs 13, 8 := word_in bs 14, 9 := word_in bs 15]
    = scatter bs" (is "?u = _")
proof (rule nth_equalityI)
  show "length ?u = length (scatter bs)"
    using assms by (simp add: scatter_def)
  have "\<forall>i \<in> {..<16}. ?u ! i = scatter bs ! i"
    using assms by (simp add: lessThan_nat_numeral scatter_def)
  then show "?u ! i = scatter bs ! i" if "i < length ?u" for i
    using that assms by simp
qed

lemma run_readRegisters [run_simps]:
  assumes "length (regs s) = 16"
  shows "run_state (readRegisters D) s =
    ((), s\<lparr>dev := snd (dv_read D (i2cAddr s) 32 (dev s)), rx_buf := [],
          trace := trace s @ [I2C_read (i2cAddr s) 32 (response D s)],
          regs := scatter (response D s)\<rparr>)"
proof -
  let ?s1 = "s\<lparr>dev := snd (dv_read D (i2cAddr s) 32 (dev s)), rx_buf := response D s,
               trace := trace s @ [I2C_read (i2cAddr s) 32 (response D s)]\<rparr>"
  have run: "run_state (readRegisters D) s = run_state (read_loop 0x0A) ?s1"
    by (simp add: readRegisters_def run_simps response_def)
  have len: "length (regs ?s1) = 16"
    using assms by simp
  have "drop 32 (response D s) = []"
    by (simp add: response_def)
  then show ?thesis
    unfolding run read_loop_0A scatter_updates [OF len] by simp
qed

subsection \<open>The control write\<close>

lemma write_loop_02:
  "run_state (write_loop 0x02) s = ((), s\<lparr>tx_buf := tx_buf s @ control_bytes (regs s)\<rparr>)"
  by (simp add: write_loop.simps run_simps control_bytes_def upt_rec)

lemma run_writeRegisters [run_simps]:
  "run_state (writeRegisters D) s =
    (fst (dv_write D (i2cAddr s) (control_bytes (regs s)) (dev s)) = 0,
     s\<lparr>dev := snd (dv_write D (i2cAddr s) (control_bytes (regs s)) (dev s)),
       tx_addr := i2cAddr s, tx_buf := [],
       trace := trace s @ [I2C_write (i2cAddr s) (control_bytes (regs s))
                            (fst (dv_write D (i2cAddr s) (control_bytes (regs s)) (dev s)))]\<rparr>)"
  by (simp add: writeRegisters_def run_simps write_loop_02)

lemma control_word_bytes:
  assumes "i \<in> {2..7}"
  shows "control_word (control_bytes rs) i = rs ! i"
proof -
  have "\<forall>j \<in> set [2..<8]. control_word (control_bytes rs) j = rs ! j"
    by (simp add: upt_rec control_bytes_def control_word_def)
  moreover have "i \<in> set [2..<8]"
    using assms by auto
  ultimately show ?thesis
    by blast
qed

lemma word_in_short:
  assumes "length bs \<le> 2 * k + 1"
  shows "word_in bs k = 0xFFFF"
proof -
  have "read_word h (-1) = 0xFFFF" for h
    by (simp add: read_word_def)
  then show ?thesis
    using assms by (simp add: word_in_def byte_at_def)
qed

subsection \<open>Properties of the synchronizer\<close>

text \<open>
  C1: a full read scatters the sixteen words of the device's response over the shadow
  store by the wrap rule of the spec: word \<open>k\<close> (bytes \<open>2k\<close> and \<open>2k+1\<close>, high byte
  first) lands at address \<open>(0x0A + k) mod 16\<close>, so word 0 at \<open>0x0A\<close>, word 5 at \<open>0x0F\<close>,
  word 6 at \<open>0x00\<close>; the receive buffer is consumed and the store keeps its sixteen slots.
\<close>

theorem readRegisters_scatter:
  assumes "length (regs s) = 16"
  shows "(\<forall>k<16. regs (snd (run_state (readRegisters D) s)) ! ((10 + k) mod 16)
                  = word_in (response D s) k)
         \<and> length (regs (snd (run_state (readRegisters D) s))) = 16
         \<and> rx_buf (snd (run_state (readRegisters D) s)) = []"
proof -
  have "scatter bs ! ((10 + k) mod 16) = word_in bs k" if "k < 16" for bs k
  proof -
    have "((10 + k) mod 16 + 6) mod 16 = k"
      using that by (simp add: mod_add_left_eq)
    then show ?thesis
      by (simp add: scatter_def)
  qed
  then show ?thesis
    using assms by (simp add: run_readRegisters scatter_def)
qed

theorem readRegisters_scatter_witness:
  "length (regs (SI4703_new ())) = 16 \<and>
   regs (snd (run_state (readRegisters
       \<lparr>dv_read = \<lambda>a n d. (map of_nat [0..<32], d), dv_write = \<lambda>a bs d. (0, d),
        dv_wait = \<lambda>n d. d\<rparr>) (SI4703_new ()))) ! ((10 + 6) mod 16)
     = word_in (response \<lparr>dv_read = \<lambda>a n d. (map of_nat [0..<32], d), dv_write = \<lambda>a bs d. (0, d),
        dv_wait = \<lambda>n d. d\<rparr> (SI4703_new ())) 6"
proof -
  have len: "length (regs (SI4703_new ())) = 16"
    by (simp add: SI4703_new_def SI4703_REGISTER_COUNT_def)
  have "(6::nat) < 16" by simp
  then show ?thesis
    using readRegisters_scatter [OF len] len by blast
qed

text \<open>
  C2: a control write opens one transmission to the driver's bus address and sends
  exactly twelve bytes, the high then the low byte of registers \<open>0x02\<close>, \<open>0x03\<close>, ...,
  \<open>0x07\<close> in ascending order; it reports success exactly when \<open>endTransmission\<close>
  returns status 0.
\<close>

theorem writeRegisters_window:
  "trace (snd (run_state (writeRegisters D) s)) = trace s @
     [I2C_write (i2cAddr s)
        [hi_byte (regs s ! 2), lo_byte (regs s ! 2), hi_byte (regs s ! 3), lo_byte (regs s ! 3),
         hi_byte (regs s ! 4), lo_byte (regs s ! 4), hi_byte (regs s ! 5), lo_byte (regs s ! 5),
         hi_byte (regs s ! 6), lo_byte (regs s ! 6), hi_byte (regs s ! 7), lo_byte (regs s ! 7)]
        (fst (dv_write D (i2cAddr s) (control_bytes (regs s)) (dev s)))]
   \<and> fst (run_state (writeRegisters D) s) = (fst (dv_write D (i2cAddr s) (control_bytes (regs s)) (dev s)) = 0)"
  by (simp add: run_writeRegisters control_bytes_def upt_rec)

text \<open>
  C3: registers outside the control window never reach the bus: changing the shadow
  value of any address other than \<open>0x02\<close>-\<open>0x07\<close> before a control write changes neither
  what the write transmits, nor its result, nor the device it leaves behind.
\<close>

lemma control_bytes_update:
  assumes "i \<notin> {2..7}"
  shows "control_bytes (rs[i := v]) = control_bytes rs"
proof -
  from assms have "i \<noteq> 2" "i \<noteq> 3" "i \<noteq> 4" "i \<noteq> 5" "i \<noteq> 6" "i \<noteq> 7"
    by auto
  then show ?thesis
    by (simp add: control_bytes_def upt_rec)
qed

theorem writeRegisters_ignores_outside:
  assumes "i \<notin> {2..7}"
  shows "run_state (writeRegisters D) (s\<lparr>regs := (regs s)[i := v]\<rparr>)
         = (let (ok, s') = run_state (writeRegisters D) s in (ok, s'\<lparr>regs := (regs s)[i := v]\<rparr>))"
  using assms by (simp add: run_writeRegisters control_bytes_update)

theorem writeRegisters_ignores_outside_witness:
  "(0::nat) \<notin> {2..7} \<and>
   run_state (writeRegisters \<lparr>dv_read = \<lambda>a n d. ([], d), dv_write = \<lambda>a bs d. (0, d), dv_wait = \<lambda>n d. d\<rparr>)
     ((SI4703_new ())\<lparr>regs := (regs (SI4703_new ()))[0 := 0xBEEF]\<rparr>)
   = (let (ok, s') = run_state (writeRegisters \<lparr>dv_read = \<lambda>a n d. ([], d), dv_write = \<lambda>a bs d. (0, d), dv_wait = \<lambda>n d. d\<rparr>) (SI4703_new ())
      in (ok, s'\<lparr>regs := (regs (SI4703_new ()))[0 := 0xBEEF]\<rparr>))"
proof -
  have h: "(0::nat) \<notin> {2..7}" by simp
  show ?thesis
    using writeRegisters_ignores_outside [OF h] h by blast
qed

text \<open>
  C24: a short answer is not detected. When the device sends fewer than 32 bytes,
  \<open>Wire.read()\<close> returns \<open>-1\<close> for the missing ones, the \<open>uint16_t\<close> locals hold
  \<open>0xFFFF\<close>, and every word whose low byte is missing is stored as \<open>0xFFFF\<close>:
  nothing in the shadow store distinguishes it from a register that reads all ones.
\<close>

theorem readRegisters_short_response:
  assumes "length (regs s) = 16" "j < 16" "length (response D s) \<le> 2 * j + 1"
  shows "regs (snd (run_state (readRegisters D) s)) ! ((10 + j) mod 16) = 0xFFFF"
proof -
  have "((10 + j) mod 16 + 6) mod 16 = j"
    using assms(2) by presburger
  then show ?thesis
    using assms by (simp add: run_readRegisters scatter_def word_in_short)
qed

theorem readRegisters_short_response_witness:
  "length (regs (SI4703_new ())) = 16 \<and> (2 :: nat) < 16
   \<and> length (response \<lparr>dv_read = \<lambda>a n d. ([0x12, 0x42, 0x10, 0x53, 0x0C], d), dv_write = \<lambda>a bs d. (0, d),
        dv_wait = \<lambda>n d. d\<rparr> (SI4703_new ())) \<le> 2 * 2 + 1
   \<and> regs (snd (run_state (readRegisters \<lparr>dv_read = \<lambda>a n d. ([0x12, 0x42, 0x10, 0x53, 0x0C], d),
        dv_write = \<lambda>a bs d. (0, d), dv_wait = \<lambda>n d. d\<rparr>) (SI4703_new ()))) ! ((10 + 2) mod 16) = 0xFFFF"
proof -
  have h: "length (regs (SI4703_new ())) = 16" "(2 :: nat) < 16"
    "length (response \<lparr>dv_read = \<lambda>a n d. ([0x12, 0x42, 0x10, 0x53, 0x0C], d), dv_write = \<lambda>a bs d. (0, d),
        dv_wait = \<lambda>n d. d\<rparr> (SI4703_new ())) \<le> 2 * 2 + 1"
    by (simp_all add: SI4703_new_def SI4703_REGISTER_COUNT_def response_def)
  show ?thesis
    using readRegisters_short_response [OF h] h by blast
qed

end
