(* ===== verification/Sequencer.thy ===== *)
theory Sequencer
  imports Sync
begin

text \<open>
  The timed read-modify-write sequences of \<open>src/src/SI4703.cpp\<close>: \<open>powerUp\<close>,
  \<open>reset\<close> and \<open>setFrequency\<close>, each a \<open>do\<close>-block that follows the statements of its
  C++ body, with the \<open>if (!_initialized) return;\<close> guards as the first branch.
  \<open>setFrequency\<close> clamps its \<open>float\<close> argument with the source's two comparisons and
  converts it to a channel in binary32 arithmetic (theory \<open>Float32\<close>).
  The lemmas give the whole effect of each sequence on the driver and the bus: the
  registers staged, the events on the bus in order, the cached frequency.
\<close>

unbundle bit_operations_syntax

subsection \<open>Power-up\<close>

definition powerUp :: "'d device \<Rightarrow> (('d, 'x) si4703_scheme, unit) state" where
  "powerUp D = do {
     readRegisters D;
     set_reg (reg_addr REG_TEST1) 0x8100;
     set_reg (reg_addr REG_SYSCONFIG1) (SYSCONFIG1_RDS OR SYSCONFIG1_DE);
     set_reg (reg_addr REG_SYSCONFIG2) SYSCONFIG2_SPACE_100KHZ;
     set_reg (reg_addr REG_POWERCFG) (POWERCFG_ENABLE OR POWERCFG_DMUTE);
     _ \<leftarrow> writeRegisters D;
     delay D 110
   }"

subsection \<open>Soft reset\<close>

definition reset :: "'d device \<Rightarrow> (('d, 'x) si4703_scheme, unit) state" where
  "reset D = do {
     init \<leftarrow> gets initialized;
     if \<not> init then skip else do {
       readRegisters D;
       modify_reg (reg_addr REG_POWERCFG) (\<lambda>r. r OR POWERCFG_DISABLE);
       _ \<leftarrow> writeRegisters D;
       delay D 10;
       powerUp D
     }
   }"

subsection \<open>Tuning\<close>

text \<open>
  The clamp of the requested frequency (two \<open>float\<close> comparisons, which are exact) and
  the conversion \<open>(uint16_t)((mhz - SI4703_FREQ_MIN_MHZ) / SI4703_CHANNEL_SPACING_MHZ)\<close>:
  a rounded subtraction, a rounded division, a truncation.
\<close>

definition clamp_freq :: "float32 \<Rightarrow> float32" where
  "clamp_freq mhz0 =
     (let mhz = (if mhz0 < SI4703_FREQ_MIN_MHZ then SI4703_FREQ_MIN_MHZ else mhz0)
      in if mhz > SI4703_FREQ_MAX_MHZ then SI4703_FREQ_MAX_MHZ else mhz)"

definition channel_quot :: "float32 \<Rightarrow> float32" where
  "channel_quot mhz = fl32 (fl32 (mhz - SI4703_FREQ_MIN_MHZ) / SI4703_CHANNEL_SPACING_MHZ)"

definition channel_of :: "float32 \<Rightarrow> u16" where
  "channel_of mhz = f2u16 (channel_quot mhz)"

definition setFrequency :: "'d device \<Rightarrow> float32 \<Rightarrow> (('d, 'x) si4703_scheme, unit) state" where
  "setFrequency D mhz0 = do {
     init \<leftarrow> gets initialized;
     if \<not> init then skip else do {
       let mhz = clamp_freq mhz0;
       let channel = channel_of mhz;
       readRegisters D;
       modify_reg (reg_addr REG_CHANNEL) (\<lambda>r. r AND NOT CHANNEL_CHAN_MASK);
       modify_reg (reg_addr REG_CHANNEL) (\<lambda>r. r OR channel);
       modify_reg (reg_addr REG_CHANNEL) (\<lambda>r. r OR CHANNEL_TUNE);
       _ \<leftarrow> writeRegisters D;
       delay D 60;
       readRegisters D;
       modify_reg (reg_addr REG_CHANNEL) (\<lambda>r. r AND NOT CHANNEL_TUNE);
       _ \<leftarrow> writeRegisters D;
       State_Monad.update (\<lambda>s. s\<lparr>currentFreq := mhz\<rparr>)
     }
   }"

subsection \<open>Range of the channel conversion\<close>

lemma clamp_freq_range: "875 / 10 \<le> clamp_freq m \<and> clamp_freq m \<le> 108"
  by (simp add: clamp_freq_def Let_def band_values)

lemma clamp_freq_id: "875 / 10 \<le> m \<Longrightarrow> m \<le> 108 \<Longrightarrow> clamp_freq m = m"
  by (simp add: clamp_freq_def Let_def band_values)

lemma fl32_band_values: "fl32 (41 / 2) = 41 / 2" "fl32 ((41 / 2) / (13421773 / 134217728)) = 205"
  by code_simp+

lemma channel_quot_range:
  assumes "875 / 10 \<le> m" "m \<le> 108"
  shows "0 \<le> channel_quot m \<and> channel_quot m \<le> 205"
proof -
  have d: "0 \<le> m - 875 / 10" "m - 875 / 10 \<le> 41 / 2"
    using assms by simp_all
  then have e: "0 \<le> fl32 (m - 875 / 10)" "fl32 (m - 875 / 10) \<le> 41 / 2"
    using fl32_nonneg fl32_mono [OF d(1) d(2)] by (simp_all add: fl32_band_values)
  define q where "q = fl32 (m - 875 / 10) / (13421773 / 134217728)"
  have q: "0 \<le> q" "q \<le> (41 / 2) / (13421773 / 134217728)"
    using e by (simp_all add: q_def divide_right_mono)
  have "fl32 q \<le> fl32 ((41 / 2) / (13421773 / 134217728))"
    using q by (rule fl32_mono)
  then have "0 \<le> fl32 q" "fl32 q \<le> 205"
    using fl32_nonneg [OF q(1)] by (simp_all only: fl32_band_values)
  then show ?thesis
    by (simp add: channel_quot_def band_values q_def)
qed

lemma trunc_f_range: "0 \<le> q \<Longrightarrow> q \<le> 205 \<Longrightarrow> 0 \<le> trunc_f q \<and> trunc_f q \<le> 205"
  by (simp add: trunc_f_def floor_le_iff)

lemma channel_of_range:
  assumes "875 / 10 \<le> m" "m \<le> 108"
  shows "f2u16_defined (channel_quot m) \<and> unat (channel_of m) = nat (trunc_f (channel_quot m))
         \<and> unat (channel_of m) \<le> 205"
proof -
  have t: "0 \<le> trunc_f (channel_quot m)" "trunc_f (channel_quot m) \<le> 205"
    using trunc_f_range channel_quot_range [OF assms] by blast+
  then have "unat (channel_of m) = nat (trunc_f (channel_quot m))"
    by (simp add: channel_of_def f2u16_def unsigned_of_int take_bit_int_eq_self)
  with t show ?thesis
    by (simp add: f2u16_defined_def)
qed

lemma channel_quot_mono:
  assumes "875 / 10 \<le> a" "a \<le> b"
  shows "channel_quot a \<le> channel_quot b"
proof -
  have d: "0 \<le> a - 875 / 10" "a - 875 / 10 \<le> b - 875 / 10"
    using assms by simp_all
  have e: "fl32 (a - 875 / 10) \<le> fl32 (b - 875 / 10)" "0 \<le> fl32 (a - 875 / 10)"
    using fl32_mono [OF d] fl32_nonneg [OF d(1)] by simp_all
  have "fl32 (a - 875 / 10) / (13421773 / 134217728) \<le> fl32 (b - 875 / 10) / (13421773 / 134217728)"
    "0 \<le> fl32 (a - 875 / 10) / (13421773 / 134217728)"
    using e by (simp_all add: divide_right_mono)
  then show ?thesis
    unfolding channel_quot_def band_values by (rule fl32_mono [rotated])
qed

lemma clamp_freq_mono: "m1 \<le> m2 \<Longrightarrow> clamp_freq m1 \<le> clamp_freq m2"
  by (auto simp: clamp_freq_def Let_def band_values)

subsection \<open>Bit fields of the CHANNEL register\<close>

lemma CHANNEL_CHAN_MASK_mask: "CHANNEL_CHAN_MASK = mask 10"
  by (simp add: CHANNEL_CHAN_MASK_def mask_eq_exp_minus_1)

lemma bit_CHANNEL_TUNE: "bit CHANNEL_TUNE n \<longleftrightarrow> n = 15"
  unfolding CHANNEL_TUNE_def bit_push_bit_iff by (auto simp: bit_1_iff)

lemma small_bits:
  assumes "unat (w :: u16) \<le> 205" "bit w n"
  shows "n < 10"
proof -
  have "w < 2 ^ 10"
    using assms(1) by (simp add: word_less_nat_alt)
  then have "w AND mask 10 = w"
    by (rule less_mask_eq)
  then show ?thesis
    using assms(2) by (metis bit_and_iff bit_mask_iff)
qed

lemma channel_word_fields:
  assumes "unat (ch :: u16) \<le> 205"
  shows "((x AND NOT CHANNEL_CHAN_MASK OR ch) OR CHANNEL_TUNE) AND CHANNEL_CHAN_MASK = ch"
    and "((x AND NOT CHANNEL_CHAN_MASK OR ch) OR CHANNEL_TUNE) AND CHANNEL_TUNE = CHANNEL_TUNE"
  using small_bits [OF assms]
  by (auto intro!: bit_word_eqI simp: bit_simps CHANNEL_CHAN_MASK_mask bit_CHANNEL_TUNE)

lemma tune_cleared:
  "(y AND NOT CHANNEL_TUNE) AND CHANNEL_TUNE = 0"
  "(y AND NOT CHANNEL_TUNE) AND CHANNEL_CHAN_MASK = y AND CHANNEL_CHAN_MASK"
  by (auto intro!: bit_word_eqI simp: bit_simps CHANNEL_CHAN_MASK_mask bit_CHANNEL_TUNE)

subsection \<open>Effect of the sequences\<close>

lemma run_powerUp [run_simps]:
  assumes "length (regs s) = 16"
  shows "run_state (powerUp D) s =
    (let r = response D s; d1 = snd (dv_read D (i2cAddr s) 32 (dev s));
         rs = (scatter r)[7 := 0x8100, 4 := SYSCONFIG1_RDS OR SYSCONFIG1_DE,
                          5 := SYSCONFIG2_SPACE_100KHZ, 2 := POWERCFG_ENABLE OR POWERCFG_DMUTE];
         w = dv_write D (i2cAddr s) (control_bytes rs) d1
     in ((), s\<lparr>dev := dv_wait D 110 (snd w), rx_buf := [], tx_addr := i2cAddr s, tx_buf := [],
              trace := trace s @ [I2C_read (i2cAddr s) 32 r,
                                  I2C_write (i2cAddr s) (control_bytes rs) (fst w), Delay_ms 110],
              regs := rs\<rparr>))"
  using assms by (simp add: powerUp_def run_simps Let_def)

lemma run_reset_off: "\<not> initialized s \<Longrightarrow> run_state (reset D) s = ((), s)"
  by (simp add: reset_def run_simps)

lemma run_reset:
  assumes "length (regs s) = 16" "initialized s"
  shows "run_state (reset D) s =
    (let r = response D s; d1 = snd (dv_read D (i2cAddr s) 32 (dev s));
         rs = (scatter r)[2 := scatter r ! 2 OR POWERCFG_DISABLE];
         w = dv_write D (i2cAddr s) (control_bytes rs) d1
     in run_state (powerUp D)
          (s\<lparr>dev := dv_wait D 10 (snd w), rx_buf := [], tx_addr := i2cAddr s, tx_buf := [],
              trace := trace s @ [I2C_read (i2cAddr s) 32 r,
                                  I2C_write (i2cAddr s) (control_bytes rs) (fst w), Delay_ms 10],
              regs := rs\<rparr>))"
  using assms
  by (simp add: reset_def run_simps Let_def del: run_powerUp)
    (rule arg_cong [where f = "run_state (powerUp D)"], simp)

lemma run_setFrequency_off: "\<not> initialized s \<Longrightarrow> run_state (setFrequency D m) s = ((), s)"
  by (simp add: setFrequency_def run_simps)

lemma run_setFrequency:
  assumes "length (regs s) = 16" "initialized s"
  shows "run_state (setFrequency D m) s =
    (let a = i2cAddr s; ch = channel_of (clamp_freq m);
         r1 = response D s; d1 = snd (dv_read D a 32 (dev s));
         rs1 = (scatter r1)[3 := (scatter r1 ! 3 AND NOT CHANNEL_CHAN_MASK OR ch) OR CHANNEL_TUNE];
         w1 = dv_write D a (control_bytes rs1) d1;
         d2 = dv_wait D 60 (snd w1);
         r2 = take 32 (fst (dv_read D a 32 d2)); d3 = snd (dv_read D a 32 d2);
         rs2 = (scatter r2)[3 := scatter r2 ! 3 AND NOT CHANNEL_TUNE];
         w2 = dv_write D a (control_bytes rs2) d3
     in ((), s\<lparr>dev := snd w2, rx_buf := [], tx_addr := a, tx_buf := [],
              trace := trace s @ [I2C_read a 32 r1, I2C_write a (control_bytes rs1) (fst w1),
                                  Delay_ms 60, I2C_read a 32 r2,
                                  I2C_write a (control_bytes rs2) (fst w2)],
              regs := rs2, currentFreq := clamp_freq m\<rparr>))"
  using assms by (simp add: setFrequency_def run_simps Let_def response_def)

subsection \<open>Properties of the sequencer\<close>

text \<open>
  C4: on an initialised driver, \<open>setFrequency\<close> performs, in this order, a full read, a
  control write whose CHANNEL word carries the converted channel in its 10-bit CHAN field
  and the TUNE bit set, a 60 ms wait, a second full read and a control write whose
  CHANNEL word has TUNE cleared and the CHAN field as read back; the cached frequency is
  then the clamped request.
\<close>

theorem setFrequency_tune_sequence:
  assumes "length (regs s) = 16" "initialized s"
  shows "\<exists>r1 b1 st1 r2 b2 st2.
     trace (snd (run_state (setFrequency D m) s)) = trace s @
       [I2C_read (i2cAddr s) 32 r1, I2C_write (i2cAddr s) b1 st1, Delay_ms 60,
        I2C_read (i2cAddr s) 32 r2, I2C_write (i2cAddr s) b2 st2]
     \<and> control_word b1 3 AND CHANNEL_CHAN_MASK = channel_of (clamp_freq m)
     \<and> control_word b1 3 AND CHANNEL_TUNE = CHANNEL_TUNE
     \<and> control_word b2 3 AND CHANNEL_TUNE = 0
     \<and> control_word b2 3 AND CHANNEL_CHAN_MASK = word_in r2 9 AND CHANNEL_CHAN_MASK
     \<and> currentFreq (snd (run_state (setFrequency D m) s)) = clamp_freq m"
proof -
  have ch: "unat (channel_of (clamp_freq m)) \<le> 205"
    using channel_of_range clamp_freq_range by blast
  show ?thesis
    using assms
    by (simp add: run_setFrequency Let_def control_word_bytes channel_word_fields [OF ch]
        tune_cleared scatter_def)
qed

theorem setFrequency_tune_sequence_witness:
  "length (regs ((SI4703_new ())\<lparr>initialized := True\<rparr>)) = 16 \<and>
   initialized ((SI4703_new ())\<lparr>initialized := True\<rparr>) \<and>
   (\<exists>r1 b1 st1 r2 b2 st2.
     trace (snd (run_state (setFrequency
        \<lparr>dv_read = \<lambda>a n d. (replicate 32 0x11, d), dv_write = \<lambda>a bs d. (0, d), dv_wait = \<lambda>n d. d\<rparr>
        (1003 / 10)) ((SI4703_new ())\<lparr>initialized := True\<rparr>))) =
       trace ((SI4703_new ())\<lparr>initialized := True\<rparr>) @
       [I2C_read (i2cAddr ((SI4703_new ())\<lparr>initialized := True\<rparr>)) 32 r1,
        I2C_write (i2cAddr ((SI4703_new ())\<lparr>initialized := True\<rparr>)) b1 st1, Delay_ms 60,
        I2C_read (i2cAddr ((SI4703_new ())\<lparr>initialized := True\<rparr>)) 32 r2,
        I2C_write (i2cAddr ((SI4703_new ())\<lparr>initialized := True\<rparr>)) b2 st2]
     \<and> control_word b1 3 AND CHANNEL_CHAN_MASK = channel_of (clamp_freq (1003 / 10))
     \<and> control_word b1 3 AND CHANNEL_TUNE = CHANNEL_TUNE
     \<and> control_word b2 3 AND CHANNEL_TUNE = 0
     \<and> control_word b2 3 AND CHANNEL_CHAN_MASK = word_in r2 9 AND CHANNEL_CHAN_MASK
     \<and> currentFreq (snd (run_state (setFrequency
        \<lparr>dv_read = \<lambda>a n d. (replicate 32 0x11, d), dv_write = \<lambda>a bs d. (0, d), dv_wait = \<lambda>n d. d\<rparr>
        (1003 / 10)) ((SI4703_new ())\<lparr>initialized := True\<rparr>))) = clamp_freq (1003 / 10))"
proof -
  have h: "length (regs ((SI4703_new ())\<lparr>initialized := True\<rparr>)) = 16"
    "initialized ((SI4703_new ())\<lparr>initialized := True\<rparr>)"
    by (simp_all add: SI4703_new_def SI4703_REGISTER_COUNT_def)
  show ?thesis
    using setFrequency_tune_sequence [OF h] h by blast
qed

text \<open>
  C5: for every requested frequency the conversion \<open>(uint16_t)((mhz - 87.5f) / 0.1f)\<close>
  is a defined C++ conversion (its truncated value fits in \<open>uint16_t\<close>) and yields a
  channel of at most 205, so the \<open>|=\<close> into the CHANNEL register never reaches beyond
  the 10-bit CHAN field.
\<close>

theorem setFrequency_channel_bounds:
  "f2u16_defined (channel_quot (clamp_freq m)) \<and> unat (channel_of (clamp_freq m)) \<le> 205
   \<and> channel_of (clamp_freq m) AND NOT CHANNEL_CHAN_MASK = 0"
proof -
  have r: "f2u16_defined (channel_quot (clamp_freq m))" "unat (channel_of (clamp_freq m)) \<le> 205"
    using channel_of_range clamp_freq_range by blast+
  have "channel_of (clamp_freq m) AND NOT CHANNEL_CHAN_MASK = 0"
    using small_bits [OF r(2)]
    by (auto intro!: bit_word_eqI simp: bit_simps CHANNEL_CHAN_MASK_mask)
  with r show ?thesis
    by blast
qed

text \<open>
  C6: the clamp of \<open>setFrequency\<close> is \<open>max 87.5 (min 108 mhz)\<close>, and the band edges
  convert to channels 0 and 205: every request at or below 87.5 MHz tunes channel 0 and
  caches 87.5, every request at or above 108 MHz tunes channel 205 and caches 108.
\<close>

theorem setFrequency_clamp_edges:
  "clamp_freq m = max (875 / 10) (min 108 m)
   \<and> channel_of (875 / 10) = 0 \<and> channel_of 108 = 205"
proof -
  have "clamp_freq m = max (875 / 10) (min 108 m)"
    by (simp add: clamp_freq_def Let_def band_values)
  moreover have "channel_of (875 / 10) = 0" "channel_of 108 = 205"
    unfolding channel_of_def channel_quot_def by code_simp+
  ultimately show ?thesis
    by blast
qed

text \<open>
  C7: the channel of \<open>setFrequency\<close> is monotone in the request and is the integer part of
  the binary32 quotient \<open>(mhz - 87.5f) / 0.1f\<close>: a higher request never tunes a lower
  channel, and the conversion truncates (it never rounds the quotient up).
\<close>

theorem setFrequency_channel_monotone:
  assumes "m1 \<le> m2"
  shows "channel_of (clamp_freq m1) \<le> channel_of (clamp_freq m2)
    \<and> of_nat (unat (channel_of (clamp_freq m1))) \<le> channel_quot (clamp_freq m1)
    \<and> channel_quot (clamp_freq m1) < of_nat (unat (channel_of (clamp_freq m1))) + 1"
proof -
  let ?a = "clamp_freq m1" and ?b = "clamp_freq m2"
  have ra: "875 / 10 \<le> ?a" "?a \<le> 108" and rb: "875 / 10 \<le> ?b" "?b \<le> 108"
    using clamp_freq_range by blast+
  have q: "channel_quot ?a \<le> channel_quot ?b"
    using channel_quot_mono [OF ra(1) clamp_freq_mono [OF assms]] .
  have qa: "0 \<le> channel_quot ?a"
    using channel_quot_range [OF ra] by blast
  have ua: "unat (channel_of ?a) = nat \<lfloor>channel_quot ?a\<rfloor>"
    using channel_of_range [OF ra] qa by (simp add: trunc_f_def)
  have ub: "unat (channel_of ?b) = nat \<lfloor>channel_quot ?b\<rfloor>"
    using channel_of_range [OF rb] qa q by (simp add: trunc_f_def)
  have "unat (channel_of ?a) \<le> unat (channel_of ?b)"
    unfolding ua ub using q by (simp add: floor_mono nat_mono)
  moreover have "of_nat (unat (channel_of ?a)) \<le> channel_quot ?a"
    "channel_quot ?a < of_nat (unat (channel_of ?a)) + 1"
    unfolding ua using qa floor_correct [of "channel_quot ?a"] by auto
  ultimately show ?thesis
    by (simp add: word_le_nat_alt)
qed

theorem setFrequency_channel_monotone_witness:
  "(876 / 10 :: float32) \<le> 95
   \<and> channel_of (clamp_freq (876 / 10)) \<le> channel_of (clamp_freq 95)"
  using setFrequency_channel_monotone [of "876 / 10" 95] by simp

text \<open>
  The truncation loses a channel on ordinary requests. \<open>87.6\<close> as a \<open>float\<close> is
  \<open>87.59999847...\<close>; the rounded quotient is just below 1 and truncates to channel 0
  (87.5 MHz), although the spec's formula \<open>\<lfloor>(87.6 - 87.5) / 0.1\<rfloor>\<close> is 1 and
  \<open>setFrequency\<close> caches \<open>87.6f\<close>. The same happens at 88.1 (channel 5 instead of 6).
\<close>

theorem setFrequency_truncation_loss:
  "fl32 (876 / 10) = 11481907 / 131072
   \<and> clamp_freq (fl32 (876 / 10)) = fl32 (876 / 10)
   \<and> channel_of (clamp_freq (fl32 (876 / 10))) = 0
   \<and> \<lfloor>(876 / 10 - 875 / 10) / (1 / 10 :: rat)\<rfloor> = 1
   \<and> channel_of (clamp_freq (fl32 (881 / 10))) = 5
   \<and> \<lfloor>(881 / 10 - 875 / 10) / (1 / 10 :: rat)\<rfloor> = 6"
  unfolding channel_of_def channel_quot_def clamp_freq_def by code_simp

text \<open>
  C8: \<open>powerUp\<close> reads the registers, writes one control block and then waits 110 ms.
  The block is POWERCFG = \<open>0x4001\<close> (ENABLE and DMUTE, every other bit cleared), CHANNEL
  as read, SYSCONFIG1 = \<open>0x1800\<close> (RDS and DE), SYSCONFIG2 = \<open>0x0010\<close> (100 kHz
  spacing, volume 0, band 0), SYSCONFIG3 as read and TEST1 = \<open>0x8100\<close>.
\<close>

theorem powerUp_block:
  assumes "length (regs s) = 16"
  shows "\<exists>r st. trace (snd (run_state (powerUp D) s)) = trace s @
     [I2C_read (i2cAddr s) 32 r,
      I2C_write (i2cAddr s) [0x40, 0x01, hi_byte (word_in r 9), lo_byte (word_in r 9),
                             0x18, 0x00, 0x00, 0x10, hi_byte (word_in r 12), lo_byte (word_in r 12),
                             0x81, 0x00] st,
      Delay_ms 110]"
  using assms
  by (simp add: run_powerUp Let_def control_bytes_def upt_rec scatter_def reg_const_values
      hi_byte_def lo_byte_def)

theorem powerUp_block_witness:
  "length (regs (SI4703_new ())) = 16 \<and>
   (\<exists>r st. trace (snd (run_state (powerUp
        \<lparr>dv_read = \<lambda>a n d. (replicate 32 0x11, d), dv_write = \<lambda>a bs d. (0, d), dv_wait = \<lambda>n d. d\<rparr>)
        (SI4703_new ()))) = trace (SI4703_new ()) @
     [I2C_read (i2cAddr (SI4703_new ())) 32 r,
      I2C_write (i2cAddr (SI4703_new ())) [0x40, 0x01, hi_byte (word_in r 9), lo_byte (word_in r 9),
                             0x18, 0x00, 0x00, 0x10, hi_byte (word_in r 12), lo_byte (word_in r 12),
                             0x81, 0x00] st,
      Delay_ms 110])"
proof -
  have h: "length (regs (SI4703_new ())) = 16"
    by (simp add: SI4703_new_def SI4703_REGISTER_COUNT_def)
  show ?thesis
    using powerUp_block [OF h] h by blast
qed

text \<open>
  C9: \<open>reset\<close> on an initialised driver is a power cycle in this order: full read, a
  control write whose POWERCFG is the value read with the DISABLE bit set (every other
  control register as read), a 10 ms wait, then the whole power-up sequence (full read,
  the power-up block, 110 ms wait).
\<close>

theorem reset_sequence:
  assumes "length (regs s) = 16" "initialized s"
  shows "\<exists>r1 b1 st1 r2 b2 st2.
     trace (snd (run_state (reset D) s)) = trace s @
       [I2C_read (i2cAddr s) 32 r1, I2C_write (i2cAddr s) b1 st1, Delay_ms 10,
        I2C_read (i2cAddr s) 32 r2, I2C_write (i2cAddr s) b2 st2, Delay_ms 110]
     \<and> control_word b1 2 = word_in r1 8 OR POWERCFG_DISABLE
     \<and> (\<forall>i \<in> {3..7}. control_word b1 i = word_in r1 ((i + 6) mod 16))
     \<and> control_word b2 2 = POWERCFG_ENABLE OR POWERCFG_DMUTE
     \<and> control_word b2 7 = 0x8100"
proof -
  have "\<forall>i \<in> {3..7}. control_word (control_bytes ((scatter r)[2 := v])) i = word_in r ((i + 6) mod 16)"
    for r v by (simp add: control_word_bytes scatter_def)
  then show ?thesis
    using assms
    by (simp add: run_reset Let_def run_powerUp control_word_bytes scatter_def)
qed

theorem reset_sequence_witness:
  "length (regs ((SI4703_new ())\<lparr>initialized := True\<rparr>)) = 16 \<and>
   initialized ((SI4703_new ())\<lparr>initialized := True\<rparr>) \<and>
   (\<exists>r1 b1 st1 r2 b2 st2.
     trace (snd (run_state (reset
        \<lparr>dv_read = \<lambda>a n d. (replicate 32 0x11, d), dv_write = \<lambda>a bs d. (0, d), dv_wait = \<lambda>n d. d\<rparr>)
        ((SI4703_new ())\<lparr>initialized := True\<rparr>))) = trace ((SI4703_new ())\<lparr>initialized := True\<rparr>) @
       [I2C_read (i2cAddr ((SI4703_new ())\<lparr>initialized := True\<rparr>)) 32 r1,
        I2C_write (i2cAddr ((SI4703_new ())\<lparr>initialized := True\<rparr>)) b1 st1, Delay_ms 10,
        I2C_read (i2cAddr ((SI4703_new ())\<lparr>initialized := True\<rparr>)) 32 r2,
        I2C_write (i2cAddr ((SI4703_new ())\<lparr>initialized := True\<rparr>)) b2 st2, Delay_ms 110]
     \<and> control_word b1 2 = word_in r1 8 OR POWERCFG_DISABLE
     \<and> control_word b1 3 = word_in r1 ((3 + 6) mod 16)
     \<and> control_word b2 2 = POWERCFG_ENABLE OR POWERCFG_DMUTE
     \<and> control_word b2 7 = 0x8100)"
proof -
  have h: "length (regs ((SI4703_new ())\<lparr>initialized := True\<rparr>)) = 16"
    "initialized ((SI4703_new ())\<lparr>initialized := True\<rparr>)"
    by (simp_all add: SI4703_new_def SI4703_REGISTER_COUNT_def)
  have "(3::nat) \<in> {3..7}" by simp
  then show ?thesis
    using reset_sequence [OF h] h by blast
qed

end
