(* ===== verification/Commands.thy ===== *)
theory Commands
  imports Sequencer
begin

text \<open>
  The public command surface of \<open>src/src/SI4703.cpp\<close>: \<open>begin\<close> (named
  \<open>SI4703_begin\<close>, \<open>begin\<close> being a keyword of the theory language), \<open>getFrequency\<close>,
  \<open>setVolume\<close>, \<open>getRSSI\<close> and \<open>process\<close>. Every command but \<open>begin\<close> starts with the
  \<open>_initialized\<close> guard of the source. The lemmas give each command's whole effect;
  the properties show the volume field written, the RSSI value returned, that an
  uninitialised driver ignores every command, and what \<open>begin\<close> does on the three kinds
  of bus it can meet (no device, a device reporting ID 0, a device with an ID).
\<close>

unbundle bit_operations_syntax

definition SI4703_begin :: "'d device \<Rightarrow> int \<Rightarrow> int \<Rightarrow> u32 \<Rightarrow> (('d, 'x) si4703_scheme, bool) state" where
  "SI4703_begin D sda0 scl0 clk = do {
     State_Monad.update (\<lambda>s. s\<lparr>sda := sda0, scl := scl0, i2cClock := clk\<rparr>);
     wire_begin sda0 scl0;
     c \<leftarrow> gets i2cClock;
     wire_setClock c;
     delay D 10;
     readRegisters D;
     devid \<leftarrow> get_reg (reg_addr REG_DEVICEID);
     if devid = 0x0000 then State_Monad.return False else do {
       powerUp D;
       State_Monad.update (\<lambda>s. s\<lparr>initialized := True\<rparr>);
       State_Monad.return True
     }
   }"

definition getFrequency :: "(('d, 'x) si4703_scheme, float32) state" where
  "getFrequency = gets currentFreq"

definition setVolume :: "'d device \<Rightarrow> u8 \<Rightarrow> (('d, 'x) si4703_scheme, unit) state" where
  "setVolume D volume0 = do {
     init \<leftarrow> gets initialized;
     if \<not> init then skip else do {
       let volume = (if volume0 > 15 then 15 else volume0);
       readRegisters D;
       modify_reg (reg_addr REG_SYSCONFIG2) (\<lambda>r. r AND NOT SYSCONFIG2_VOLUME_MASK);
       modify_reg (reg_addr REG_SYSCONFIG2) (\<lambda>r. r OR ucast volume);
       _ \<leftarrow> writeRegisters D;
       skip
     }
   }"

definition getRSSI :: "'d device \<Rightarrow> (('d, 'x) si4703_scheme, u8) state" where
  "getRSSI D = do {
     init \<leftarrow> gets initialized;
     if \<not> init then State_Monad.return 0 else do {
       readRegisters D;
       r \<leftarrow> get_reg (reg_addr REG_STATUSRSSI);
       State_Monad.return (ucast (r AND STATUSRSSI_RSSI_MASK))
     }
   }"

definition process :: "(('d, 'x) si4703_scheme, unit) state" where
  "process = skip"

subsection \<open>Effect of the commands\<close>

lemma run_getFrequency [run_simps]: "run_state getFrequency s = (currentFreq s, s)"
  by (simp add: getFrequency_def run_simps)

lemma run_process [run_simps]: "run_state process s = ((), s)"
  by (simp add: process_def)

lemma run_setVolume_off: "\<not> initialized s \<Longrightarrow> run_state (setVolume D v) s = ((), s)"
  by (simp add: setVolume_def run_simps)

lemma run_getRSSI_off: "\<not> initialized s \<Longrightarrow> run_state (getRSSI D) s = (0, s)"
  by (simp add: getRSSI_def run_simps)

lemma run_setVolume:
  assumes "length (regs s) = 16" "initialized s"
  shows "run_state (setVolume D v) s =
    (let r = response D s; vol = (if v > 15 then 15 else v);
         rs = (scatter r)[5 := scatter r ! 5 AND NOT SYSCONFIG2_VOLUME_MASK OR ucast vol];
         w = dv_write D (i2cAddr s) (control_bytes rs) (snd (dv_read D (i2cAddr s) 32 (dev s)))
     in ((), s\<lparr>dev := snd w, rx_buf := [], tx_addr := i2cAddr s, tx_buf := [],
              trace := trace s @ [I2C_read (i2cAddr s) 32 r,
                                  I2C_write (i2cAddr s) (control_bytes rs) (fst w)],
              regs := rs\<rparr>))"
  using assms by (simp add: setVolume_def run_simps Let_def)

lemma run_getRSSI:
  assumes "length (regs s) = 16" "initialized s"
  shows "run_state (getRSSI D) s =
    (ucast (word_in (response D s) 0 AND STATUSRSSI_RSSI_MASK), snd (run_state (readRegisters D) s))"
  using assms by (simp add: getRSSI_def run_simps scatter_def)

text \<open>The state \<open>begin\<close> reaches before it looks at the device ID.\<close>

definition begin_probe :: "'d device \<Rightarrow> int \<Rightarrow> int \<Rightarrow> u32 \<Rightarrow> ('d, 'x) si4703_scheme \<Rightarrow> ('d, 'x) si4703_scheme" where
  "begin_probe D sda0 scl0 clk s = snd (run_state (readRegisters D)
     (s\<lparr>sda := sda0, scl := scl0, i2cClock := clk, dev := dv_wait D 10 (dev s),
        trace := trace s @ [Wire_begin sda0 scl0, Wire_clock clk, Delay_ms 10]\<rparr>))"

lemma run_begin:
  assumes "length (regs s) = 16"
  shows "run_state (SI4703_begin D sda0 scl0 clk) s =
    (let s1 = begin_probe D sda0 scl0 clk s in
     if regs s1 ! 0 = 0 then (False, s1)
     else (True, (snd (run_state (powerUp D) s1))\<lparr>initialized := True\<rparr>))"
  using assms
  by (simp add: SI4703_begin_def run_simps Let_def begin_probe_def prod.case_eq_if del: run_powerUp)

lemma begin_probe_fields:
  assumes "length (regs s) = 16"
  shows "regs (begin_probe D sda0 scl0 clk s) = scatter (response D (s\<lparr>dev := dv_wait D 10 (dev s)\<rparr>))"
    and "initialized (begin_probe D sda0 scl0 clk s) = initialized s"
    and "i2cAddr (begin_probe D sda0 scl0 clk s) = i2cAddr s"
    and "sda (begin_probe D sda0 scl0 clk s) = sda0 \<and> scl (begin_probe D sda0 scl0 clk s) = scl0
         \<and> i2cClock (begin_probe D sda0 scl0 clk s) = clk"
    and "trace (begin_probe D sda0 scl0 clk s) = trace s @ [Wire_begin sda0 scl0, Wire_clock clk,
           Delay_ms 10, I2C_read (i2cAddr s) 32 (response D (s\<lparr>dev := dv_wait D 10 (dev s)\<rparr>))]"
  using assms by (simp_all add: begin_probe_def run_readRegisters response_def)

subsection \<open>Properties of the commands\<close>

lemma volume_field:
  assumes "unat (vol :: u8) \<le> 15"
  shows "(x AND NOT SYSCONFIG2_VOLUME_MASK OR ucast vol) AND SYSCONFIG2_VOLUME_MASK = ucast vol"
    and "(x AND NOT SYSCONFIG2_VOLUME_MASK OR ucast vol) AND NOT SYSCONFIG2_VOLUME_MASK
         = x AND NOT SYSCONFIG2_VOLUME_MASK"
proof -
  have "(vol :: u8) < 2 ^ 4"
    using assms by (simp add: word_less_nat_alt)
  then have "vol AND mask 4 = vol"
    by (rule less_mask_eq)
  then have "bit vol n \<Longrightarrow> n < 4" for n
    by (metis bit_and_iff bit_mask_iff)
  moreover have m: "SYSCONFIG2_VOLUME_MASK = mask 4"
    by (simp add: SYSCONFIG2_VOLUME_MASK_def mask_eq_exp_minus_1)
  ultimately have "(ucast vol :: u16) AND NOT SYSCONFIG2_VOLUME_MASK = 0"
    unfolding m by (auto intro!: bit_word_eqI simp: bit_simps)
  then show "(x AND NOT SYSCONFIG2_VOLUME_MASK OR ucast vol) AND SYSCONFIG2_VOLUME_MASK = ucast vol"
    and "(x AND NOT SYSCONFIG2_VOLUME_MASK OR ucast vol) AND NOT SYSCONFIG2_VOLUME_MASK
         = x AND NOT SYSCONFIG2_VOLUME_MASK"
    by (rule and_not_or_low)+
qed

text \<open>
  C10: \<open>setVolume v\<close> on an initialised driver reads the registers and writes one control
  block in which the low four bits of SYSCONFIG2 are \<open>min v 15\<close>, its other twelve bits
  and every other control register are as read.
\<close>

theorem setVolume_low_nibble:
  assumes "length (regs s) = 16" "initialized s"
  shows "\<exists>r b st.
     trace (snd (run_state (setVolume D v) s)) = trace s @
       [I2C_read (i2cAddr s) 32 r, I2C_write (i2cAddr s) b st]
     \<and> control_word b 5 AND SYSCONFIG2_VOLUME_MASK = ucast (min v 15)
     \<and> control_word b 5 AND NOT SYSCONFIG2_VOLUME_MASK = word_in r 11 AND NOT SYSCONFIG2_VOLUME_MASK
     \<and> (\<forall>i \<in> {2, 3, 4, 6, 7}. control_word b i = word_in r ((i + 6) mod 16))"
proof -
  have vol: "unat (if v > 15 then 15 else v) \<le> 15"
    by (simp add: word_less_nat_alt not_less word_le_nat_alt)
  have mn: "(if v > 15 then 15 else v) = min v 15"
    by (auto simp: min_def dest: leD)
  show ?thesis
    using assms volume_field [OF vol, unfolded mn]
    by (simp add: run_setVolume Let_def control_word_bytes scatter_def mn)
qed

theorem setVolume_low_nibble_witness:
  "length (regs ((SI4703_new ())\<lparr>initialized := True\<rparr>)) = 16 \<and>
   initialized ((SI4703_new ())\<lparr>initialized := True\<rparr>) \<and>
   (\<exists>r b st.
     trace (snd (run_state (setVolume
        \<lparr>dv_read = \<lambda>a n d. (replicate 32 0x5A, d), dv_write = \<lambda>a bs d. (0, d), dv_wait = \<lambda>n d. d\<rparr> 40)
        ((SI4703_new ())\<lparr>initialized := True\<rparr>))) = trace ((SI4703_new ())\<lparr>initialized := True\<rparr>) @
       [I2C_read (i2cAddr ((SI4703_new ())\<lparr>initialized := True\<rparr>)) 32 r,
        I2C_write (i2cAddr ((SI4703_new ())\<lparr>initialized := True\<rparr>)) b st]
     \<and> control_word b 5 AND SYSCONFIG2_VOLUME_MASK = ucast (min (40 :: u8) 15)
     \<and> control_word b 5 AND NOT SYSCONFIG2_VOLUME_MASK = word_in r 11 AND NOT SYSCONFIG2_VOLUME_MASK
     \<and> control_word b 2 = word_in r ((2 + 6) mod 16))"
proof -
  have h: "length (regs ((SI4703_new ())\<lparr>initialized := True\<rparr>)) = 16"
    "initialized ((SI4703_new ())\<lparr>initialized := True\<rparr>)"
    by (simp_all add: SI4703_new_def SI4703_REGISTER_COUNT_def)
  have "(2::nat) \<in> {2, 3, 4, 6, 7}" by simp
  then show ?thesis
    using setVolume_low_nibble [OF h] h by blast
qed

text \<open>
  C11: \<open>getRSSI\<close> on an initialised driver performs one full read and returns the low
  byte of the status register, which is the second byte of the device's answer, or
  \<open>0xFF\<close> when the answer is shorter (\<open>Wire.read()\<close> returns \<open>-1\<close>).
\<close>

theorem getRSSI_status_byte:
  assumes "length (regs s) = 16" "initialized s"
  shows "fst (run_state (getRSSI D) s) = word_of_int (byte_at (response D s) 1)
    \<and> trace (snd (run_state (getRSSI D) s)) = trace s @ [I2C_read (i2cAddr s) 32 (response D s)]"
  using assms
  by (simp add: run_getRSSI run_readRegisters word_in_def reg_const_values low_byte_read_word)

theorem getRSSI_status_byte_witness:
  "length (regs ((SI4703_new ())\<lparr>initialized := True\<rparr>)) = 16 \<and>
   initialized ((SI4703_new ())\<lparr>initialized := True\<rparr>) \<and>
   fst (run_state (getRSSI \<lparr>dv_read = \<lambda>a n d. ([0x12, 0x2A], d), dv_write = \<lambda>a bs d. (0, d),
       dv_wait = \<lambda>n d. d\<rparr>) ((SI4703_new ())\<lparr>initialized := True\<rparr>))
   = word_of_int (byte_at (response \<lparr>dv_read = \<lambda>a n d. ([0x12, 0x2A], d), dv_write = \<lambda>a bs d. (0, d),
       dv_wait = \<lambda>n d. d\<rparr> ((SI4703_new ())\<lparr>initialized := True\<rparr>)) 1)"
proof -
  have h: "length (regs ((SI4703_new ())\<lparr>initialized := True\<rparr>)) = 16"
    "initialized ((SI4703_new ())\<lparr>initialized := True\<rparr>)"
    by (simp_all add: SI4703_new_def SI4703_REGISTER_COUNT_def)
  show ?thesis
    using getRSSI_status_byte [OF h] h by blast
qed

text \<open>
  C12: while \<open>_initialized\<close> is false every command except \<open>begin\<close> is a no-op that
  touches neither the bus nor the driver: \<open>reset\<close>, \<open>setFrequency\<close>, \<open>setVolume\<close> and
  \<open>process\<close> change nothing, \<open>getRSSI\<close> returns 0 and \<open>getFrequency\<close> the cached value.
\<close>

theorem uninitialized_commands_noop:
  assumes "\<not> initialized s"
  shows "run_state (reset D) s = ((), s) \<and> run_state (setFrequency D m) s = ((), s)
    \<and> run_state (setVolume D v) s = ((), s) \<and> run_state (getRSSI D) s = (0, s)
    \<and> run_state getFrequency s = (currentFreq s, s) \<and> run_state process s = ((), s)"
  using assms
  by (simp add: run_reset_off run_setFrequency_off run_setVolume_off run_getRSSI_off run_simps)

theorem uninitialized_commands_noop_witness:
  "\<not> initialized (SI4703_new ()) \<and>
   run_state (reset \<lparr>dv_read = \<lambda>a n d. ([], d), dv_write = \<lambda>a bs d. (2, d), dv_wait = \<lambda>n d. d\<rparr>)
     (SI4703_new ()) = ((), SI4703_new ())
   \<and> run_state (setFrequency \<lparr>dv_read = \<lambda>a n d. ([], d), dv_write = \<lambda>a bs d. (2, d), dv_wait = \<lambda>n d. d\<rparr> 100)
     (SI4703_new ()) = ((), SI4703_new ())
   \<and> run_state (setVolume \<lparr>dv_read = \<lambda>a n d. ([], d), dv_write = \<lambda>a bs d. (2, d), dv_wait = \<lambda>n d. d\<rparr> 7)
     (SI4703_new ()) = ((), SI4703_new ())
   \<and> run_state (getRSSI \<lparr>dv_read = \<lambda>a n d. ([], d), dv_write = \<lambda>a bs d. (2, d), dv_wait = \<lambda>n d. d\<rparr>)
     (SI4703_new ()) = (0, SI4703_new ())
   \<and> run_state getFrequency (SI4703_new ()) = (currentFreq (SI4703_new ()), SI4703_new ())
   \<and> run_state process (SI4703_new ()) = ((), SI4703_new ())"
proof -
  have h: "\<not> initialized (SI4703_new ())"
    by (simp add: SI4703_new_def)
  show ?thesis
    using uninitialized_commands_noop [OF h] h by blast
qed


text \<open>
  C13: \<open>begin\<close> on a bus where no device answers (every read returns no byte) reports
  success and marks the driver initialised: \<open>Wire.read()\<close> then returns \<open>-1\<close> for every
  byte, so the DEVICEID shadow word is \<open>0xFFFF\<close> and passes the \<open>== 0x0000\<close> absence test.
\<close>

theorem begin_absent_device_succeeds:
  assumes "length (regs s) = 16" "\<forall>a n d. fst (dv_read D a n d) = []"
  shows "fst (run_state (SI4703_begin D sda0 scl0 clk) s)
    \<and> initialized (snd (run_state (SI4703_begin D sda0 scl0 clk) s))
    \<and> regs (snd (run_state (SI4703_begin D sda0 scl0 clk) s)) ! 0 = 0xFFFF"
proof -
  have r: "response D t = []" for t
    using assms(2) by (simp add: response_def)
  have w: "word_in [] k = 0xFFFF" for k
    by (simp add: word_in_short)
  have len1: "length (regs (begin_probe D sda0 scl0 clk s)) = 16"
    using begin_probe_fields(1) [OF assms(1)] by simp
  have id: "regs (begin_probe D sda0 scl0 clk s) ! 0 = 0xFFFF"
    using begin_probe_fields(1) [OF assms(1)] by (simp add: r w scatter_def)
  show ?thesis
    using assms(1) len1 id by (simp add: run_begin run_powerUp Let_def r w scatter_def)
qed

theorem begin_absent_device_succeeds_witness:
  "length (regs (SI4703_new ())) = 16 \<and>
   (\<forall>a n d. fst (dv_read \<lparr>dv_read = \<lambda>a n d. ([], d), dv_write = \<lambda>a bs d. (2, d), dv_wait = \<lambda>n d. d\<rparr> a n d) = []) \<and>
   fst (run_state (SI4703_begin \<lparr>dv_read = \<lambda>a n d. ([], d), dv_write = \<lambda>a bs d. (2, d), dv_wait = \<lambda>n d. d\<rparr>
     21 22 400000) (SI4703_new ()))"
proof -
  have h: "length (regs (SI4703_new ())) = 16"
    "\<forall>a n d. fst (dv_read \<lparr>dv_read = \<lambda>a n d. ([], d), dv_write = \<lambda>a bs d. (2, d), dv_wait = \<lambda>n d. d\<rparr> a n d) = []"
    by (simp_all add: SI4703_new_def SI4703_REGISTER_COUNT_def)
  show ?thesis
    using begin_absent_device_succeeds [OF h] h by blast
qed

text \<open>
  C14: when the DEVICEID word read by \<open>begin\<close> is \<open>0\<close>, \<open>begin\<close> returns false after the bus
  set-up and one read, writes nothing to the chip and leaves \<open>_initialized\<close> as it was.
\<close>

theorem begin_zero_id_fails:
  assumes "length (regs s) = 16" "word_in (response D (s\<lparr>dev := dv_wait D 10 (dev s)\<rparr>)) 6 = 0"
  shows "run_state (SI4703_begin D sda0 scl0 clk) s = (False, begin_probe D sda0 scl0 clk s)
    \<and> initialized (begin_probe D sda0 scl0 clk s) = initialized s
    \<and> trace (begin_probe D sda0 scl0 clk s) = trace s @ [Wire_begin sda0 scl0, Wire_clock clk,
        Delay_ms 10, I2C_read (i2cAddr s) 32 (response D (s\<lparr>dev := dv_wait D 10 (dev s)\<rparr>))]"
  using assms by (simp add: run_begin begin_probe_fields scatter_def)

theorem begin_zero_id_fails_witness:
  "length (regs (SI4703_new ())) = 16 \<and>
   word_in (response \<lparr>dv_read = \<lambda>a n d. (replicate 32 0, d), dv_write = \<lambda>a bs d. (0, d), dv_wait = \<lambda>n d. d\<rparr>
     ((SI4703_new ())\<lparr>dev := ()\<rparr>)) 6 = 0 \<and>
   fst (run_state (SI4703_begin \<lparr>dv_read = \<lambda>a n d. (replicate 32 0, d), dv_write = \<lambda>a bs d. (0, d),
     dv_wait = \<lambda>n d. d\<rparr> 21 22 400000) (SI4703_new ())) = False"
proof -
  have h: "length (regs (SI4703_new ())) = 16"
    "word_in (response \<lparr>dv_read = \<lambda>a n d. (replicate 32 0, d), dv_write = \<lambda>a bs d. (0, d), dv_wait = \<lambda>n d. d\<rparr>
     ((SI4703_new ())\<lparr>dev := dv_wait \<lparr>dv_read = \<lambda>a n d. (replicate 32 0, d), dv_write = \<lambda>a bs d. (0, d),
       dv_wait = \<lambda>n d. d\<rparr> 10 (dev (SI4703_new ()))\<rparr>)) 6 = 0"
    by (simp_all add: SI4703_new_def SI4703_REGISTER_COUNT_def response_def word_in_def byte_at_def read_word_def)
  show ?thesis
    using begin_zero_id_fails [OF h] h by simp
qed

text \<open>
  C15: when the DEVICEID word is not \<open>0\<close>, \<open>begin\<close> records the pins and clock, runs the
  bus set-up, the probe read and \<open>powerUp\<close> (a read, one write whose POWERCFG word is
  ENABLE with DMUTE, the 110 ms wait), sets \<open>_initialized\<close> and returns true.
\<close>

theorem begin_success_sequence:
  assumes "length (regs s) = 16" "word_in (response D (s\<lparr>dev := dv_wait D 10 (dev s)\<rparr>)) 6 \<noteq> 0"
  shows "\<exists>r r2 b st.
     run_state (SI4703_begin D sda0 scl0 clk) s = (True, snd (run_state (SI4703_begin D sda0 scl0 clk) s))
     \<and> initialized (snd (run_state (SI4703_begin D sda0 scl0 clk) s))
     \<and> trace (snd (run_state (SI4703_begin D sda0 scl0 clk) s)) = trace s @
         [Wire_begin sda0 scl0, Wire_clock clk, Delay_ms 10, I2C_read (i2cAddr s) 32 r,
          I2C_read (i2cAddr s) 32 r2, I2C_write (i2cAddr s) b st, Delay_ms 110]
     \<and> control_word b 2 = POWERCFG_ENABLE OR POWERCFG_DMUTE
     \<and> sda (snd (run_state (SI4703_begin D sda0 scl0 clk) s)) = sda0
     \<and> scl (snd (run_state (SI4703_begin D sda0 scl0 clk) s)) = scl0
     \<and> i2cClock (snd (run_state (SI4703_begin D sda0 scl0 clk) s)) = clk"
proof -
  have len1: "length (regs (begin_probe D sda0 scl0 clk s)) = 16"
    using begin_probe_fields(1) [OF assms(1)] by simp
  have id: "regs (begin_probe D sda0 scl0 clk s) ! 0 \<noteq> 0"
    using begin_probe_fields(1) [OF assms(1)] assms(2) by (simp add: scatter_def)
  show ?thesis
    using assms(1) len1 id
    by (simp add: run_begin run_powerUp Let_def begin_probe_fields control_word_bytes)
qed

theorem begin_success_sequence_witness:
  "length (regs (SI4703_new ())) = 16 \<and>
   word_in (response \<lparr>dv_read = \<lambda>a n d. (replicate 32 0x12, d), dv_write = \<lambda>a bs d. (0, d), dv_wait = \<lambda>n d. d\<rparr>
     ((SI4703_new ())\<lparr>dev := ()\<rparr>)) 6 \<noteq> 0 \<and>
   initialized (snd (run_state (SI4703_begin \<lparr>dv_read = \<lambda>a n d. (replicate 32 0x12, d),
     dv_write = \<lambda>a bs d. (0, d), dv_wait = \<lambda>n d. d\<rparr> 21 22 400000) (SI4703_new ())))"
proof -
  have h: "length (regs (SI4703_new ())) = 16"
    "word_in (response \<lparr>dv_read = \<lambda>a n d. (replicate 32 0x12, d), dv_write = \<lambda>a bs d. (0, d), dv_wait = \<lambda>n d. d\<rparr>
     ((SI4703_new ())\<lparr>dev := dv_wait \<lparr>dv_read = \<lambda>a n d. (replicate 32 0x12, d), dv_write = \<lambda>a bs d. (0, d),
       dv_wait = \<lambda>n d. d\<rparr> 10 (dev (SI4703_new ()))\<rparr>)) 6 \<noteq> 0"
    by (simp_all add: SI4703_new_def SI4703_REGISTER_COUNT_def response_def word_in_def byte_at_def read_word_def)
  show ?thesis
    using begin_success_sequence [OF h] h by auto
qed

end
