(* ===== verification/Driver.thy ===== *)
theory Driver
  imports Commands
begin

text \<open>
  The driver as a state machine. A caller of the class \<open>SI4703\<close> (\<open>src/src/SI4703.h\<close>)
  issues its public methods one after the other on one object; \<open>cmd\<close> names those calls
  and \<open>exec\<close> runs one of them through the definitions of theories \<open>Commands\<close> and
  \<open>Sequencer\<close>, tagging its return value with a \<open>reply\<close>. \<open>run_cmds\<close> runs a sequence of
  calls, and \<open>reachable\<close> is the set of driver objects a constructor followed by any
  sequence of calls can produce, for a given device.

  The abstract driver \<open>absdrv\<close> keeps what the spec's data model promises about a session:
  the \<open>initialized\<close> flag and the cached frequency. \<open>abs_step\<close> is the contract of one
  call on it (section 3 and 7 of the spec): \<open>begin\<close> may fail or succeed, tuning caches
  the clamped frequency when initialised, \<open>getFrequency\<close> returns the cache, the signal
  strength is \<open>0\<close> when not initialised, nothing else changes the session.

  The frame lemmas say which fields of the object each operation leaves alone; they
  carry the invariant and refinement proofs of the root theory.
\<close>

datatype cmd =
    Begin int int u32
  | Reset
  | SetFrequency float32
  | GetFrequency
  | SetVolume u8
  | GetRSSI
  | Process

datatype reply = Done | Bool bool | Freq float32 | Rssi u8

definition exec :: "'d device \<Rightarrow> cmd \<Rightarrow> (('d, 'x) si4703_scheme, reply) state" where
  "exec D c = (case c of
       Begin sda0 scl0 clk \<Rightarrow> do { b \<leftarrow> SI4703_begin D sda0 scl0 clk; State_Monad.return (Bool b) }
     | Reset \<Rightarrow> do { reset D; State_Monad.return Done }
     | SetFrequency m \<Rightarrow> do { setFrequency D m; State_Monad.return Done }
     | GetFrequency \<Rightarrow> do { f \<leftarrow> getFrequency; State_Monad.return (Freq f) }
     | SetVolume v \<Rightarrow> do { setVolume D v; State_Monad.return Done }
     | GetRSSI \<Rightarrow> do { r \<leftarrow> getRSSI D; State_Monad.return (Rssi r) }
     | Process \<Rightarrow> do { process; State_Monad.return Done })"

primrec run_cmds :: "'d device \<Rightarrow> cmd list \<Rightarrow> (('d, 'x) si4703_scheme, reply list) state" where
  "run_cmds D [] = State_Monad.return []"
| "run_cmds D (c # cs) = do { r \<leftarrow> exec D c; rs \<leftarrow> run_cmds D cs; State_Monad.return (r # rs) }"

inductive reachable :: "'d device \<Rightarrow> 'd \<Rightarrow> 'd si4703 \<Rightarrow> bool" for D :: "'d device" and d0 :: 'd where
  reachable_new: "reachable D d0 (SI4703_new d0)"
| reachable_exec: "reachable D d0 s \<Longrightarrow> reachable D d0 (snd (run_state (exec D c) s))"

subsection \<open>The abstract driver\<close>

record absdrv =
  a_init :: bool
  a_freq :: float32

definition abs_of :: "('d, 'x) si4703_scheme \<Rightarrow> absdrv" where
  "abs_of s = \<lparr>a_init = initialized s, a_freq = currentFreq s\<rparr>"

fun abs_step :: "cmd \<Rightarrow> absdrv \<Rightarrow> reply \<Rightarrow> absdrv \<Rightarrow> bool" where
  "abs_step (Begin sda0 scl0 clk) A r A' =
     (case r of Bool b \<Rightarrow> A' = (if b then A\<lparr>a_init := True\<rparr> else A) | _ \<Rightarrow> False)"
| "abs_step Reset A r A' = (r = Done \<and> A' = A)"
| "abs_step (SetFrequency m) A r A' =
     (r = Done \<and> A' = (if a_init A then A\<lparr>a_freq := clamp_freq m\<rparr> else A))"
| "abs_step GetFrequency A r A' = (r = Freq (a_freq A) \<and> A' = A)"
| "abs_step (SetVolume v) A r A' = (r = Done \<and> A' = A)"
| "abs_step GetRSSI A r A' = (A' = A \<and> (case r of Rssi x \<Rightarrow> a_init A \<or> x = 0 | _ \<Rightarrow> False))"
| "abs_step Process A r A' = (r = Done \<and> A' = A)"

fun abs_run :: "cmd list \<Rightarrow> absdrv \<Rightarrow> reply list \<Rightarrow> absdrv \<Rightarrow> bool" where
  "abs_run [] A rs A' = (rs = [] \<and> A' = A)"
| "abs_run (c # cs) A [] A' = False"
| "abs_run (c # cs) A (r # rs) A' = (\<exists>A1. abs_step c A r A1 \<and> abs_run cs A1 rs A')"

definition drv_inv :: "('d, 'x) si4703_scheme \<Rightarrow> bool" where
  "drv_inv s = (length (regs s) = 16
     \<and> (currentFreq s = 0 \<or> SI4703_FREQ_MIN_MHZ \<le> currentFreq s \<and> currentFreq s \<le> SI4703_FREQ_MAX_MHZ)
     \<and> (currentFreq s \<noteq> 0 \<longrightarrow> initialized s))"

definition keeps_regs_addr :: "('d, 'x) si4703_scheme \<Rightarrow> ('d, 'x) si4703_scheme \<Rightarrow> bool" where
  "keeps_regs_addr s s' = (length (regs s') = 16 \<and> i2cAddr s' = i2cAddr s)"

fun is_tune :: "cmd \<Rightarrow> bool" where
  "is_tune (SetFrequency m) = True"
| "is_tune c = False"

fun is_write :: "bus_event \<Rightarrow> bool" where
  "is_write (I2C_write a bs st) = True"
| "is_write e = False"

definition writes_of :: "bus_event list \<Rightarrow> bus_event list" where
  "writes_of tr = filter is_write tr"

fun wf_event :: "u8 \<Rightarrow> bus_event \<Rightarrow> bool" where
  "wf_event a (I2C_read a' n bs) = (a' = a \<and> n = 32)"
| "wf_event a (I2C_write a' bs st) = (a' = a \<and> length bs = 12)"
| "wf_event a e = True"

definition trace_ok :: "('d, 'x) si4703_scheme \<Rightarrow> ('d, 'x) si4703_scheme \<Rightarrow> bool" where
  "trace_ok s s' = (\<exists>es. trace s' = trace s @ es \<and> list_all (wf_event (i2cAddr s)) es)"

definition dev_inv :: "'d device \<Rightarrow> ('d \<Rightarrow> bool) \<Rightarrow> bool" where
  "dev_inv D P = ((\<forall>a n d. P d \<longrightarrow> P (snd (dv_read D a n d)))
     \<and> (\<forall>a bs d. P d \<longrightarrow> length bs = 12 \<longrightarrow> P (snd (dv_write D a bs d)))
     \<and> (\<forall>ms d. P d \<longrightarrow> P (dv_wait D ms d)))"

subsection \<open>Frame lemmas\<close>

text \<open>
  What each operation leaves unchanged, for a shadow store of sixteen words: the store
  keeps its length, and only \<open>begin\<close> touches \<open>_initialized\<close>, only \<open>setFrequency\<close>
  touches \<open>_currentFreq\<close>, no operation changes the bus address.
\<close>

definition keeps :: "('d, 'x) si4703_scheme \<Rightarrow> ('d, 'x) si4703_scheme \<Rightarrow> bool" where
  "keeps s s' = (length (regs s') = 16 \<and> currentFreq s' = currentFreq s
     \<and> initialized s' = initialized s \<and> i2cAddr s' = i2cAddr s)"

lemma keeps_trans [trans]: "keeps s s1 \<Longrightarrow> keeps s1 s2 \<Longrightarrow> keeps s s2"
  by (simp add: keeps_def)

lemma keeps_readRegisters:
  "length (regs s) = 16 \<Longrightarrow> keeps s (snd (run_state (readRegisters D) s))"
  by (simp add: keeps_def run_readRegisters)

lemma keeps_powerUp:
  "length (regs s) = 16 \<Longrightarrow> keeps s (snd (run_state (powerUp D) s))"
  by (simp add: keeps_def run_powerUp Let_def)

lemma keeps_refl: "length (regs s) = 16 \<Longrightarrow> keeps s s"
  by (simp add: keeps_def)

lemma keeps_reset:
  assumes len: "length (regs s) = 16"
  shows "keeps s (snd (run_state (reset D) s))"
proof (cases "initialized s")
  case True
  have "\<exists>s1. run_state (reset D) s = run_state (powerUp D) s1 \<and> keeps s s1"
    unfolding run_reset [OF len True] Let_def
    by (rule exI, rule conjI, rule refl) (simp add: keeps_def len)
  then obtain s1 where run: "run_state (reset D) s = run_state (powerUp D) s1" and k: "keeps s s1"
    by blast
  have "length (regs s1) = 16"
    using k by (simp add: keeps_def)
  then have "keeps s1 (snd (run_state (powerUp D) s1))"
    by (rule keeps_powerUp)
  with k run show ?thesis
    by (simp add: keeps_trans)
qed (simp add: run_reset_off len keeps_refl)

lemma keeps_setVolume:
  "length (regs s) = 16 \<Longrightarrow> keeps s (snd (run_state (setVolume D v) s))"
  by (cases "initialized s") (simp_all add: run_setVolume run_setVolume_off Let_def keeps_def)

lemma keeps_getRSSI:
  "length (regs s) = 16 \<Longrightarrow> keeps s (snd (run_state (getRSSI D) s))"
  by (cases "initialized s") (simp_all add: run_getRSSI run_getRSSI_off keeps_readRegisters keeps_refl)

lemma keeps_begin_probe:
  "length (regs s) = 16 \<Longrightarrow> keeps s (begin_probe D sda0 scl0 clk s)"
  by (simp add: keeps_def begin_probe_def run_readRegisters)

lemma keeps_abs: "keeps s s' \<Longrightarrow> abs_of s' = abs_of s"
  by (simp add: keeps_def abs_of_def)

subsection \<open>One call refines one abstract step\<close>

lemma exec_begin_step:
  assumes len: "length (regs s) = 16"
  shows "keeps_regs_addr s (snd (run_state (exec D (Begin sda0 scl0 clk)) s))
    \<and> abs_step (Begin sda0 scl0 clk) (abs_of s) (fst (run_state (exec D (Begin sda0 scl0 clk)) s))
        (abs_of (snd (run_state (exec D (Begin sda0 scl0 clk)) s)))"
proof -
  let ?s1 = "begin_probe D sda0 scl0 clk s"
  have k1: "keeps s ?s1"
    using len by (rule keeps_begin_probe)
  moreover have "length (regs ?s1) = 16"
    using k1 by (simp add: keeps_def)
  ultimately have k2: "keeps s (snd (run_state (powerUp D) ?s1))"
    using keeps_powerUp keeps_trans by blast
  show ?thesis
    using k1 k2 len
    by (auto simp: exec_def run_begin Let_def keeps_def keeps_regs_addr_def abs_of_def)
qed

lemma exec_step:
  assumes len: "length (regs s) = 16"
  shows "keeps_regs_addr s (snd (run_state (exec D c) s))
    \<and> abs_step c (abs_of s) (fst (run_state (exec D c) s)) (abs_of (snd (run_state (exec D c) s)))"
proof (cases c)
  case (Begin sda0 scl0 clk)
  then show ?thesis
    using exec_begin_step [OF len] by simp
next
  case Reset
  then show ?thesis
    using keeps_reset [OF len, of D] keeps_abs [OF keeps_reset [OF len, of D]]
    by (simp add: exec_def keeps_def keeps_regs_addr_def prod.case_eq_if)
next
  case (SetFrequency m)
  then show ?thesis
    using len
    by (cases "initialized s") (simp_all add: exec_def run_setFrequency run_setFrequency_off Let_def
        keeps_regs_addr_def abs_of_def)
next
  case GetFrequency
  then show ?thesis
    using len by (simp add: exec_def run_simps keeps_regs_addr_def abs_of_def)
next
  case (SetVolume v)
  then show ?thesis
    using keeps_setVolume [OF len, of D v] keeps_abs [OF keeps_setVolume [OF len, of D v]]
    by (simp add: exec_def keeps_def keeps_regs_addr_def prod.case_eq_if)
next
  case GetRSSI
  then show ?thesis
    using keeps_getRSSI [OF len, of D] keeps_abs [OF keeps_getRSSI [OF len, of D]]
    by (cases "initialized s")
      (simp_all add: exec_def keeps_def keeps_regs_addr_def run_getRSSI_off abs_of_def prod.case_eq_if)
next
  case Process
  then show ?thesis
    using len by (simp add: exec_def run_simps keeps_regs_addr_def)
qed

subsection \<open>Runs of calls\<close>

lemma run_cmds_Cons [run_simps]:
  "run_state (run_cmds D (c # cs)) s =
     (fst (run_state (exec D c) s) # fst (run_state (run_cmds D cs) (snd (run_state (exec D c) s))),
      snd (run_state (run_cmds D cs) (snd (run_state (exec D c) s))))"
  by (simp add: prod.case_eq_if)

declare run_cmds.simps(2) [simp del]

lemma run_cmds_Nil [run_simps]: "run_state (run_cmds D []) s = ([], s)"
  by simp

lemma run_cmds_append:
  "run_state (run_cmds D (cs @ ds)) s =
     (fst (run_state (run_cmds D cs) s) @ fst (run_state (run_cmds D ds) (snd (run_state (run_cmds D cs) s))),
      snd (run_state (run_cmds D ds) (snd (run_state (run_cmds D cs) s))))"
  by (induction cs arbitrary: s) (simp_all add: run_cmds_Cons)

lemma abs_step_freq: "\<not> is_tune c \<Longrightarrow> abs_step c A r A' \<Longrightarrow> a_freq A' = a_freq A"
  by (cases c) (auto split: reply.splits if_splits)

lemma abs_step_init: "abs_step c A r A' \<Longrightarrow> a_init A \<Longrightarrow> a_init A'"
  by (cases c) (auto split: reply.splits if_splits)

lemma abs_step_inv:
  assumes "drv_inv s" "keeps_regs_addr s s'" "abs_step c (abs_of s) r (abs_of s')"
  shows "drv_inv s'"
proof -
  have band: "SI4703_FREQ_MIN_MHZ \<le> clamp_freq m \<and> clamp_freq m \<le> SI4703_FREQ_MAX_MHZ" for m
    using clamp_freq_range by (simp add: band_values)
  show ?thesis
    using assms band
    by (cases c) (auto simp: drv_inv_def keeps_regs_addr_def abs_of_def split: reply.splits if_splits)
qed

lemma run_cmds_no_tune:
  assumes "length (regs s) = 16" "\<not> list_ex is_tune cs"
  shows "length (regs (snd (run_state (run_cmds D cs) s))) = 16
    \<and> currentFreq (snd (run_state (run_cmds D cs) s)) = currentFreq s
    \<and> (initialized s \<longrightarrow> initialized (snd (run_state (run_cmds D cs) s)))"
  using assms
proof (induction cs arbitrary: s)
  case (Cons c cs)
  let ?s1 = "snd (run_state (exec D c) s)"
  have step: "keeps_regs_addr s ?s1 \<and> abs_step c (abs_of s) (fst (run_state (exec D c) s)) (abs_of ?s1)"
    using Cons.prems(1) by (rule exec_step)
  have ab: "abs_step c (abs_of s) (fst (run_state (exec D c) s)) (abs_of ?s1)"
    using step by simp
  have nt: "\<not> is_tune c"
    using Cons.prems(2) by simp
  have "a_freq (abs_of ?s1) = a_freq (abs_of s)"
    by (rule abs_step_freq [OF nt ab])
  moreover have "a_init (abs_of s) \<Longrightarrow> a_init (abs_of ?s1)"
    by (rule abs_step_init [OF ab])
  ultimately have "length (regs ?s1) = 16" "currentFreq ?s1 = currentFreq s"
    "initialized s \<longrightarrow> initialized ?s1"
    using step by (auto simp: keeps_regs_addr_def abs_of_def)
  then show ?case
    using Cons.IH [of ?s1] Cons.prems(2) by (simp add: run_cmds_Cons)
qed simp

lemma exec_uninit_writes:
  assumes len: "length (regs s) = 16" and off: "\<not> initialized s"
    and off': "\<not> initialized (snd (run_state (exec D c) s))"
  shows "writes_of (trace (snd (run_state (exec D c) s))) = writes_of (trace s)"
  using len off off'
  by (cases c) (auto simp: exec_def run_begin Let_def begin_probe_fields writes_of_def prod.case_eq_if
      run_simps run_reset_off run_setFrequency_off run_setVolume_off run_getRSSI_off split: if_splits)

subsection \<open>Bus transactions of each operation\<close>

text \<open>
  Every operation only appends to the trace, and what it appends is well formed: each
  read is a 32-byte request and each write a 12-byte control block, both to the
  driver's bus address.
\<close>

lemma length_control_bytes [simp]: "length (control_bytes rs) = 12"
  by (simp add: control_bytes_def upt_rec)

lemma trace_ok_refl: "trace_ok s s"
  by (simp add: trace_ok_def)

lemma trace_ok_trans:
  "trace_ok s s1 \<Longrightarrow> trace_ok s1 s2 \<Longrightarrow> i2cAddr s1 = i2cAddr s \<Longrightarrow> trace_ok s s2"
  unfolding trace_ok_def by force

lemma trace_ok_readRegisters:
  "length (regs s) = 16 \<Longrightarrow> trace_ok s (snd (run_state (readRegisters D) s))"
  by (simp add: trace_ok_def run_readRegisters)

lemma trace_ok_powerUp:
  "length (regs s) = 16 \<Longrightarrow> trace_ok s (snd (run_state (powerUp D) s))"
  by (simp add: trace_ok_def run_powerUp Let_def)

lemma trace_ok_then_powerUp:
  assumes "trace_ok s s1" "keeps s s1"
  shows "trace_ok s (snd (run_state (powerUp D) s1))"
proof -
  have "length (regs s1) = 16" "i2cAddr s1 = i2cAddr s"
    using assms(2) by (simp_all add: keeps_def)
  then show ?thesis
    using assms(1) trace_ok_powerUp trace_ok_trans by blast
qed

lemma trace_ok_reset:
  assumes len: "length (regs s) = 16"
  shows "trace_ok s (snd (run_state (reset D) s))"
proof (cases "initialized s")
  case True
  have "\<exists>s1. run_state (reset D) s = run_state (powerUp D) s1 \<and> trace_ok s s1 \<and> keeps s s1"
    unfolding run_reset [OF len True] Let_def
    by (rule exI, rule conjI, rule refl) (simp add: trace_ok_def keeps_def len)
  then show ?thesis
    using trace_ok_then_powerUp by metis
qed (simp add: run_reset_off trace_ok_refl)

lemma trace_ok_setFrequency:
  "length (regs s) = 16 \<Longrightarrow> trace_ok s (snd (run_state (setFrequency D m) s))"
  by (cases "initialized s")
    (simp_all add: trace_ok_def run_setFrequency run_setFrequency_off Let_def)

lemma trace_ok_setVolume:
  "length (regs s) = 16 \<Longrightarrow> trace_ok s (snd (run_state (setVolume D v) s))"
  by (cases "initialized s") (simp_all add: trace_ok_def run_setVolume run_setVolume_off Let_def)

lemma trace_ok_getRSSI:
  "length (regs s) = 16 \<Longrightarrow> trace_ok s (snd (run_state (getRSSI D) s))"
  by (cases "initialized s")
    (simp_all add: run_getRSSI run_getRSSI_off trace_ok_readRegisters trace_ok_refl)

lemma trace_ok_begin:
  assumes len: "length (regs s) = 16"
  shows "trace_ok s (snd (run_state (SI4703_begin D sda0 scl0 clk) s))"
proof -
  let ?s1 = "begin_probe D sda0 scl0 clk s"
  have t1: "trace_ok s ?s1"
    using len by (simp add: trace_ok_def begin_probe_fields)
  have k1: "keeps s ?s1"
    using len by (rule keeps_begin_probe)
  have "trace_ok s (snd (run_state (powerUp D) ?s1))"
    using t1 k1 by (rule trace_ok_then_powerUp)
  then show ?thesis
    using len t1 by (simp add: run_begin Let_def trace_ok_def)
qed

lemma exec_trace_ok:
  "length (regs s) = 16 \<Longrightarrow> trace_ok s (snd (run_state (exec D c) s))"
  by (cases c) (simp_all add: exec_def prod.case_eq_if run_simps trace_ok_refl trace_ok_begin
      trace_ok_reset trace_ok_setFrequency trace_ok_setVolume trace_ok_getRSSI)

subsection \<open>Reachable objects\<close>

text \<open>
  The invariant rule for \<open>reachable\<close>: a property that holds of the constructed object
  and that every call preserves on objects with sixteen shadow words and the chip's
  bus address holds of every reachable object, together with those two facts.
\<close>

lemma reachable_rule:
  assumes "reachable D d0 s"
    and init: "I (SI4703_new d0)"
    and step: "\<And>s c. length (regs s) = 16 \<Longrightarrow> i2cAddr s = SI4703_I2C_ADDR \<Longrightarrow> I s
                 \<Longrightarrow> I (snd (run_state (exec D c) s))"
  shows "I s \<and> length (regs s) = 16 \<and> i2cAddr s = SI4703_I2C_ADDR"
  using assms(1)
proof (induction rule: reachable.induct)
  case reachable_new
  show ?case
    using init by (simp add: SI4703_new_def SI4703_REGISTER_COUNT_def)
next
  case (reachable_exec s c)
  then have "keeps_regs_addr s (snd (run_state (exec D c) s))"
    using exec_step by blast
  then show ?case
    using reachable_exec.IH step by (simp add: keeps_regs_addr_def)
qed

lemma run_cmds_initialized:
  assumes "length (regs s) = 16" "initialized s"
  shows "initialized (snd (run_state (run_cmds D cs) s))"
  using assms
proof (induction cs arbitrary: s)
  case (Cons c cs)
  have step: "keeps_regs_addr s (snd (run_state (exec D c) s))
      \<and> abs_step c (abs_of s) (fst (run_state (exec D c) s)) (abs_of (snd (run_state (exec D c) s)))"
    using Cons.prems(1) by (rule exec_step)
  then have "a_init (abs_of (snd (run_state (exec D c) s)))"
    using abs_step_init Cons.prems(2) by (fastforce simp: abs_of_def)
  then show ?case
    using Cons.IH step by (simp add: run_cmds_Cons keeps_regs_addr_def abs_of_def)
qed (simp add: run_cmds_Nil)

subsection \<open>The device interface\<close>

text \<open>
  A property \<open>P\<close> of the device state that the device keeps under every read, every
  12-byte write and every wait (\<open>dev_inv D P\<close>) is kept by every call of the driver,
  since the driver never writes anything but a 12-byte control block. A concrete
  device discharges \<open>dev_inv\<close> once; theory \<open>Sim_Device\<close> does so for the simulated chip.
\<close>

definition dev_ok :: "('d \<Rightarrow> bool) \<Rightarrow> ('d, 'x) si4703_scheme \<Rightarrow> ('d, 'x) si4703_scheme \<Rightarrow> bool" where
  "dev_ok P s s' = (P (dev s) \<longrightarrow> P (dev s'))"

lemma dev_inv_D:
  assumes "dev_inv D P" "P d"
  shows "P (snd (dv_read D a n d))" "length bs = 12 \<Longrightarrow> P (snd (dv_write D a bs d))" "P (dv_wait D ms d)"
  using assms by (simp_all add: dev_inv_def)

lemma dev_ok_readRegisters:
  "dev_inv D P \<Longrightarrow> length (regs s) = 16 \<Longrightarrow> dev_ok P s (snd (run_state (readRegisters D) s))"
  by (simp add: dev_ok_def run_readRegisters dev_inv_D)

lemma dev_ok_powerUp:
  "dev_inv D P \<Longrightarrow> length (regs s) = 16 \<Longrightarrow> dev_ok P s (snd (run_state (powerUp D) s))"
  by (simp add: dev_ok_def run_powerUp Let_def dev_inv_D)

lemma dev_ok_trans: "dev_ok P s s1 \<Longrightarrow> dev_ok P s1 s2 \<Longrightarrow> dev_ok P s s2"
  by (simp add: dev_ok_def)

lemma dev_ok_reset:
  assumes inv: "dev_inv D P" and len: "length (regs s) = 16"
  shows "dev_ok P s (snd (run_state (reset D) s))"
proof (cases "initialized s")
  case True
  have "\<exists>s1. run_state (reset D) s = run_state (powerUp D) s1 \<and> dev_ok P s s1 \<and> keeps s s1"
    unfolding run_reset [OF len True] Let_def
    by (rule exI, rule conjI, rule refl) (simp add: dev_ok_def keeps_def len dev_inv_D [OF inv])
  then obtain s1 where run: "run_state (reset D) s = run_state (powerUp D) s1"
    and d1: "dev_ok P s s1" and k: "keeps s s1"
    by blast
  have "length (regs s1) = 16"
    using k by (simp add: keeps_def)
  then have "dev_ok P s1 (snd (run_state (powerUp D) s1))"
    by (rule dev_ok_powerUp [OF inv])
  then show ?thesis
    using d1 run dev_ok_trans by metis
qed (simp add: run_reset_off dev_ok_def)

lemma dev_ok_setFrequency:
  "dev_inv D P \<Longrightarrow> length (regs s) = 16 \<Longrightarrow> dev_ok P s (snd (run_state (setFrequency D m) s))"
  by (cases "initialized s")
    (simp_all add: dev_ok_def run_setFrequency run_setFrequency_off Let_def dev_inv_D)

lemma dev_ok_setVolume:
  "dev_inv D P \<Longrightarrow> length (regs s) = 16 \<Longrightarrow> dev_ok P s (snd (run_state (setVolume D v) s))"
  by (cases "initialized s") (simp_all add: dev_ok_def run_setVolume run_setVolume_off Let_def dev_inv_D)

lemma dev_ok_getRSSI:
  "dev_inv D P \<Longrightarrow> length (regs s) = 16 \<Longrightarrow> dev_ok P s (snd (run_state (getRSSI D) s))"
  by (cases "initialized s") (simp add: run_getRSSI dev_ok_readRegisters, simp add: run_getRSSI_off dev_ok_def)

lemma dev_ok_begin:
  assumes inv: "dev_inv D P" and len: "length (regs s) = 16"
  shows "dev_ok P s (snd (run_state (SI4703_begin D sda0 scl0 clk) s))"
proof -
  let ?s1 = "begin_probe D sda0 scl0 clk s"
  have d1: "dev_ok P s ?s1"
    using len by (simp add: dev_ok_def begin_probe_def run_readRegisters dev_inv_D [OF inv])
  have "length (regs ?s1) = 16"
    using keeps_begin_probe [OF len] by (simp add: keeps_def)
  then have "dev_ok P ?s1 (snd (run_state (powerUp D) ?s1))"
    by (rule dev_ok_powerUp [OF inv])
  then show ?thesis
    using len d1 by (auto simp: run_begin Let_def dev_ok_def)
qed

lemma exec_dev_ok:
  "dev_inv D P \<Longrightarrow> length (regs s) = 16 \<Longrightarrow> dev_ok P s (snd (run_state (exec D c) s))"
  by (cases c) (simp_all add: exec_def prod.case_eq_if run_simps dev_ok_begin dev_ok_reset
      dev_ok_setFrequency dev_ok_setVolume dev_ok_getRSSI, simp_all add: dev_ok_def)

lemma begin_nonzero_id:
  assumes "length (regs s) = 16" "word_in (response D (s\<lparr>dev := dv_wait D 10 (dev s)\<rparr>)) 6 \<noteq> 0"
  shows "fst (run_state (SI4703_begin D sda0 scl0 clk) s)
    \<and> initialized (snd (run_state (SI4703_begin D sda0 scl0 clk) s))"
proof -
  have "regs (begin_probe D sda0 scl0 clk s) ! 0 \<noteq> 0"
    using begin_probe_fields(1) [OF assms(1)] assms(2) by (simp add: scatter_def)
  then show ?thesis
    using assms(1) by (simp add: run_begin Let_def)
qed

end
