(* ===== verification/Sim_Device.thy ===== *)
theory Sim_Device
  imports Driver
begin

text \<open>
  A simulated SI4703 on the bus, the "simulated device" of the spec's testable
  properties. It is not code of the repository but a model of the chip's I2C interface
  as the driver assumes it (and as the SI4702/03 datasheet describes it): sixteen 16-bit
  registers; a read of \<open>n\<close> bytes returns the registers high byte first starting at
  \<open>0x0A\<close> and wrapping after \<open>0x0F\<close>; a write stores consecutive byte pairs into the
  registers from \<open>0x02\<close> on; any other bus address gets no answer (an empty read, a NACK
  status \<open>2\<close> on write). Time has no effect on it.

  On this device the theory proves that a full read returns the chip's registers
  exactly (\<open>scatter\<close> inverts the chip's byte order), that a control write followed by a
  full read gives back the written control registers, and the spec's power-up, volume,
  tune and reset scenarios, and for each method of the driver the chip's register file
  afterwards (\<open>sim_*_state\<close>). The chip discharges the device interface \<open>dev_inv\<close> of
  theory \<open>Driver\<close>, which makes the driver and the chip one system: no reachable object
  changes a register outside the control window, and \<open>begin\<close> makes progress from every
  reachable object.
\<close>

unbundle bit_operations_syntax

definition sim_bytes :: "u16 list \<Rightarrow> u8 list" where
  "sim_bytes R = concat (map (\<lambda>k. [hi_byte (R ! ((10 + k) mod 16)), lo_byte (R ! ((10 + k) mod 16))]) [0..<16])"

fun sim_store :: "nat \<Rightarrow> u8 list \<Rightarrow> u16 list \<Rightarrow> u16 list" where
  "sim_store i (h # l # bs) R = sim_store (Suc i) bs (R[i := word16_of (ucast h) (ucast l)])"
| "sim_store i bs R = R"

definition sim_dev :: "u16 list device" where
  "sim_dev = \<lparr>dv_read = \<lambda>a n R. (if a = SI4703_I2C_ADDR then take n (sim_bytes R) else [], R),
              dv_write = \<lambda>a bs R. (if a = SI4703_I2C_ADDR then (0, sim_store 2 bs R) else (2, R)),
              dv_wait = \<lambda>ms R. R\<rparr>"

subsection \<open>Byte lemmas\<close>

lemma nth_concat_pairs:
  assumes "k < n"
  shows "concat (map (\<lambda>j. [a j, b j]) [0..<n]) ! (2 * k) = a k"
    and "concat (map (\<lambda>j. [a j, b j]) [0..<n]) ! (2 * k + 1) = b k"
  using assms
proof (induction n)
  case (Suc n)
  have len: "length (concat (map (\<lambda>j. [a j, b j]) [0..<n])) = 2 * n"
    by (induction n) simp_all
  { case 1 then show ?case
      using Suc.IH(1) len by (cases "k = n") (simp_all add: nth_append) }
  { case 2 then show ?case
      using Suc.IH(2) len by (cases "k = n") (simp_all add: nth_append) }
qed simp_all

lemma length_sim_bytes [simp]: "length (sim_bytes R) = 32"
proof -
  have "length (concat (map (\<lambda>k. [hi_byte (R ! ((10 + k) mod 16)), lo_byte (R ! ((10 + k) mod 16))])
          [0..<n])) = 2 * n" for n
    by (induction n) simp_all
  then show ?thesis
    by (simp add: sim_bytes_def)
qed

lemma read_word_bytes [simp]: "read_word (uint (hi_byte x)) (uint (lo_byte x)) = x"
  unfolding read_word_def hi_byte_def lo_byte_def mask8_u16
  by (rule bit_word_eqI) (auto simp: bit_simps)

lemma word_in_sim_bytes:
  assumes "k < 16"
  shows "word_in (sim_bytes R) k = R ! ((10 + k) mod 16)"
proof -
  have h: "sim_bytes R ! (2 * k) = hi_byte (R ! ((10 + k) mod 16))"
    unfolding sim_bytes_def by (rule nth_concat_pairs(1) [OF assms])
  have l: "sim_bytes R ! (2 * k + 1) = lo_byte (R ! ((10 + k) mod 16))"
    unfolding sim_bytes_def by (rule nth_concat_pairs(2) [OF assms])
  show ?thesis
    using assms by (simp add: word_in_def byte_at_def h l [simplified])
qed


lemma scatter_sim_bytes:
  assumes "length R = 16"
  shows "scatter (sim_bytes R) = R"
proof (rule nth_equalityI)
  show "length (scatter (sim_bytes R)) = length R"
    using assms by simp
next
  fix i
  assume "i < length (scatter (sim_bytes R))"
  then have i: "i < 16"
    by simp
  have m: "(i + 6) mod 16 < 16"
    by simp
  have a: "(10 + (i + 6) mod 16) mod 16 = i"
    using i by presburger
  have "scatter (sim_bytes R) ! i = word_in (sim_bytes R) ((i + 6) mod 16)"
    using i by (simp add: scatter_def)
  also have "\<dots> = R ! i"
    unfolding word_in_sim_bytes [OF m] a ..
  finally show "scatter (sim_bytes R) ! i = R ! i" .
qed
lemma sim_store_control:
  "sim_store 2 (control_bytes rs) R
     = R[2 := rs ! 2, 3 := rs ! 3, 4 := rs ! 4, 5 := rs ! 5, 6 := rs ! 6, 7 := rs ! 7]"
  by (simp add: control_bytes_def upt_rec)

lemma sim_store_update:
  assumes "length R = 16" "i \<in> {2..7}"
  shows "sim_store 2 (control_bytes (R[i := x])) R = R[i := x]"
  unfolding sim_store_control using assms
  by (intro nth_equalityI) (auto simp: nth_list_update)

lemma sim_store_reupdate:
  assumes "length R = 16" "i \<in> {2..7}"
  shows "sim_store 2 (control_bytes (R[i := y])) (R[i := x]) = R[i := y]"
  unfolding sim_store_control using assms
  by (intro nth_equalityI) (auto simp: nth_list_update)

lemma sim_store_frame:
  "length (sim_store i bs R) = length R
   \<and> (\<forall>j. j < i \<or> i + length bs div 2 \<le> j \<longrightarrow> sim_store i bs R ! j = R ! j)"
  by (induction i bs R rule: sim_store.induct) auto

lemma sim_dev_inv:
  "dev_inv sim_dev (\<lambda>R. length R = 16 \<and> (\<forall>i. i \<notin> {2..7} \<longrightarrow> R ! i = R0 ! i))"
proof -
  have "length (sim_store 2 bs R) = 16 \<and> (\<forall>i. i \<notin> {2..7} \<longrightarrow> sim_store 2 bs R ! i = R0 ! i)"
    if "length R = 16" "\<forall>i. i \<notin> {2..7} \<longrightarrow> R ! i = R0 ! i" "length bs = 12" for R bs
    using that sim_store_frame [of 2 bs R] by auto
  then show ?thesis
    by (simp add: dev_inv_def sim_dev_def)
qed

lemma sim_store_powerup:
  assumes "length R = 16"
  shows "sim_store 2 (control_bytes (R[7 := 0x8100, 4 := 0x1800, 5 := 0x10, 2 := 0x4001])) R
      = R[2 := 0x4001, 4 := 0x1800, 5 := 0x0010, 7 := 0x8100]"
  using assms unfolding sim_store_control
  by (intro nth_equalityI) (simp_all add: nth_list_update)

lemma sim_response:
  "i2cAddr s = SI4703_I2C_ADDR \<Longrightarrow> response sim_dev s = sim_bytes (dev s)"
  by (simp add: response_def sim_dev_def)

lemma sim_readRegisters:
  assumes "length (regs s) = 16" "length (dev s) = 16" "i2cAddr s = SI4703_I2C_ADDR"
  shows "regs (snd (run_state (readRegisters sim_dev) s)) = dev s
    \<and> dev (snd (run_state (readRegisters sim_dev) s)) = dev s"
  using assms by (simp add: run_readRegisters sim_response scatter_sim_bytes) (simp add: sim_dev_def)

lemma sim_writeRegisters:
  assumes "i2cAddr s = SI4703_I2C_ADDR"
  shows "run_state (writeRegisters sim_dev) s = (True, s\<lparr>dev := sim_store 2 (control_bytes (regs s)) (dev s),
     tx_addr := i2cAddr s, tx_buf := [],
     trace := trace s @ [I2C_write (i2cAddr s) (control_bytes (regs s)) 0]\<rparr>)"
  using assms by (simp add: run_writeRegisters sim_dev_def)


lemma tuned_channel_fields:
  assumes "unat (ch :: u16) \<le> 205"
  shows "(((x AND NOT CHANNEL_CHAN_MASK OR ch) OR CHANNEL_TUNE) AND NOT CHANNEL_TUNE) AND CHANNEL_CHAN_MASK = ch"
    and "(((x AND NOT CHANNEL_CHAN_MASK OR ch) OR CHANNEL_TUNE) AND NOT CHANNEL_TUNE) AND CHANNEL_TUNE = 0"
    and "(((x AND NOT CHANNEL_CHAN_MASK OR ch) OR CHANNEL_TUNE) AND NOT CHANNEL_TUNE)
           AND NOT (CHANNEL_CHAN_MASK OR CHANNEL_TUNE) = x AND NOT (CHANNEL_CHAN_MASK OR CHANNEL_TUNE)"
  using tune_cleared channel_word_fields(1) [OF assms] small_bits [OF assms]
  by (auto intro!: bit_word_eqI simp: bit_simps CHANNEL_CHAN_MASK_mask bit_CHANNEL_TUNE)

lemma sim_setVolume_chip:
  assumes "length (regs s) = 16" "length (dev s) = 16" "i2cAddr s = SI4703_I2C_ADDR" "initialized s"
  shows "dev (snd (run_state (setVolume sim_dev v) s))
    = (dev s)[5 := dev s ! 5 AND NOT SYSCONFIG2_VOLUME_MASK OR ucast (if v > 15 then 15 else v)]"
proof -
  let ?rs = "(dev s)[5 := dev s ! 5 AND NOT SYSCONFIG2_VOLUME_MASK OR ucast (if v > 15 then 15 else v)]"
  have "dev (snd (run_state (setVolume sim_dev v) s)) = sim_store 2 (control_bytes ?rs) (dev s)"
    using assms by (simp add: run_setVolume Let_def response_def scatter_sim_bytes [OF assms(2)] sim_dev_def)
  also have "\<dots> = ?rs"
    using assms(2) by (rule sim_store_update) simp
  finally show ?thesis .
qed

lemma sim_setFrequency_chip:
  assumes "length (regs s) = 16" "length (dev s) = 16" "i2cAddr s = SI4703_I2C_ADDR" "initialized s"
  shows "dev (snd (run_state (setFrequency sim_dev m) s))
    = (dev s)[3 := ((dev s ! 3 AND NOT CHANNEL_CHAN_MASK OR channel_of (clamp_freq m)) OR CHANNEL_TUNE)
                   AND NOT CHANNEL_TUNE]"
proof -
  let ?x = "(dev s ! 3 AND NOT CHANNEL_CHAN_MASK OR channel_of (clamp_freq m)) OR CHANNEL_TUNE"
  have len1: "length ((dev s)[3 := ?x]) = 16"
    using assms(2) by simp
  show ?thesis
    using assms
    by (simp add: run_setFrequency Let_def response_def scatter_sim_bytes sim_dev_def sim_store_update
        sim_store_reupdate scatter_sim_bytes [OF len1])
qed

subsection \<open>Effect of each method on the chip\<close>

text \<open>
  For each method on an initialised driver (and for both outcomes of \<open>begin\<close>): the
  chip's register file afterwards, and that the shadow store ends equal to it.
\<close>

lemma sim_setVolume_state:
  assumes "length (regs s) = 16" "length (dev s) = 16" "i2cAddr s = SI4703_I2C_ADDR" "initialized s"
  shows "regs (snd (run_state (setVolume sim_dev v) s)) = dev (snd (run_state (setVolume sim_dev v) s))
    \<and> initialized (snd (run_state (setVolume sim_dev v) s))
    \<and> currentFreq (snd (run_state (setVolume sim_dev v) s)) = currentFreq s"
  using assms
  by (simp add: run_setVolume Let_def response_def scatter_sim_bytes [OF assms(2)] sim_dev_def sim_store_update)

lemma sim_powerUp_state:
  assumes "length (regs s) = 16" "length (dev s) = 16" "i2cAddr s = SI4703_I2C_ADDR"
  shows "dev (snd (run_state (powerUp sim_dev) s)) = (dev s)[2 := 0x4001, 4 := 0x1800, 5 := 0x0010, 7 := 0x8100]
    \<and> regs (snd (run_state (powerUp sim_dev) s)) = dev (snd (run_state (powerUp sim_dev) s))
    \<and> initialized (snd (run_state (powerUp sim_dev) s)) = initialized s
    \<and> currentFreq (snd (run_state (powerUp sim_dev) s)) = currentFreq s"
proof -
  have w: "sim_store 2 (control_bytes ((dev s)[7 := 0x8100, 4 := 0x1800, 5 := 0x10, 2 := 0x4001])) (dev s)
      = (dev s)[2 := 0x4001, 4 := 0x1800, 5 := 0x0010, 7 := 0x8100]"
    using assms(2) by (rule sim_store_powerup)
  have u: "(dev s)[7 := 0x8100, 4 := 0x1800, 5 := 0x10, 2 := 0x4001] = (dev s)[2 := 0x4001, 4 := 0x1800, 5 := 0x0010, 7 := (0x8100 :: u16)]"
    by (simp add: list_update_swap)
  show ?thesis
    using assms w u
    by (simp add: run_powerUp Let_def response_def scatter_sim_bytes [OF assms(2)] reg_const_values sim_dev_def)
qed

lemma sim_setFrequency_state:
  assumes "length (regs s) = 16" "length (dev s) = 16" "i2cAddr s = SI4703_I2C_ADDR" "initialized s"
  shows "regs (snd (run_state (setFrequency sim_dev m) s)) = dev (snd (run_state (setFrequency sim_dev m) s))
    \<and> initialized (snd (run_state (setFrequency sim_dev m) s))
    \<and> currentFreq (snd (run_state (setFrequency sim_dev m) s)) = clamp_freq m"
proof -
  let ?x = "(dev s ! 3 AND NOT CHANNEL_CHAN_MASK OR channel_of (clamp_freq m)) OR CHANNEL_TUNE"
  have len1: "length ((dev s)[3 := ?x]) = 16"
    using assms(2) by simp
  show ?thesis
    using assms
    by (simp add: run_setFrequency Let_def response_def scatter_sim_bytes sim_dev_def sim_store_update
        sim_store_reupdate scatter_sim_bytes [OF len1])
qed

lemma sim_reset_state:
  assumes "length (regs s) = 16" "length (dev s) = 16" "i2cAddr s = SI4703_I2C_ADDR" "initialized s"
  shows "dev (snd (run_state (reset sim_dev) s)) = (dev s)[2 := 0x4001, 4 := 0x1800, 5 := 0x0010, 7 := 0x8100]
    \<and> regs (snd (run_state (reset sim_dev) s)) = dev (snd (run_state (reset sim_dev) s))
    \<and> initialized (snd (run_state (reset sim_dev) s))
    \<and> currentFreq (snd (run_state (reset sim_dev) s)) = currentFreq s"
proof -
  let ?rs = "(dev s)[2 := dev s ! 2 OR POWERCFG_DISABLE]"
  let ?s2 = "s\<lparr>dev := ?rs, rx_buf := [], tx_addr := i2cAddr s, tx_buf := [],
     trace := trace s @ [I2C_read (i2cAddr s) 32 (sim_bytes (dev s)), I2C_write (i2cAddr s) (control_bytes ?rs) 0, Delay_ms 10],
     regs := ?rs\<rparr>"
  have w1: "sim_store 2 (control_bytes ?rs) (dev s) = ?rs"
    using assms(2) by (rule sim_store_update) simp
  have r: "run_state (reset sim_dev) s = run_state (powerUp sim_dev) ?s2"
    using assms w1 by (simp add: run_reset Let_def response_def sim_dev_def scatter_sim_bytes)
  have p: "length (regs ?s2) = 16" "length (dev ?s2) = 16" "i2cAddr ?s2 = SI4703_I2C_ADDR"
    using assms by simp_all
  show ?thesis
    unfolding r using sim_powerUp_state [OF p] assms by simp
qed

lemma sim_begin_probe:
  assumes "length (regs s) = 16" "length (dev s) = 16" "i2cAddr s = SI4703_I2C_ADDR"
  shows "regs (begin_probe sim_dev sda0 scl0 clk s) = dev s \<and> dev (begin_probe sim_dev sda0 scl0 clk s) = dev s
    \<and> i2cAddr (begin_probe sim_dev sda0 scl0 clk s) = SI4703_I2C_ADDR
    \<and> initialized (begin_probe sim_dev sda0 scl0 clk s) = initialized s
    \<and> currentFreq (begin_probe sim_dev sda0 scl0 clk s) = currentFreq s"
  using assms
  by (simp add: begin_probe_def run_readRegisters response_def scatter_sim_bytes [OF assms(2)] sim_dev_def)

lemma sim_begin_state:
  assumes "length (regs s) = 16" "length (dev s) = 16" "i2cAddr s = SI4703_I2C_ADDR" "dev s ! 0 \<noteq> 0"
  shows "fst (run_state (SI4703_begin sim_dev sda0 scl0 clk) s)
    \<and> dev (snd (run_state (SI4703_begin sim_dev sda0 scl0 clk) s)) = (dev s)[2 := 0x4001, 4 := 0x1800, 5 := 0x0010, 7 := 0x8100]
    \<and> regs (snd (run_state (SI4703_begin sim_dev sda0 scl0 clk) s)) = dev (snd (run_state (SI4703_begin sim_dev sda0 scl0 clk) s))
    \<and> initialized (snd (run_state (SI4703_begin sim_dev sda0 scl0 clk) s))
    \<and> currentFreq (snd (run_state (SI4703_begin sim_dev sda0 scl0 clk) s)) = currentFreq s"
proof -
  let ?s1 = "begin_probe sim_dev sda0 scl0 clk s"
  note p = sim_begin_probe [OF assms(1-3), of sda0 scl0 clk]
  have l: "length (regs ?s1) = 16" "length (dev ?s1) = 16" "i2cAddr ?s1 = SI4703_I2C_ADDR"
    using p assms by simp_all
  show ?thesis
    using sim_powerUp_state [OF l] p assms(1,4) by (simp add: run_begin Let_def)
qed

lemma sim_begin_fail_state:
  assumes "length (regs s) = 16" "length (dev s) = 16" "i2cAddr s = SI4703_I2C_ADDR" "dev s ! 0 = 0"
  shows "dev (snd (run_state (SI4703_begin sim_dev sda0 scl0 clk) s)) = dev s
    \<and> regs (snd (run_state (SI4703_begin sim_dev sda0 scl0 clk) s)) = dev s
    \<and> initialized (snd (run_state (SI4703_begin sim_dev sda0 scl0 clk) s)) = initialized s
    \<and> currentFreq (snd (run_state (SI4703_begin sim_dev sda0 scl0 clk) s)) = currentFreq s"
  using sim_begin_probe [OF assms(1-3), of sda0 scl0 clk] assms(1,4) by (simp add: run_begin Let_def)

lemma sim_getRSSI_state:
  assumes "length (regs s) = 16" "length (dev s) = 16" "i2cAddr s = SI4703_I2C_ADDR" "initialized s"
  shows "dev (snd (run_state (getRSSI sim_dev) s)) = dev s \<and> regs (snd (run_state (getRSSI sim_dev) s)) = dev s
    \<and> initialized (snd (run_state (getRSSI sim_dev) s)) \<and> currentFreq (snd (run_state (getRSSI sim_dev) s)) = currentFreq s"
  using sim_readRegisters [OF assms(1-3)] assms by (simp add: run_getRSSI run_readRegisters)

lemma min_volume: "(if v > 15 then 15 else v) = min v (15 :: u8)"
  by (auto simp: min_def dest: leD)

lemma unat_min_volume: "unat (min v (15 :: u8)) \<le> 15"
  by (simp add: min_def word_le_nat_alt)

subsection \<open>Properties on the simulated chip\<close>

text \<open>
  C20: on the simulated chip, a full read returns the chip's sixteen registers exactly:
  the shadow store after \<open>readRegisters\<close> equals the chip's register file, so the
  driver's byte order (high first, start at \<open>0x0A\<close>, wrap) and the scatter rule are
  inverse to each other.
\<close>

theorem sim_read_roundtrip:
  assumes "length (regs s) = 16" "length (dev s) = 16" "i2cAddr s = SI4703_I2C_ADDR"
  shows "regs (snd (run_state (readRegisters sim_dev) s)) = dev s"
  using sim_readRegisters [OF assms] by simp

theorem sim_read_roundtrip_witness:
  "length (regs (SI4703_new [0x1242, 0x1053, 0, 0, 0, 0, 0, 0, 0, 0, 0x0C1F, 0, 0, 0, 0, 0xBEEF])) = 16
   \<and> length (dev (SI4703_new [0x1242, 0x1053, 0, 0, 0, 0, 0, 0, 0, 0, 0x0C1F, 0, 0, 0, 0, 0xBEEF])) = 16
   \<and> i2cAddr (SI4703_new [0x1242, 0x1053, 0, 0, 0, 0, 0, 0, 0, 0, 0x0C1F, 0, 0, 0, 0, 0xBEEF]) = SI4703_I2C_ADDR
   \<and> regs (snd (run_state (readRegisters sim_dev)
       (SI4703_new [0x1242, 0x1053, 0, 0, 0, 0, 0, 0, 0, 0, 0x0C1F, 0, 0, 0, 0, 0xBEEF])))
     = [0x1242, 0x1053, 0, 0, 0, 0, 0, 0, 0, 0, 0x0C1F, 0, 0, 0, 0, 0xBEEF]"
proof -
  have h: "length (regs (SI4703_new [0x1242, 0x1053, 0, 0, 0, 0, 0, 0, 0, 0, 0x0C1F, 0, 0, 0, 0, 0xBEEF])) = 16"
    "length (dev (SI4703_new [0x1242, 0x1053, 0, 0, 0, 0, 0, 0, 0, 0, 0x0C1F, 0, 0, 0, 0, 0xBEEF])) = 16"
    "i2cAddr (SI4703_new [0x1242, 0x1053, 0, 0, 0, 0, 0, 0, 0, 0, 0x0C1F, 0, 0, 0, 0, (0xBEEF :: u16)]) = SI4703_I2C_ADDR"
    by (simp_all add: SI4703_new_def SI4703_REGISTER_COUNT_def)
  show ?thesis
    using sim_read_roundtrip [OF h] h by (simp add: SI4703_new_def)
qed

text \<open>
  C21: on the simulated chip, a control write followed by a full read is a round trip
  for the control window: afterwards chip and shadow store agree, registers
  \<open>0x02\<close>-\<open>0x07\<close> hold the values the shadow store had before the write, and every other
  register holds the chip's previous value (the write does not reach it).
\<close>

theorem sim_write_read_roundtrip:
  assumes "length (regs s) = 16" "length (dev s) = 16" "i2cAddr s = SI4703_I2C_ADDR"
  shows "regs (snd (run_state (do { _ \<leftarrow> writeRegisters sim_dev; readRegisters sim_dev }) s))
           = (dev s)[2 := regs s ! 2, 3 := regs s ! 3, 4 := regs s ! 4, 5 := regs s ! 5,
                   6 := regs s ! 6, 7 := regs s ! 7]
    \<and> dev (snd (run_state (do { _ \<leftarrow> writeRegisters sim_dev; readRegisters sim_dev }) s))
           = (dev s)[2 := regs s ! 2, 3 := regs s ! 3, 4 := regs s ! 4, 5 := regs s ! 5,
                   6 := regs s ! 6, 7 := regs s ! 7]"
proof -
  let ?s1 = "snd (run_state (writeRegisters sim_dev) s)"
  have s1: "length (regs ?s1) = 16" "length (dev ?s1) = 16" "i2cAddr ?s1 = SI4703_I2C_ADDR"
    "dev ?s1 = (dev s)[2 := regs s ! 2, 3 := regs s ! 3, 4 := regs s ! 4, 5 := regs s ! 5,
                   6 := regs s ! 6, 7 := regs s ! 7]"
    using assms by (simp_all add: sim_writeRegisters sim_store_control)
  have "run_state (do { _ \<leftarrow> writeRegisters sim_dev; readRegisters sim_dev }) s
      = run_state (readRegisters sim_dev) ?s1"
    by (simp add: prod.case_eq_if)
  then show ?thesis
    using sim_readRegisters [OF s1(1-3)] s1(4) by simp
qed

theorem sim_write_read_roundtrip_witness:
  "length (regs ((SI4703_new (replicate 16 0x0101))\<lparr>regs := replicate 16 0xA5A5\<rparr>)) = 16
   \<and> length (dev ((SI4703_new (replicate 16 0x0101))\<lparr>regs := replicate 16 0xA5A5\<rparr>)) = 16
   \<and> i2cAddr ((SI4703_new (replicate 16 0x0101))\<lparr>regs := replicate 16 0xA5A5\<rparr>) = SI4703_I2C_ADDR
   \<and> dev (snd (run_state (do { _ \<leftarrow> writeRegisters sim_dev; readRegisters sim_dev })
       ((SI4703_new (replicate 16 0x0101))\<lparr>regs := replicate 16 0xA5A5\<rparr>)))
     = [0x0101, 0x0101, 0xA5A5, 0xA5A5, 0xA5A5, 0xA5A5, 0xA5A5, 0xA5A5,
        0x0101, 0x0101, 0x0101, 0x0101, 0x0101, 0x0101, 0x0101, 0x0101]"
proof -
  have h: "length (regs ((SI4703_new (replicate 16 0x0101))\<lparr>regs := replicate 16 0xA5A5\<rparr>)) = 16"
    "length (dev ((SI4703_new (replicate 16 (0x0101 :: u16)))\<lparr>regs := replicate 16 0xA5A5\<rparr>)) = 16"
    "i2cAddr ((SI4703_new (replicate 16 (0x0101 :: u16)))\<lparr>regs := replicate 16 0xA5A5\<rparr>) = SI4703_I2C_ADDR"
    by (simp_all add: SI4703_new_def)
  show ?thesis
    using sim_write_read_roundtrip [OF h] h by (simp add: SI4703_new_def numeral_eq_Suc)
qed

text \<open>
  C22: the spec's power-up scenario. On the simulated chip with a non-zero identity
  register, \<open>begin\<close> succeeds, marks the driver initialised and leaves the chip with
  POWERCFG = \<open>0x4001\<close> (enable and un-mute bits both set), SYSCONFIG1 = \<open>0x1800\<close>,
  SYSCONFIG2 = \<open>0x0010\<close> (the 100 kHz spacing code in bits 5:4), TEST1 = \<open>0x8100\<close>,
  and every other register as it was.
\<close>

theorem sim_begin_powerup:
  assumes "length (regs s) = 16" "length (dev s) = 16" "i2cAddr s = SI4703_I2C_ADDR" "dev s ! 0 \<noteq> 0"
  shows "fst (run_state (SI4703_begin sim_dev sda0 scl0 clk) s)
    \<and> initialized (snd (run_state (SI4703_begin sim_dev sda0 scl0 clk) s))
    \<and> dev (snd (run_state (SI4703_begin sim_dev sda0 scl0 clk) s))
        = (dev s)[2 := 0x4001, 4 := 0x1800, 5 := 0x0010, 7 := 0x8100]
    \<and> dev (snd (run_state (SI4703_begin sim_dev sda0 scl0 clk) s)) ! 2 AND (POWERCFG_ENABLE OR POWERCFG_DMUTE)
        = POWERCFG_ENABLE OR POWERCFG_DMUTE
    \<and> dev (snd (run_state (SI4703_begin sim_dev sda0 scl0 clk) s)) ! 5 AND 0x0030 = SYSCONFIG2_SPACE_100KHZ"
proof -
  note b = sim_begin_state [OF assms, of sda0 scl0 clk]
  show ?thesis
    using b assms(2) by (simp add: reg_const_values)
qed

theorem sim_begin_powerup_witness:
  "length (regs (SI4703_new [0x1242, 0x1053, 0, 0, 0, 0, 0, 0, 0, 0, 0x0C1F, 0, 0, 0, 0, (0xBEEF :: u16)])) = 16
   \<and> length (dev (SI4703_new [0x1242, 0x1053, 0, 0, 0, 0, 0, 0, 0, 0, 0x0C1F, 0, 0, 0, 0, (0xBEEF :: u16)])) = 16
   \<and> i2cAddr (SI4703_new [0x1242, 0x1053, 0, 0, 0, 0, 0, 0, 0, 0, 0x0C1F, 0, 0, 0, 0, (0xBEEF :: u16)]) = SI4703_I2C_ADDR
   \<and> dev (SI4703_new [0x1242, 0x1053, 0, 0, 0, 0, 0, 0, 0, 0, 0x0C1F, 0, 0, 0, 0, (0xBEEF :: u16)]) ! 0 \<noteq> 0
   \<and> fst (run_state (SI4703_begin sim_dev 21 22 100000) (SI4703_new [0x1242, 0x1053, 0, 0, 0, 0, 0, 0, 0, 0, 0x0C1F, 0, 0, 0, 0, 0xBEEF]))
   \<and> dev (snd (run_state (SI4703_begin sim_dev 21 22 100000) (SI4703_new [0x1242, 0x1053, 0, 0, 0, 0, 0, 0, 0, 0, 0x0C1F, 0, 0, 0, 0, 0xBEEF])))
       = [0x1242, 0x1053, 0x4001, 0, 0x1800, 0x0010, 0, 0x8100, 0, 0, 0x0C1F, 0, 0, 0, 0, 0xBEEF]"
proof -
  have h: "length (regs (SI4703_new [0x1242, 0x1053, 0, 0, 0, 0, 0, 0, 0, 0, 0x0C1F, 0, 0, 0, 0, (0xBEEF :: u16)])) = 16"
    "length (dev (SI4703_new [0x1242, 0x1053, 0, 0, 0, 0, 0, 0, 0, 0, 0x0C1F, 0, 0, 0, 0, (0xBEEF :: u16)])) = 16"
    "i2cAddr (SI4703_new [0x1242, 0x1053, 0, 0, 0, 0, 0, 0, 0, 0, 0x0C1F, 0, 0, 0, 0, (0xBEEF :: u16)]) = SI4703_I2C_ADDR"
    "dev (SI4703_new [0x1242, 0x1053, 0, 0, 0, 0, 0, 0, 0, 0, 0x0C1F, 0, 0, 0, 0, (0xBEEF :: u16)]) ! 0 \<noteq> 0"
    by (simp_all add: SI4703_new_def SI4703_REGISTER_COUNT_def)
  show ?thesis
    using sim_begin_powerup [OF h] h by (simp add: SI4703_new_def)
qed

text \<open>
  C23: the spec's volume scenario on the simulated chip: after \<open>setVolume v\<close> on an
  initialised driver, the chip's SYSCONFIG2 has \<open>min v 15\<close> in its low four bits and
  its other bits unchanged, and every other chip register is unchanged.
\<close>

theorem sim_setVolume_readback:
  assumes "length (regs s) = 16" "length (dev s) = 16" "i2cAddr s = SI4703_I2C_ADDR" "initialized s"
  shows "dev (snd (run_state (setVolume sim_dev v) s)) ! 5 AND SYSCONFIG2_VOLUME_MASK = ucast (min v 15)
    \<and> dev (snd (run_state (setVolume sim_dev v) s)) ! 5 AND NOT SYSCONFIG2_VOLUME_MASK
        = dev s ! 5 AND NOT SYSCONFIG2_VOLUME_MASK
    \<and> (\<forall>i. i \<noteq> 5 \<longrightarrow> dev (snd (run_state (setVolume sim_dev v) s)) ! i = dev s ! i)"
proof -
  have chip: "dev (snd (run_state (setVolume sim_dev v) s))
      = (dev s)[5 := dev s ! 5 AND NOT SYSCONFIG2_VOLUME_MASK OR ucast (min v 15)]"
    using sim_setVolume_chip [OF assms] by (simp add: min_volume)
  show ?thesis
    unfolding chip using assms(2) volume_field [OF unat_min_volume, of "dev s ! 5"] by simp
qed

theorem sim_setVolume_readback_witness:
  "length (regs ((SI4703_new (replicate 16 (0xABCD :: u16)))\<lparr>initialized := True\<rparr>)) = 16
   \<and> length (dev ((SI4703_new (replicate 16 (0xABCD :: u16)))\<lparr>initialized := True\<rparr>)) = 16
   \<and> i2cAddr ((SI4703_new (replicate 16 (0xABCD :: u16)))\<lparr>initialized := True\<rparr>) = SI4703_I2C_ADDR
   \<and> initialized ((SI4703_new (replicate 16 (0xABCD :: u16)))\<lparr>initialized := True\<rparr>)
   \<and> dev (snd (run_state (setVolume sim_dev 40) ((SI4703_new (replicate 16 0xABCD))\<lparr>initialized := True\<rparr>))) ! 5
       AND SYSCONFIG2_VOLUME_MASK = 15"
proof -
  have h: "length (regs ((SI4703_new (replicate 16 (0xABCD :: u16)))\<lparr>initialized := True\<rparr>)) = 16"
    "length (dev ((SI4703_new (replicate 16 (0xABCD :: u16)))\<lparr>initialized := True\<rparr>)) = 16"
    "i2cAddr ((SI4703_new (replicate 16 (0xABCD :: u16)))\<lparr>initialized := True\<rparr>) = SI4703_I2C_ADDR"
    "initialized ((SI4703_new (replicate 16 (0xABCD :: u16)))\<lparr>initialized := True\<rparr>)"
    by (simp_all add: SI4703_new_def SI4703_REGISTER_COUNT_def)
  show ?thesis
    using sim_setVolume_readback [OF h, of 40] h by simp
qed

text \<open>
  C25: the tune on the simulated chip. After \<open>setFrequency m\<close> on an initialised
  driver, the chip's CHANNEL register holds the converted channel of the clamped
  frequency in its CHAN field, has TUNE cleared again and keeps its other bits; no
  other chip register changes, and the driver caches the clamped frequency.
\<close>

theorem sim_setFrequency_channel:
  assumes "length (regs s) = 16" "length (dev s) = 16" "i2cAddr s = SI4703_I2C_ADDR" "initialized s"
  shows "dev (snd (run_state (setFrequency sim_dev m) s)) ! 3 AND CHANNEL_CHAN_MASK = channel_of (clamp_freq m)
    \<and> dev (snd (run_state (setFrequency sim_dev m) s)) ! 3 AND CHANNEL_TUNE = 0
    \<and> dev (snd (run_state (setFrequency sim_dev m) s)) ! 3 AND NOT (CHANNEL_CHAN_MASK OR CHANNEL_TUNE)
        = dev s ! 3 AND NOT (CHANNEL_CHAN_MASK OR CHANNEL_TUNE)
    \<and> (\<forall>i. i \<noteq> 3 \<longrightarrow> dev (snd (run_state (setFrequency sim_dev m) s)) ! i = dev s ! i)
    \<and> currentFreq (snd (run_state (setFrequency sim_dev m) s)) = clamp_freq m"
proof -
  have ch: "unat (channel_of (clamp_freq m)) \<le> 205"
    using channel_of_range clamp_freq_range by blast
  have freq: "currentFreq (snd (run_state (setFrequency sim_dev m) s)) = clamp_freq m"
    using assms by (simp add: run_setFrequency Let_def)
  show ?thesis
    unfolding sim_setFrequency_chip [OF assms] freq
    using assms(2) tuned_channel_fields [OF ch, of "dev s ! 3"] by simp
qed

theorem sim_setFrequency_channel_witness:
  "length (regs ((SI4703_new (replicate 16 (0x0101 :: u16)))\<lparr>initialized := True\<rparr>)) = 16
   \<and> length (dev ((SI4703_new (replicate 16 (0x0101 :: u16)))\<lparr>initialized := True\<rparr>)) = 16
   \<and> i2cAddr ((SI4703_new (replicate 16 (0x0101 :: u16)))\<lparr>initialized := True\<rparr>) = SI4703_I2C_ADDR
   \<and> initialized ((SI4703_new (replicate 16 (0x0101 :: u16)))\<lparr>initialized := True\<rparr>)
   \<and> dev (snd (run_state (setFrequency sim_dev 120) ((SI4703_new (replicate 16 0x0101))\<lparr>initialized := True\<rparr>)))
       ! 3 AND CHANNEL_CHAN_MASK = channel_of (clamp_freq 120)"
proof -
  have h: "length (regs ((SI4703_new (replicate 16 (0x0101 :: u16)))\<lparr>initialized := True\<rparr>)) = 16"
    "length (dev ((SI4703_new (replicate 16 (0x0101 :: u16)))\<lparr>initialized := True\<rparr>)) = 16"
    "i2cAddr ((SI4703_new (replicate 16 (0x0101 :: u16)))\<lparr>initialized := True\<rparr>) = SI4703_I2C_ADDR"
    "initialized ((SI4703_new (replicate 16 (0x0101 :: u16)))\<lparr>initialized := True\<rparr>)"
    by (simp_all add: SI4703_new_def SI4703_REGISTER_COUNT_def)
  show ?thesis
    using sim_setFrequency_channel [OF h, of 120] h by blast
qed

subsection \<open>The driver and the simulated chip as one system\<close>

lemma sim_reachable:
  assumes "reachable sim_dev R0 s" "length R0 = 16"
  shows "length (dev s) = 16 \<and> (\<forall>i. i \<notin> {2..7} \<longrightarrow> dev s ! i = R0 ! i)
    \<and> length (regs s) = 16 \<and> i2cAddr s = SI4703_I2C_ADDR"
proof -
  let ?P = "\<lambda>R. length R = 16 \<and> (\<forall>i. i \<notin> {2..7} \<longrightarrow> R ! i = R0 ! i)"
  have "?P (dev s) \<and> length (regs s) = 16 \<and> i2cAddr s = SI4703_I2C_ADDR"
  proof (rule reachable_rule [OF assms(1)])
    show "?P (dev (SI4703_new R0))"
      using assms(2) by (simp add: SI4703_new_def)
    show "?P (dev (snd (run_state (exec sim_dev c) t)))"
      if "length (regs t) = 16" "?P (dev t)" for t c
      using exec_dev_ok [OF sim_dev_inv [of R0] that(1)] that(2) by (simp add: dev_ok_def)
  qed
  then show ?thesis
    by blast
qed

text \<open>
  C29: composed with the simulated chip, the driver never changes a register outside the
  control window: in every object reachable from a chip with register file \<open>R0\<close>, the
  chip still has sixteen registers and DEVICEID, CHIPID, the status, READCHAN and RDS
  registers (and the unused \<open>0x08\<close>, \<open>0x09\<close>) hold their values of \<open>R0\<close>.
\<close>

theorem sim_chip_readonly_preserved:
  assumes "reachable sim_dev R0 s" "length R0 = 16"
  shows "length (dev s) = 16 \<and> (\<forall>i. i \<notin> {2..7} \<longrightarrow> dev s ! i = R0 ! i)"
  using sim_reachable [OF assms] by blast

theorem sim_chip_readonly_preserved_witness:
  "reachable sim_dev [0x1242, 0x1053, 0, 0, 0, 0, 0, 0, 0, 0, 0x0C1F, 0, 0, 0, 0, (0xBEEF :: u16)] (snd (run_state (exec sim_dev (SetVolume 9)) (snd (run_state (exec sim_dev (Begin 21 22 100000)) (SI4703_new [0x1242, 0x1053, 0, 0, 0, 0, 0, 0, 0, 0, 0x0C1F, 0, 0, 0, 0, (0xBEEF :: u16)])))))
   \<and> length [0x1242, 0x1053, 0, 0, 0, 0, 0, 0, 0, 0, 0x0C1F, 0, 0, 0, 0, (0xBEEF :: u16)] = 16
   \<and> length (dev (snd (run_state (exec sim_dev (SetVolume 9)) (snd (run_state (exec sim_dev (Begin 21 22 100000)) (SI4703_new [0x1242, 0x1053, 0, 0, 0, 0, 0, 0, 0, 0, 0x0C1F, 0, 0, 0, 0, (0xBEEF :: u16)])))))) = 16 \<and> dev (snd (run_state (exec sim_dev (SetVolume 9)) (snd (run_state (exec sim_dev (Begin 21 22 100000)) (SI4703_new [0x1242, 0x1053, 0, 0, 0, 0, 0, 0, 0, 0, 0x0C1F, 0, 0, 0, 0, (0xBEEF :: u16)]))))) ! 10 = 0x0C1F"
proof -
  have r: "reachable sim_dev [0x1242, 0x1053, 0, 0, 0, 0, 0, 0, 0, 0, 0x0C1F, 0, 0, 0, 0, (0xBEEF :: u16)] (snd (run_state (exec sim_dev (SetVolume 9)) (snd (run_state (exec sim_dev (Begin 21 22 100000)) (SI4703_new [0x1242, 0x1053, 0, 0, 0, 0, 0, 0, 0, 0, 0x0C1F, 0, 0, 0, 0, (0xBEEF :: u16)])))))"
    by (intro reachable.reachable_exec reachable.reachable_new)
  have l: "length [0x1242, 0x1053, 0, 0, 0, 0, 0, 0, 0, 0, 0x0C1F, 0, 0, 0, 0, (0xBEEF :: u16)] = 16"
    by simp
  show ?thesis
    using sim_chip_readonly_preserved [OF r l] r l by simp
qed

text \<open>
  C30: progress of \<open>begin\<close> on the simulated chip. From every object reachable on a chip
  whose identity register is non-zero, a call of \<open>begin\<close> initialises the driver, and it
  stays initialised under every later sequence of calls.
\<close>

theorem sim_begin_liveness:
  assumes "reachable sim_dev R0 s" "length R0 = 16" "R0 ! 0 \<noteq> 0"
  shows "initialized (snd (run_state (exec sim_dev (Begin sda0 scl0 clk)) s))
    \<and> (\<forall>cs. initialized (snd (run_state (run_cmds sim_dev cs)
                             (snd (run_state (exec sim_dev (Begin sda0 scl0 clk)) s)))))"
proof -
  note inv = sim_reachable [OF assms(1,2)]
  have "word_in (response sim_dev (s\<lparr>dev := dv_wait sim_dev 10 (dev s)\<rparr>)) 6 = dev s ! 0"
    using inv by (simp add: response_def sim_dev_def word_in_sim_bytes)
  then have "initialized (snd (run_state (SI4703_begin sim_dev sda0 scl0 clk) s))"
    using begin_nonzero_id inv assms(3) by fastforce
  then have i: "initialized (snd (run_state (exec sim_dev (Begin sda0 scl0 clk)) s))"
    by (simp add: exec_def prod.case_eq_if)
  have "length (regs (snd (run_state (exec sim_dev (Begin sda0 scl0 clk)) s))) = 16"
    using exec_step [of s sim_dev] inv by (simp add: keeps_regs_addr_def)
  then show ?thesis
    using i run_cmds_initialized by blast
qed

theorem sim_begin_liveness_witness:
  "reachable sim_dev [0x1242, 0x1053, 0, 0, 0, 0, 0, 0, 0, 0, 0x0C1F, 0, 0, 0, 0, (0xBEEF :: u16)] (snd (run_state (exec sim_dev (SetVolume 9)) (snd (run_state (exec sim_dev (Begin 21 22 100000)) (SI4703_new [0x1242, 0x1053, 0, 0, 0, 0, 0, 0, 0, 0, 0x0C1F, 0, 0, 0, 0, (0xBEEF :: u16)])))))
   \<and> length [0x1242, 0x1053, 0, 0, 0, 0, 0, 0, 0, 0, 0x0C1F, 0, 0, 0, 0, (0xBEEF :: u16)] = 16 \<and> [0x1242, 0x1053, 0, 0, 0, 0, 0, 0, 0, 0, 0x0C1F, 0, 0, 0, 0, (0xBEEF :: u16)] ! 0 \<noteq> 0
   \<and> initialized (snd (run_state (run_cmds sim_dev [Reset, SetFrequency 95])
       (snd (run_state (exec sim_dev (Begin 21 22 100000)) (snd (run_state (exec sim_dev (SetVolume 9)) (snd (run_state (exec sim_dev (Begin 21 22 100000)) (SI4703_new [0x1242, 0x1053, 0, 0, 0, 0, 0, 0, 0, 0, 0x0C1F, 0, 0, 0, 0, (0xBEEF :: u16)])))))))))"
proof -
  have r: "reachable sim_dev [0x1242, 0x1053, 0, 0, 0, 0, 0, 0, 0, 0, 0x0C1F, 0, 0, 0, 0, (0xBEEF :: u16)] (snd (run_state (exec sim_dev (SetVolume 9)) (snd (run_state (exec sim_dev (Begin 21 22 100000)) (SI4703_new [0x1242, 0x1053, 0, 0, 0, 0, 0, 0, 0, 0, 0x0C1F, 0, 0, 0, 0, (0xBEEF :: u16)])))))"
    by (intro reachable.reachable_exec reachable.reachable_new)
  have h: "length [0x1242, 0x1053, 0, 0, 0, 0, 0, 0, 0, 0, 0x0C1F, 0, 0, 0, 0, (0xBEEF :: u16)] = 16" "[0x1242, 0x1053, 0, 0, 0, 0, 0, 0, 0, 0, 0x0C1F, 0, 0, 0, 0, (0xBEEF :: u16)] ! 0 \<noteq> 0"
    by simp_all
  show ?thesis
    using sim_begin_liveness [OF r h] r h by blast
qed

text \<open>
  C31: on the simulated chip, volume and tuning do not interfere: \<open>setVolume v\<close>
  followed by \<open>setFrequency m\<close> leaves the chip in the same state as the two calls in the
  other order, and in that state SYSCONFIG2 holds the volume \<open>min v 15\<close> and CHANNEL
  the converted channel. Each command's read-modify-write keeps the other's field.
\<close>

theorem sim_volume_tune_commute:
  assumes "length (regs s) = 16" "length (dev s) = 16" "i2cAddr s = SI4703_I2C_ADDR" "initialized s"
  shows "dev (snd (run_state (run_cmds sim_dev [SetVolume v, SetFrequency m]) s))
       = dev (snd (run_state (run_cmds sim_dev [SetFrequency m, SetVolume v]) s))
    \<and> dev (snd (run_state (run_cmds sim_dev [SetVolume v, SetFrequency m]) s)) ! 5
        AND SYSCONFIG2_VOLUME_MASK = ucast (min v 15)
    \<and> dev (snd (run_state (run_cmds sim_dev [SetVolume v, SetFrequency m]) s)) ! 3
        AND CHANNEL_CHAN_MASK = channel_of (clamp_freq m)"
proof -
  let ?s1 = "snd (run_state (setVolume sim_dev v) s)"
  let ?s2 = "snd (run_state (setFrequency sim_dev m) s)"
  let ?V = "\<lambda>x. x AND NOT SYSCONFIG2_VOLUME_MASK OR ucast (min v 15)"
  let ?F = "\<lambda>x. ((x AND NOT CHANNEL_CHAN_MASK OR channel_of (clamp_freq m)) OR CHANNEL_TUNE) AND NOT CHANNEL_TUNE"
  have d1: "dev ?s1 = (dev s)[5 := ?V (dev s ! 5)]"
    using sim_setVolume_chip [OF assms] by (simp add: min_volume)
  have d2: "dev ?s2 = (dev s)[3 := ?F (dev s ! 3)]"
    by (rule sim_setFrequency_chip [OF assms])
  have p1: "length (regs ?s1) = 16" "length (dev ?s1) = 16" "i2cAddr ?s1 = SI4703_I2C_ADDR" "initialized ?s1"
    using keeps_setVolume [OF assms(1), of sim_dev v] d1 assms by (simp_all add: keeps_def)
  have p2: "length (regs ?s2) = 16" "i2cAddr ?s2 = SI4703_I2C_ADDR" "initialized ?s2"
    using assms by (simp_all add: run_setFrequency Let_def)
  have p2': "length (dev ?s2) = 16"
    using d2 assms(2) by simp
  have r1: "dev (snd (run_state (run_cmds sim_dev [SetVolume v, SetFrequency m]) s))
      = (dev s)[5 := ?V (dev s ! 5), 3 := ?F (dev s ! 3)]"
    using sim_setFrequency_chip [OF p1, of m] d1
    by (simp add: run_cmds_Cons run_cmds_Nil exec_def prod.case_eq_if)
  have r2: "dev (snd (run_state (run_cmds sim_dev [SetFrequency m, SetVolume v]) s))
      = (dev s)[3 := ?F (dev s ! 3), 5 := ?V (dev s ! 5)]"
    using sim_setVolume_chip [OF p2(1) p2' p2(2,3), of v] d2
    by (simp add: run_cmds_Cons run_cmds_Nil exec_def prod.case_eq_if min_volume)
  have ch: "unat (channel_of (clamp_freq m)) \<le> 205"
    using channel_of_range clamp_freq_range by blast
  show ?thesis
    unfolding r1 r2 using assms(2) volume_field(1) [OF unat_min_volume] tuned_channel_fields(1) [OF ch]
    by (simp add: list_update_swap)
qed

theorem sim_volume_tune_commute_witness:
  "length (regs ((SI4703_new (replicate 16 (0x1234 :: u16)))\<lparr>initialized := True\<rparr>)) = 16 \<and> length (dev ((SI4703_new (replicate 16 (0x1234 :: u16)))\<lparr>initialized := True\<rparr>)) = 16
   \<and> i2cAddr ((SI4703_new (replicate 16 (0x1234 :: u16)))\<lparr>initialized := True\<rparr>) = SI4703_I2C_ADDR \<and> initialized ((SI4703_new (replicate 16 (0x1234 :: u16)))\<lparr>initialized := True\<rparr>)
   \<and> dev (snd (run_state (run_cmds sim_dev [SetVolume 7, SetFrequency 100]) ((SI4703_new (replicate 16 (0x1234 :: u16)))\<lparr>initialized := True\<rparr>)))
     = dev (snd (run_state (run_cmds sim_dev [SetFrequency 100, SetVolume 7]) ((SI4703_new (replicate 16 (0x1234 :: u16)))\<lparr>initialized := True\<rparr>)))"
proof -
  have h: "length (regs ((SI4703_new (replicate 16 (0x1234 :: u16)))\<lparr>initialized := True\<rparr>)) = 16" "length (dev ((SI4703_new (replicate 16 (0x1234 :: u16)))\<lparr>initialized := True\<rparr>)) = 16"
    "i2cAddr ((SI4703_new (replicate 16 (0x1234 :: u16)))\<lparr>initialized := True\<rparr>) = SI4703_I2C_ADDR" "initialized ((SI4703_new (replicate 16 (0x1234 :: u16)))\<lparr>initialized := True\<rparr>)"
    by (simp_all add: SI4703_new_def SI4703_REGISTER_COUNT_def)
  show ?thesis
    using sim_volume_tune_commute [OF h, of 7 100] h by blast
qed

text \<open>
  C32: the spec's reset scenario, recorded as the control writes issued. On an
  initialised driver on the simulated chip, \<open>reset\<close> issues exactly two control writes:
  the first has the POWERCFG word as read with the DISABLE bit set, the second is the
  power-up block with POWERCFG = ENABLE and DMUTE. Afterwards the chip is in the
  power-up state of \<open>begin\<close> (C22), whatever it held before.
\<close>

theorem sim_reset_scenario:
  assumes "length (regs s) = 16" "length (dev s) = 16" "i2cAddr s = SI4703_I2C_ADDR" "initialized s"
  shows "\<exists>b1 b2. writes_of (trace (snd (run_state (reset sim_dev) s)))
       = writes_of (trace s) @ [I2C_write SI4703_I2C_ADDR b1 0, I2C_write SI4703_I2C_ADDR b2 0]
     \<and> control_word b1 2 = dev s ! 2 OR POWERCFG_DISABLE
     \<and> control_word b2 2 = POWERCFG_ENABLE OR POWERCFG_DMUTE
     \<and> dev (snd (run_state (reset sim_dev) s)) = (dev s)[2 := 0x4001, 4 := 0x1800, 5 := 0x0010, 7 := 0x8100]"
proof -
  let ?rs = "(dev s)[2 := dev s ! 2 OR POWERCFG_DISABLE]"
  have w1: "sim_store 2 (control_bytes ?rs) (dev s) = ?rs"
    using assms(2) by (rule sim_store_update) simp
  show ?thesis
    using assms w1
    by (simp add: run_reset Let_def response_def sim_dev_def scatter_sim_bytes sim_store_powerup
        run_powerUp writes_of_def control_word_bytes reg_const_values)
qed

theorem sim_reset_scenario_witness:
  "length (regs ((SI4703_new (replicate 16 (0x2222 :: u16)))\<lparr>initialized := True\<rparr>)) = 16 \<and> length (dev ((SI4703_new (replicate 16 (0x2222 :: u16)))\<lparr>initialized := True\<rparr>)) = 16
   \<and> i2cAddr ((SI4703_new (replicate 16 (0x2222 :: u16)))\<lparr>initialized := True\<rparr>) = SI4703_I2C_ADDR \<and> initialized ((SI4703_new (replicate 16 (0x2222 :: u16)))\<lparr>initialized := True\<rparr>)
   \<and> dev (snd (run_state (reset sim_dev) ((SI4703_new (replicate 16 (0x2222 :: u16)))\<lparr>initialized := True\<rparr>))) ! 2 = 0x4001
   \<and> dev (snd (run_state (reset sim_dev) ((SI4703_new (replicate 16 (0x2222 :: u16)))\<lparr>initialized := True\<rparr>))) ! 3 = 0x2222"
proof -
  have h: "length (regs ((SI4703_new (replicate 16 (0x2222 :: u16)))\<lparr>initialized := True\<rparr>)) = 16" "length (dev ((SI4703_new (replicate 16 (0x2222 :: u16)))\<lparr>initialized := True\<rparr>)) = 16"
    "i2cAddr ((SI4703_new (replicate 16 (0x2222 :: u16)))\<lparr>initialized := True\<rparr>) = SI4703_I2C_ADDR" "initialized ((SI4703_new (replicate 16 (0x2222 :: u16)))\<lparr>initialized := True\<rparr>)"
    by (simp_all add: SI4703_new_def SI4703_REGISTER_COUNT_def)
  obtain b1 b2 where "dev (snd (run_state (reset sim_dev) ((SI4703_new (replicate 16 (0x2222 :: u16)))\<lparr>initialized := True\<rparr>)))
      = (dev ((SI4703_new (replicate 16 (0x2222 :: u16)))\<lparr>initialized := True\<rparr>))[2 := 0x4001, 4 := 0x1800, 5 := 0x0010, 7 := 0x8100]"
    using sim_reset_scenario [OF h] by blast
  then show ?thesis
    using h by (simp add: SI4703_new_def SI4703_REGISTER_COUNT_def)
qed

end
