(* ===== verification/Loops.thy ===== *)
theory Loops
  imports Sync
begin

text \<open>
  The two register loops of \<open>src/src/SI4703.cpp\<close> against reference descriptions.
  \<open>visit_order r\<close> is the order in which \<open>for (uint8_t reg = r; ; reg++)\<close> with the
  wrap \<open>if (reg == 0x10) reg = 0x00\<close> and the exit after register \<open>0x09\<close> visits the
  registers, in closed form; \<open>read_regs\<close> and \<open>write_regs\<close> read, respectively send, a
  given list of registers one after the other. The loops are proved equal to these
  references for every start register.
\<close>

unbundle bit_operations_syntax

definition visit_order :: "u8 \<Rightarrow> u8 list" where
  "visit_order r = (let n = unat (wrap_reg r) in map of_nat
     (if n < 10 then [n..<10] else if n < 16 then [n..<16] @ [0..<10] else [n..<256] @ [0..<10]))"

primrec read_regs :: "u8 list \<Rightarrow> (('d, 'x) si4703_scheme, unit) state" where
  "read_regs [] = skip"
| "read_regs (r # rs) = do {
     hi \<leftarrow> wire_read;
     lo \<leftarrow> wire_read;
     set_reg r (read_word hi lo);
     read_regs rs
   }"

primrec write_regs :: "u8 list \<Rightarrow> (('d, 'x) si4703_scheme, unit) state" where
  "write_regs [] = skip"
| "write_regs (r # rs) = do {
     x \<leftarrow> get_reg r;
     wire_write (hi_byte x);
     wire_write (lo_byte x);
     write_regs rs
   }"

subsection \<open>The visiting order of the read loop\<close>

lemma wrap_reg_unat: "unat (wrap_reg r) \<noteq> 16"
proof
  assume "unat (wrap_reg r) = 16"
  then have "wrap_reg r = 0x10"
    by (simp add: word_unat_eq_iff)
  then show False
    by (simp add: wrap_reg_def split: if_splits)
qed

lemma visit_order_cons:
  "visit_order r = wrap_reg r # (if wrap_reg r = 0x09 then [] else visit_order (wrap_reg r + 1))"
proof -
  define w where "w = wrap_reg r"
  define n where "n = unat w"
  have n256: "n < 256" using unsigned_less [of w] by (simp add: n_def)
  have n16: "n \<noteq> 16" using wrap_reg_unat [of r] by (simp add: n_def w_def)
  have wn: "w = of_nat n" by (simp add: n_def)
  have succ: "unat (wrap_reg (w + 1)) = (if n = 15 \<or> n = 255 then 0 else n + 1)"
  proof (cases "n = 15 \<or> n = 255")
    case True
    then show ?thesis using wn by (auto simp: wrap_reg_def)
  next
    case False
    then have "unat (w + 1) = n + 1"
      using n256 by (simp add: n_def unat_add_lem [THEN iffD1])
    moreover have "w + 1 \<noteq> 0x10"
    proof
      assume "w + 1 = 0x10"
      then have "unat (w + 1) = 16" by simp
      with \<open>unat (w + 1) = n + 1\<close> False show False by simp
    qed
    ultimately show ?thesis using False by (simp add: wrap_reg_def)
  qed
  have nine: "(w = 0x09) = (n = 9)"
    by (simp add: n_def word_unat_eq_iff)
  show ?thesis
    unfolding visit_order_def Let_def w_def [symmetric] n_def [symmetric] succ nine
    using n256 n16 wn
    by (auto simp: upt_conv_Cons)
qed


subsection \<open>Properties of the loops\<close>

text \<open>
  C27: for every start register \<open>r\<close>, the read loop is the reference read of the
  registers of \<open>visit_order r\<close> in that order: two \<open>Wire.read()\<close> calls and one store of
  \<open>(hi << 8) | lo\<close> per register. So the loop's wrap and exit implement exactly the
  visiting order \<open>r, r + 1, ..., 0x0F, 0x00, ..., 0x09\<close>.
\<close>

theorem read_loop_equiv: "read_loop r = read_regs (visit_order r)"
proof (induction r rule: read_loop.induct)
  case (1 reg0)
  show ?case
  proof (cases "wrap_reg reg0 = 0x09")
    case True
    then show ?thesis
      by (subst read_loop.simps) (simp add: visit_order_cons [of reg0] Let_def)
  next
    case False
    note ih = 1 [OF refl False]
    show ?thesis
      using False by (subst read_loop.simps) (simp only: visit_order_cons [of reg0] Let_def ih if_False read_regs.simps)
  qed
qed

text \<open>
  C28: for every start register \<open>r\<close>, the write loop is the reference transmission of
  registers \<open>r\<close>, \<open>r + 1\<close>, ..., \<open>0x07\<close> in ascending order, high byte first; from a
  start above \<open>0x07\<close> it sends nothing.
\<close>

theorem write_loop_equiv: "write_loop r = write_regs (map of_nat [unat r..<8])"
proof (induction r rule: write_loop.induct)
  case (1 reg)
  show ?case
  proof (cases "reg \<le> reg_addr REG_TEST1")
    case True
    note ih = 1 [OF True]
    have le: "unat reg \<le> 7"
      using True by (simp add: word_le_nat_alt)
    then have "unat (reg + 1) = unat reg + 1"
      by (simp add: unat_add_lem [THEN iffD1])
    then have "[unat reg..<8] = unat reg # [unat (reg + 1)..<8]"
      using le by (simp add: upt_conv_Cons)
    then show ?thesis
      using True ih by (subst write_loop.simps) simp
  next
    case False
    then have "\<not> unat reg < 8"
      by (simp add: word_le_nat_alt)
    with False show ?thesis
      by (subst write_loop.simps) simp
  qed
qed

end
