(* ===== verification/System.thy ===== *)
theory System
  imports Sim_Device
begin

text \<open>
  The driver and the simulated chip of theory \<open>Sim_Device\<close> as one system, observed on
  the chip. It builds on the chip-level effect of each public method of \<open>SI4703\<close>
  (\<open>src/src/SI4703.cpp\<close>) proved there (\<open>sim_powerUp_state\<close>, \<open>sim_reset_state\<close>,
  \<open>sim_setFrequency_state\<close>, \<open>sim_begin_state\<close>, ...): every method ends with a
  full read or with a control write of a store it has just read, so the shadow store
  ends equal to the chip.

  \<open>sys_inv R0\<close> is the system invariant for a chip that started with register file
  \<open>R0\<close>: the chip keeps sixteen registers and \<open>R0\<close> outside the control window, the
  shadow store is the constructor's zero store or equals the chip, an initialised
  driver leaves the chip in the power-up configuration \<open>chip_cfg\<close>, and a non-zero
  cached frequency is the one whose channel the chip holds. \<open>sys_exec\<close> proves that
  every call keeps it, and at the same time that the call acts on the abstract radio
  \<open>radio_of\<close> (on, channel, volume) as the functional specification \<open>radio_step\<close>
  says; \<open>sys_run_cmds\<close> lifts both to sequences of calls.
\<close>

unbundle bit_operations_syntax

record radio =
  r_on :: bool
  r_chan :: u16
  r_vol :: u16

definition radio_of :: "(u16 list, 'x) si4703_scheme \<Rightarrow> radio" where
  "radio_of s = \<lparr>r_on = initialized s, r_chan = dev s ! 3 AND CHANNEL_CHAN_MASK,
                  r_vol = dev s ! 5 AND SYSCONFIG2_VOLUME_MASK\<rparr>"

fun radio_step :: "bool \<Rightarrow> cmd \<Rightarrow> radio \<Rightarrow> radio" where
  "radio_step ok (Begin sda0 scl0 clk) r = (if ok then r\<lparr>r_on := True, r_vol := 0\<rparr> else r)"
| "radio_step ok Reset r = (if r_on r then r\<lparr>r_vol := 0\<rparr> else r)"
| "radio_step ok (SetFrequency m) r = (if r_on r then r\<lparr>r_chan := channel_of (clamp_freq m)\<rparr> else r)"
| "radio_step ok (SetVolume v) r = (if r_on r then r\<lparr>r_vol := ucast (min v 15)\<rparr> else r)"
| "radio_step ok GetFrequency r = r"
| "radio_step ok GetRSSI r = r"
| "radio_step ok Process r = r"

definition chip_cfg :: "u16 list \<Rightarrow> bool" where
  "chip_cfg R = (R ! 2 = POWERCFG_ENABLE OR POWERCFG_DMUTE \<and> R ! 4 = (SYSCONFIG1_RDS OR SYSCONFIG1_DE)
     \<and> R ! 5 AND NOT SYSCONFIG2_VOLUME_MASK = SYSCONFIG2_SPACE_100KHZ \<and> R ! 7 = 0x8100)"

definition sys_inv :: "u16 list \<Rightarrow> (u16 list, 'x) si4703_scheme \<Rightarrow> bool" where
  "sys_inv R0 s = (length (dev s) = 16 \<and> (\<forall>i. i \<notin> {2..7} \<longrightarrow> dev s ! i = R0 ! i)
     \<and> (regs s = dev s \<or> regs s = replicate 16 0 \<and> dev s = R0 \<and> \<not> initialized s)
     \<and> (initialized s \<longrightarrow> chip_cfg (dev s))
     \<and> (currentFreq s \<noteq> 0 \<longrightarrow> dev s ! 3 AND CHANNEL_CHAN_MASK = channel_of (currentFreq s)))"

lemma chip_cfg_powerup:
  "length R = 16 \<Longrightarrow> chip_cfg (R[2 := 0x4001, 4 := 0x1800, 5 := 0x0010, 7 := 0x8100])"
  by (simp add: chip_cfg_def reg_const_values)

lemma sys_inv_new: "length R0 = 16 \<Longrightarrow> sys_inv R0 (SI4703_new R0)"
  by (simp add: sys_inv_def SI4703_new_def SI4703_REGISTER_COUNT_def)

lemma sys_inv_frame:
  assumes "sys_inv R0 s" "i \<notin> {2..7}"
  shows "dev s ! i = R0 ! i"
  using assms by (simp add: sys_inv_def)

lemma sys_exec_begin:
  assumes "sys_inv R0 s" "length (regs s) = 16" "i2cAddr s = SI4703_I2C_ADDR"
  shows "sys_inv R0 (snd (run_state (exec sim_dev (Begin sda0 scl0 clk)) s))
    \<and> radio_of (snd (run_state (exec sim_dev (Begin sda0 scl0 clk)) s))
        = radio_step (R0 ! 0 \<noteq> 0) (Begin sda0 scl0 clk) (radio_of s)"
proof -
  have l: "length (dev s) = 16"
    using assms(1) by (simp add: sys_inv_def)
  have id: "dev s ! 0 = R0 ! 0"
    using sys_inv_frame [OF assms(1)] by simp
  have e: "snd (run_state (exec sim_dev (Begin sda0 scl0 clk)) s) = snd (run_state (SI4703_begin sim_dev sda0 scl0 clk) s)"
    by (simp add: exec_def prod.case_eq_if)
  show ?thesis
  proof (cases "R0 ! 0 = 0")
    case True
    then show ?thesis
      unfolding e using sim_begin_fail_state [OF assms(2) l assms(3), of sda0 scl0 clk] assms(1) id
      by (auto simp: sys_inv_def radio_of_def)
  next
    case False
    then show ?thesis
      unfolding e using sim_begin_state [OF assms(2) l assms(3), of sda0 scl0 clk] assms(1) id chip_cfg_powerup [OF l]
      by (auto simp: sys_inv_def radio_of_def nth_list_update reg_const_values)
  qed
qed

lemma sys_exec_reset:
  assumes "sys_inv R0 s" "length (regs s) = 16" "i2cAddr s = SI4703_I2C_ADDR"
  shows "sys_inv R0 (snd (run_state (exec sim_dev Reset) s))
    \<and> radio_of (snd (run_state (exec sim_dev Reset) s)) = radio_step ok Reset (radio_of s)"
proof -
  have l: "length (dev s) = 16"
    using assms(1) by (simp add: sys_inv_def)
  have e: "snd (run_state (exec sim_dev Reset) s) = snd (run_state (reset sim_dev) s)"
    by (simp add: exec_def prod.case_eq_if)
  show ?thesis
  proof (cases "initialized s")
    case False
    then show ?thesis
      unfolding e using assms(1) by (simp add: run_reset_off radio_of_def)
  next
    case True
    then show ?thesis
      unfolding e using sim_reset_state [OF assms(2) l assms(3) True] assms(1) chip_cfg_powerup [OF l]
      by (auto simp: sys_inv_def radio_of_def nth_list_update reg_const_values)
  qed
qed

lemma sys_exec_setFrequency:
  assumes "sys_inv R0 s" "length (regs s) = 16" "i2cAddr s = SI4703_I2C_ADDR"
  shows "sys_inv R0 (snd (run_state (exec sim_dev (SetFrequency m)) s))
    \<and> radio_of (snd (run_state (exec sim_dev (SetFrequency m)) s)) = radio_step ok (SetFrequency m) (radio_of s)"
proof -
  have l: "length (dev s) = 16"
    using assms(1) by (simp add: sys_inv_def)
  have e: "snd (run_state (exec sim_dev (SetFrequency m)) s) = snd (run_state (setFrequency sim_dev m) s)"
    by (simp add: exec_def prod.case_eq_if)
  have ch: "unat (channel_of (clamp_freq m)) \<le> 205"
    using channel_of_range clamp_freq_range by blast
  show ?thesis
  proof (cases "initialized s")
    case False
    then show ?thesis
      unfolding e using assms(1) by (simp add: run_setFrequency_off radio_of_def)
  next
    case True
    then show ?thesis
      unfolding e using sim_setFrequency_state [OF assms(2) l assms(3) True] sim_setFrequency_chip [OF assms(2) l assms(3) True]
        assms(1) tuned_channel_fields(1) [OF ch]
      by (auto simp: sys_inv_def radio_of_def chip_cfg_def nth_list_update)
  qed
qed

lemma sys_exec_setVolume:
  assumes "sys_inv R0 s" "length (regs s) = 16" "i2cAddr s = SI4703_I2C_ADDR"
  shows "sys_inv R0 (snd (run_state (exec sim_dev (SetVolume v)) s))
    \<and> radio_of (snd (run_state (exec sim_dev (SetVolume v)) s)) = radio_step ok (SetVolume v) (radio_of s)"
proof -
  have l: "length (dev s) = 16"
    using assms(1) by (simp add: sys_inv_def)
  have e: "snd (run_state (exec sim_dev (SetVolume v)) s) = snd (run_state (setVolume sim_dev v) s)"
    by (simp add: exec_def prod.case_eq_if)
  show ?thesis
  proof (cases "initialized s")
    case False
    then show ?thesis
      unfolding e using assms(1) by (simp add: run_setVolume_off radio_of_def)
  next
    case True
    let ?s' = "snd (run_state (setVolume sim_dev v) s)"
    have d: "dev ?s' ! 5 AND SYSCONFIG2_VOLUME_MASK = ucast (min v 15)"
      "dev ?s' ! 5 AND NOT SYSCONFIG2_VOLUME_MASK = dev s ! 5 AND NOT SYSCONFIG2_VOLUME_MASK"
      "\<forall>i. i \<noteq> 5 \<longrightarrow> dev ?s' ! i = dev s ! i" "length (dev ?s') = 16"
      using sim_setVolume_chip [OF assms(2) l assms(3) True] l volume_field [OF unat_min_volume, of "dev s ! 5" v]
      by (simp_all add: min_volume)
    show ?thesis
      unfolding e using sim_setVolume_state [OF assms(2) l assms(3) True] d assms(1) True
      by (auto simp: sys_inv_def radio_of_def chip_cfg_def)
  qed
qed

lemma sys_exec_getRSSI:
  assumes "sys_inv R0 s" "length (regs s) = 16" "i2cAddr s = SI4703_I2C_ADDR"
  shows "sys_inv R0 (snd (run_state (exec sim_dev GetRSSI) s))
    \<and> radio_of (snd (run_state (exec sim_dev GetRSSI) s)) = radio_step ok GetRSSI (radio_of s)"
proof -
  have l: "length (dev s) = 16"
    using assms(1) by (simp add: sys_inv_def)
  have e: "snd (run_state (exec sim_dev GetRSSI) s) = snd (run_state (getRSSI sim_dev) s)"
    by (simp add: exec_def prod.case_eq_if)
  show ?thesis
  proof (cases "initialized s")
    case False
    then show ?thesis
      unfolding e using assms(1) by (simp add: run_getRSSI_off radio_of_def)
  next
    case True
    then show ?thesis
      unfolding e using sim_getRSSI_state [OF assms(2) l assms(3) True] assms(1)
      by (auto simp: sys_inv_def radio_of_def)
  qed
qed

lemma sys_exec:
  assumes "sys_inv R0 s" "length (regs s) = 16" "i2cAddr s = SI4703_I2C_ADDR"
  shows "sys_inv R0 (snd (run_state (exec sim_dev c) s))
    \<and> radio_of (snd (run_state (exec sim_dev c) s)) = radio_step (R0 ! 0 \<noteq> 0) c (radio_of s)"
proof (cases c)
  case (Begin sda0 scl0 clk)
  then show ?thesis using sys_exec_begin [OF assms] by simp
next
  case Reset
  then show ?thesis using sys_exec_reset [OF assms] by simp
next
  case (SetFrequency m)
  then show ?thesis using sys_exec_setFrequency [OF assms] by simp
next
  case GetFrequency
  then show ?thesis using assms(1) by (simp add: exec_def prod.case_eq_if run_getFrequency)
next
  case (SetVolume v)
  then show ?thesis using sys_exec_setVolume [OF assms] by simp
next
  case GetRSSI
  then show ?thesis using sys_exec_getRSSI [OF assms] by simp
next
  case Process
  then show ?thesis using assms(1) by (simp add: exec_def prod.case_eq_if run_process)
qed

lemma sys_reachable:
  assumes "reachable sim_dev R0 s" "length R0 = 16"
  shows "sys_inv R0 s \<and> length (regs s) = 16 \<and> i2cAddr s = SI4703_I2C_ADDR"
  using assms(1)
proof (rule reachable_rule)
  show "sys_inv R0 (SI4703_new R0)"
    using assms(2) by (rule sys_inv_new)
  show "sys_inv R0 (snd (run_state (exec sim_dev c) t))"
    if "length (regs t) = 16" "i2cAddr t = SI4703_I2C_ADDR" "sys_inv R0 t" for t c
    using sys_exec [OF that(3,1,2)] by blast
qed

lemma sys_run_cmds:
  assumes "sys_inv R0 s" "length (regs s) = 16" "i2cAddr s = SI4703_I2C_ADDR"
  shows "sys_inv R0 (snd (run_state (run_cmds sim_dev cs) s))
    \<and> radio_of (snd (run_state (run_cmds sim_dev cs) s)) = fold (radio_step (R0 ! 0 \<noteq> 0)) cs (radio_of s)"
  using assms
proof (induction cs arbitrary: s)
  case Nil
  then show ?case by (simp add: run_cmds_Nil)
next
  case (Cons c cs)
  let ?t = "snd (run_state (exec sim_dev c) s)"
  have t: "sys_inv R0 ?t" "radio_of ?t = radio_step (R0 ! 0 \<noteq> 0) c (radio_of s)"
    using sys_exec [OF Cons.prems] by blast+
  have k: "length (regs ?t) = 16" "i2cAddr ?t = SI4703_I2C_ADDR"
    using exec_step [OF Cons.prems(2), of sim_dev c] Cons.prems(3) by (simp_all add: keeps_regs_addr_def)
  show ?case
    using Cons.IH [OF t(1) k] t(2) by (simp add: run_cmds_Cons)
qed

lemma sim_exec_begin_new:
  assumes "length R = 16" "R ! 0 \<noteq> 0"
  shows "initialized (snd (run_state (exec sim_dev (Begin sda0 scl0 clk)) (SI4703_new R)))
    \<and> length (regs (snd (run_state (exec sim_dev (Begin sda0 scl0 clk)) (SI4703_new R)))) = 16
    \<and> length (dev (snd (run_state (exec sim_dev (Begin sda0 scl0 clk)) (SI4703_new R)))) = 16
    \<and> i2cAddr (snd (run_state (exec sim_dev (Begin sda0 scl0 clk)) (SI4703_new R))) = SI4703_I2C_ADDR"
proof -
  have h: "length (regs (SI4703_new R)) = 16" "length (dev (SI4703_new R)) = 16"
    "i2cAddr (SI4703_new R) = SI4703_I2C_ADDR" "dev (SI4703_new R) ! 0 \<noteq> 0"
    using assms by (simp_all add: SI4703_new_def SI4703_REGISTER_COUNT_def)
  have k: "keeps_regs_addr (SI4703_new R) (snd (run_state (exec sim_dev (Begin sda0 scl0 clk)) (SI4703_new R)))"
    using exec_step [OF h(1)] by blast
  show ?thesis
    using sim_begin_state [OF h, of sda0 scl0 clk] k h(2,3)
    by (simp add: exec_def prod.case_eq_if keeps_regs_addr_def)
qed

lemma sim_exec_tune_freq:
  assumes "length (regs s) = 16" "length (dev s) = 16" "i2cAddr s = SI4703_I2C_ADDR" "initialized s"
  shows "currentFreq (snd (run_state (exec sim_dev (SetFrequency m)) s)) = clamp_freq m"
  using sim_setFrequency_state [OF assms] by (simp add: exec_def prod.case_eq_if)

subsection \<open>Properties of the composed system\<close>

text \<open>
  C33: shadow coherence and configuration. In every object reachable on the simulated
  chip, the shadow store either is still the constructor's all-zero store (no call has
  reached the bus yet, the chip is untouched and the driver uninitialised) or holds
  exactly the chip's sixteen registers; and once the driver is initialised the chip
  keeps the power-up configuration: POWERCFG = ENABLE and DMUTE, SYSCONFIG1 = RDS and
  DE, SYSCONFIG2 with the 100 kHz spacing and only the volume bits free, TEST1 =
  \<open>0x8100\<close>.
\<close>

theorem sim_shadow_coherent:
  assumes "reachable sim_dev R0 s" "length R0 = 16"
  shows "(regs s = dev s \<or> regs s = replicate 16 0 \<and> dev s = R0 \<and> \<not> initialized s)
    \<and> (initialized s \<longrightarrow> chip_cfg (dev s))"
  using sys_reachable [OF assms] by (simp add: sys_inv_def)

theorem sim_shadow_coherent_witness:
  "reachable sim_dev [0x1242, 0x1053, 0, 0, 0, 0, 0, 0, 0, 0, 0x0C1F, 0, 0, 0, 0, (0xBEEF :: u16)] (snd (run_state (exec sim_dev (Begin 21 22 100000)) (SI4703_new [0x1242, 0x1053, 0, 0, 0, 0, 0, 0, 0, 0, 0x0C1F, 0, 0, 0, 0, (0xBEEF :: u16)]))) \<and> length [0x1242, 0x1053, 0, 0, 0, 0, 0, 0, 0, 0, 0x0C1F, 0, 0, 0, 0, (0xBEEF :: u16)] = 16
   \<and> (regs (snd (run_state (exec sim_dev (Begin 21 22 100000)) (SI4703_new [0x1242, 0x1053, 0, 0, 0, 0, 0, 0, 0, 0, 0x0C1F, 0, 0, 0, 0, (0xBEEF :: u16)]))) = dev (snd (run_state (exec sim_dev (Begin 21 22 100000)) (SI4703_new [0x1242, 0x1053, 0, 0, 0, 0, 0, 0, 0, 0, 0x0C1F, 0, 0, 0, 0, (0xBEEF :: u16)]))) \<or> regs (snd (run_state (exec sim_dev (Begin 21 22 100000)) (SI4703_new [0x1242, 0x1053, 0, 0, 0, 0, 0, 0, 0, 0, 0x0C1F, 0, 0, 0, 0, (0xBEEF :: u16)]))) = replicate 16 0 \<and> dev (snd (run_state (exec sim_dev (Begin 21 22 100000)) (SI4703_new [0x1242, 0x1053, 0, 0, 0, 0, 0, 0, 0, 0, 0x0C1F, 0, 0, 0, 0, (0xBEEF :: u16)]))) = [0x1242, 0x1053, 0, 0, 0, 0, 0, 0, 0, 0, 0x0C1F, 0, 0, 0, 0, (0xBEEF :: u16)] \<and> \<not> initialized (snd (run_state (exec sim_dev (Begin 21 22 100000)) (SI4703_new [0x1242, 0x1053, 0, 0, 0, 0, 0, 0, 0, 0, 0x0C1F, 0, 0, 0, 0, (0xBEEF :: u16)]))))
   \<and> initialized (snd (run_state (exec sim_dev (Begin 21 22 100000)) (SI4703_new [0x1242, 0x1053, 0, 0, 0, 0, 0, 0, 0, 0, 0x0C1F, 0, 0, 0, 0, (0xBEEF :: u16)]))) \<and> chip_cfg (dev (snd (run_state (exec sim_dev (Begin 21 22 100000)) (SI4703_new [0x1242, 0x1053, 0, 0, 0, 0, 0, 0, 0, 0, 0x0C1F, 0, 0, 0, 0, (0xBEEF :: u16)]))))"
proof -
  have r: "reachable sim_dev [0x1242, 0x1053, 0, 0, 0, 0, 0, 0, 0, 0, 0x0C1F, 0, 0, 0, 0, (0xBEEF :: u16)] (snd (run_state (exec sim_dev (Begin 21 22 100000)) (SI4703_new [0x1242, 0x1053, 0, 0, 0, 0, 0, 0, 0, 0, 0x0C1F, 0, 0, 0, 0, (0xBEEF :: u16)])))"
    by (intro reachable.reachable_exec reachable.reachable_new)
  have l: "length [0x1242, 0x1053, 0, 0, 0, 0, 0, 0, 0, 0, 0x0C1F, 0, 0, 0, 0, (0xBEEF :: u16)] = 16" "[0x1242, 0x1053, 0, 0, 0, 0, 0, 0, 0, 0, 0x0C1F, 0, 0, 0, 0, (0xBEEF :: u16)] ! 0 \<noteq> 0"
    by simp_all
  have i: "initialized (snd (run_state (exec sim_dev (Begin 21 22 100000)) (SI4703_new [0x1242, 0x1053, 0, 0, 0, 0, 0, 0, 0, 0, 0x0C1F, 0, 0, 0, 0, (0xBEEF :: u16)])))"
    using sim_exec_begin_new [OF l] by blast
  show ?thesis
    using sim_shadow_coherent [OF r l(1)] r l i by blast
qed

text \<open>
  C34: the driver composed with the simulated chip refines an abstract radio. Read
  through \<open>radio_of\<close> (initialised flag, CHAN field of CHANNEL, volume field of
  SYSCONFIG2), every sequence of calls from a reachable object acts as \<open>radio_step\<close>:
  \<open>begin\<close> on a chip with non-zero identity switches the radio on with volume 0,
  \<open>reset\<close> sets the volume to 0, a tune sets the channel of the clamped frequency, a
  volume call sets \<open>min v 15\<close>, all only when on, and reads change nothing.
\<close>

theorem sim_refines_radio:
  assumes "reachable sim_dev R0 s" "length R0 = 16"
  shows "radio_of (snd (run_state (run_cmds sim_dev cs) s)) = fold (radio_step (R0 ! 0 \<noteq> 0)) cs (radio_of s)"
  using sys_reachable [OF assms] sys_run_cmds by blast

theorem sim_refines_radio_witness:
  "reachable sim_dev [0x1242, 0x1053, 0, 0, 0, 0, 0, 0, 0, 0, 0x0C1F, 0, 0, 0, 0, (0xBEEF :: u16)] (snd (run_state (exec sim_dev (Begin 21 22 100000)) (SI4703_new [0x1242, 0x1053, 0, 0, 0, 0, 0, 0, 0, 0, 0x0C1F, 0, 0, 0, 0, (0xBEEF :: u16)]))) \<and> length [0x1242, 0x1053, 0, 0, 0, 0, 0, 0, 0, 0, 0x0C1F, 0, 0, 0, 0, (0xBEEF :: u16)] = 16
   \<and> radio_of (snd (run_state (run_cmds sim_dev [SetVolume 3, SetFrequency 100, Reset]) (snd (run_state (exec sim_dev (Begin 21 22 100000)) (SI4703_new [0x1242, 0x1053, 0, 0, 0, 0, 0, 0, 0, 0, 0x0C1F, 0, 0, 0, 0, (0xBEEF :: u16)])))))
     = fold (radio_step ([0x1242, 0x1053, 0, 0, 0, 0, 0, 0, 0, 0, 0x0C1F, 0, 0, 0, 0, (0xBEEF :: u16)] ! 0 \<noteq> 0)) [SetVolume 3, SetFrequency 100, Reset] (radio_of (snd (run_state (exec sim_dev (Begin 21 22 100000)) (SI4703_new [0x1242, 0x1053, 0, 0, 0, 0, 0, 0, 0, 0, 0x0C1F, 0, 0, 0, 0, (0xBEEF :: u16)]))))"
proof -
  have r: "reachable sim_dev [0x1242, 0x1053, 0, 0, 0, 0, 0, 0, 0, 0, 0x0C1F, 0, 0, 0, 0, (0xBEEF :: u16)] (snd (run_state (exec sim_dev (Begin 21 22 100000)) (SI4703_new [0x1242, 0x1053, 0, 0, 0, 0, 0, 0, 0, 0, 0x0C1F, 0, 0, 0, 0, (0xBEEF :: u16)])))"
    by (intro reachable.reachable_exec reachable.reachable_new)
  have l: "length [0x1242, 0x1053, 0, 0, 0, 0, 0, 0, 0, 0, 0x0C1F, 0, 0, 0, 0, (0xBEEF :: u16)] = 16"
    by simp
  show ?thesis
    using sim_refines_radio [OF r l] r l by blast
qed

text \<open>
  C35: on the simulated chip the cached frequency is the tuned one. In every reachable
  object, if \<open>getFrequency\<close> returns a non-zero \<open>f\<close>, the chip's CHANNEL register holds
  \<open>channel_of f\<close> in its CHAN field: the cache and the chip never disagree, although no
  read-back is performed (and \<open>channel_of f\<close> is the truncated channel of C7).
\<close>

theorem sim_cached_freq_tuned:
  assumes "reachable sim_dev R0 s" "length R0 = 16" "fst (run_state getFrequency s) = f" "f \<noteq> 0"
  shows "dev s ! 3 AND CHANNEL_CHAN_MASK = channel_of f"
  using sys_reachable [OF assms(1,2)] assms(3,4) by (simp add: sys_inv_def run_getFrequency)

theorem sim_cached_freq_tuned_witness:
  "reachable sim_dev [0x1242, 0x1053, 0, 0, 0, 0, 0, 0, 0, 0, 0x0C1F, 0, 0, 0, 0, (0xBEEF :: u16)] (snd (run_state (exec sim_dev (SetFrequency 95)) (snd (run_state (exec sim_dev (Begin 21 22 100000)) (SI4703_new [0x1242, 0x1053, 0, 0, 0, 0, 0, 0, 0, 0, 0x0C1F, 0, 0, 0, 0, (0xBEEF :: u16)]))))) \<and> length [0x1242, 0x1053, 0, 0, 0, 0, 0, 0, 0, 0, 0x0C1F, 0, 0, 0, 0, (0xBEEF :: u16)] = 16
   \<and> fst (run_state getFrequency (snd (run_state (exec sim_dev (SetFrequency 95)) (snd (run_state (exec sim_dev (Begin 21 22 100000)) (SI4703_new [0x1242, 0x1053, 0, 0, 0, 0, 0, 0, 0, 0, 0x0C1F, 0, 0, 0, 0, (0xBEEF :: u16)])))))) = clamp_freq 95 \<and> clamp_freq 95 \<noteq> 0
   \<and> dev (snd (run_state (exec sim_dev (SetFrequency 95)) (snd (run_state (exec sim_dev (Begin 21 22 100000)) (SI4703_new [0x1242, 0x1053, 0, 0, 0, 0, 0, 0, 0, 0, 0x0C1F, 0, 0, 0, 0, (0xBEEF :: u16)]))))) ! 3 AND CHANNEL_CHAN_MASK = channel_of (clamp_freq 95)"
proof -
  have r: "reachable sim_dev [0x1242, 0x1053, 0, 0, 0, 0, 0, 0, 0, 0, 0x0C1F, 0, 0, 0, 0, (0xBEEF :: u16)] (snd (run_state (exec sim_dev (SetFrequency 95)) (snd (run_state (exec sim_dev (Begin 21 22 100000)) (SI4703_new [0x1242, 0x1053, 0, 0, 0, 0, 0, 0, 0, 0, 0x0C1F, 0, 0, 0, 0, (0xBEEF :: u16)])))))"
    by (intro reachable.reachable_exec reachable.reachable_new)
  have l: "length [0x1242, 0x1053, 0, 0, 0, 0, 0, 0, 0, 0, 0x0C1F, 0, 0, 0, 0, (0xBEEF :: u16)] = 16" "[0x1242, 0x1053, 0, 0, 0, 0, 0, 0, 0, 0, 0x0C1F, 0, 0, 0, 0, (0xBEEF :: u16)] ! 0 \<noteq> 0"
    by simp_all
  have f: "fst (run_state getFrequency (snd (run_state (exec sim_dev (SetFrequency 95)) (snd (run_state (exec sim_dev (Begin 21 22 100000)) (SI4703_new [0x1242, 0x1053, 0, 0, 0, 0, 0, 0, 0, 0, 0x0C1F, 0, 0, 0, 0, (0xBEEF :: u16)])))))) = clamp_freq 95"
    using sim_exec_tune_freq [of "(snd (run_state (exec sim_dev (Begin 21 22 100000)) (SI4703_new [0x1242, 0x1053, 0, 0, 0, 0, 0, 0, 0, 0, 0x0C1F, 0, 0, 0, 0, (0xBEEF :: u16)])))" 95] sim_exec_begin_new [OF l] by (simp add: run_getFrequency)
  have nz: "clamp_freq 95 \<noteq> 0"
    using clamp_freq_range [of 95] by (auto simp: SI4703_FREQ_MIN_MHZ_def)
  show ?thesis
    using sim_cached_freq_tuned [OF r l(1) f nz] r l f nz by blast
qed

end
