(* ===== verification/Spec2Isabelle.thy ===== *)
theory Spec2Isabelle
  imports Driver Sim_Device Loops System
begin

text \<open>
  \<^bold>\<open>A verification library for the ESP32 SI4703 FM receiver driver.\<close>

  The repository (\<open>src/src/SI4703.h\<close>, \<open>SI4703.cpp\<close>, \<open>SI4703_regs.h\<close>) is one C++
  class \<open>SI4703\<close> that drives the chip over I2C through the Arduino \<open>Wire\<close> object.
  Its parts and how they interact:
  \<^item> the register map (\<open>SI4703_regs.h\<close>): addresses, bit masks, EU band limits and
    two declared but unused enumerations (driver state, seek direction);
  \<^item> the register shadow store \<open>_regs[16]\<close> and the synchronizer
    \<open>readRegisters\<close> (one 32-byte read, scattered from address \<open>0x0A\<close> with wrap) and
    \<open>writeRegisters\<close> (the control window \<open>0x02\<close>-\<open>0x07\<close>, 12 bytes);
  \<^item> the sequencer: \<open>powerUp\<close>, \<open>reset\<close>, \<open>setFrequency\<close>, read-modify-write
    sequences with fixed delays, built on the synchronizer;
  \<^item> the command surface: constructor, \<open>begin\<close>, \<open>getFrequency\<close>, \<open>setVolume\<close>,
    \<open>getRSSI\<close>, \<open>process\<close>, all but \<open>begin\<close> guarded by \<open>_initialized\<close>;
  \<^item> external collaborators, not in \<open>src/\<close>: the \<open>Wire\<close> transport, \<open>delay\<close>, the
    \<open>float\<close> arithmetic of the compiler, and the chip on the bus.

  \<^bold>\<open>Theories and correspondence.\<close>
  \<^item> \<open>Prelude\<close>: machine types (\<open>u8\<close>, \<open>u16\<close>, \<open>u32\<close> as words; \<open>float32\<close> as the
    rational a binary32 value denotes), the named collections \<open>reg_consts\<close> and
    \<open>run_simps\<close>, the byte split \<open>hi_byte\<close>/\<open>lo_byte\<close> used by \<open>writeRegisters\<close>.
  \<^item> \<open>Float32\<close>: \<open>fl32\<close>, binary32 round-to-nearest-even (24-bit significand,
    subnormals down to \<open>2^-149\<close>; no overflow occurs on the band's values), the
    float to \<open>uint16_t\<close> conversion \<open>f2u16\<close> (truncation) and its definedness condition
    \<open>f2u16_defined\<close>; \<open>fl32\<close> is proved monotone. NaN and infinities are not modelled.
  \<^item> \<open>Regs\<close>: every constant of \<open>SI4703_regs.h\<close>, the register enumeration with its
    addresses, the two enumerations.
  \<^item> \<open>Wire\<close>: the transport, modelled from the spec's interface: an extensible record
    of the bus (receive and transmit buffers, device state, trace of bus events) and
    the \<open>Wire\<close> operations as state-monad actions; the device is a parameter
    (\<open>'d device\<close>: answer a read, accept a write, let time pass), so that every
    driver lemma holds for every device, a missing or misbehaving one included.
  \<^item> \<open>Sync\<close>: the object \<open>SI4703\<close> as an extension of the bus record (its fields
    are the members of \<open>SI4703.h\<close>), the constructor \<open>SI4703_new\<close>, \<open>readRegisters\<close>
    (\<open>read_loop\<close>, and \<open>read_word\<close> for \<open>(hi << 8) | lo\<close> over \<open>uint16_t\<close> locals) and
    \<open>writeRegisters\<close> (\<open>write_loop\<close>), both loops as recursive functions with
    termination proofs, and the reference descriptions \<open>scatter\<close>/\<open>control_bytes\<close>.
  \<^item> \<open>Sequencer\<close>: \<open>powerUp\<close>, \<open>reset\<close>, \<open>setFrequency\<close> (with \<open>clamp_freq\<close> and
    the binary32 channel conversion \<open>channel_of\<close>) of \<open>SI4703.cpp\<close>.
  \<^item> \<open>Commands\<close>: \<open>SI4703_begin\<close> (the method \<open>begin\<close>), \<open>getFrequency\<close>,
    \<open>setVolume\<close>, \<open>getRSSI\<close>, \<open>process\<close>.
  \<^item> \<open>Driver\<close>: the public methods as a datatype \<open>cmd\<close> with the step \<open>exec\<close>,
    sequences of calls \<open>run_cmds\<close>, the reachable objects (\<open>reachable\<close>, inductive),
    the abstract session \<open>absdrv\<close> with its contract \<open>abs_step\<close>, the invariant
    \<open>drv_inv\<close>, the frame lemmas of every operation, the invariant rule
    \<open>reachable_rule\<close> for reachable objects and the device interface \<open>dev_inv\<close>.
  \<^item> \<open>Loops\<close>: the closed-form visiting order \<open>visit_order\<close> of the read loop and the
    reference actions \<open>read_regs\<close>/\<open>write_regs\<close> that read or send a given list of
    registers; both loops are proved equal to them for every start register.
  \<^item> \<open>Sim_Device\<close>: a simulated chip (the spec's test device): reads start at
    \<open>0x0A\<close> and wrap, writes fill registers from \<open>0x02\<close> on. It discharges the
    device interface \<open>dev_inv\<close> of \<open>Driver\<close> (a property of the device state kept by
    reads, 12-byte writes and waits), which \<open>exec_dev_ok\<close> lifts to every call.
  \<^item> \<open>System\<close>: the driver and the simulated chip as one system, built on the
    chip-level effect of every method (\<open>sim_*_state\<close> of \<open>Sim_Device\<close>): the system invariant \<open>sys_inv\<close> (shadow store
    coherent with the chip, power-up configuration \<open>chip_cfg\<close> kept, cached frequency
    tuned on the chip), and the abstract radio \<open>radio_of\<close>/\<open>radio_step\<close> (on, channel,
    volume) that every call refines (\<open>sys_exec\<close>, \<open>sys_run_cmds\<close>).

  Each operation is a state-monad action on the driver object that performs every
  \<open>Wire\<close> call, register update, delay and early return of the source in order; each
  has a \<open>run_state\<close> lemma (collection \<open>run_simps\<close>) giving its whole effect in closed
  form, and the properties are proved from those.

  \<^bold>\<open>What the properties show.\<close> C1-C3: the read scatter and the control write
  window. C4-C9: the tune, power-up and reset sequences, the channel conversion
  (defined, at most 205, inside the CHAN field), the clamp and its band edges, and that
  the channel is monotone in the request and truncates the binary32 quotient (the
  lemma \<open>setFrequency_truncation_loss\<close> shows the channel this loses at 87.6 and
  88.1 MHz). C10-C15: the commands, the \<open>_initialized\<close> guards and the three outcomes
  of \<open>begin\<close>, among them that an absent device makes \<open>begin\<close> succeed.
  C16-C19, in this theory: the invariant of all reachable objects by rule induction,
  the refinement of the abstract session by every sequence of calls, that
  \<open>getFrequency\<close> returns the last tuned value, and that nothing is written to the chip
  before \<open>begin\<close> succeeds. C20-C23 and C25: round trips and the power-up, volume and
  tune scenarios of the spec on the simulated chip. C24: a short answer of the device
  silently becomes \<open>0xFFFF\<close> words. C26 (this theory): every bus transaction of every
  reachable object is a 32-byte read or a 12-byte control write to the chip's address.
  C27-C28: the read loop and the write loop equal their reference definitions for
  every start register. C29-C30: the driver composed with the simulated chip never
  changes a register outside the control window, and from every reachable object
  \<open>begin\<close> initialises the driver for good. C31-C32: on the simulated chip, volume and
  tuning commute and keep each other's field, and \<open>reset\<close> issues exactly the two
  control writes of the spec's reset scenario. C33-C35 (theory \<open>System\<close>): in every
  object reachable on the simulated chip the shadow store equals the chip once the bus
  has been used and an initialised driver keeps the chip in its power-up
  configuration; every sequence of calls refines the abstract radio \<open>radio_step\<close>
  (so \<open>reset\<close> sets the volume back to 0); and a non-zero cached frequency is the one
  whose channel the chip holds.

  \<^bold>\<open>Bounds.\<close> No fuel is needed: both register loops are total (\<open>read_loop\<close> by the
  distance to register \<open>0x09\<close> modulo the wrap, \<open>write_loop\<close> by \<open>8 - reg\<close>), and every
  other operation is straight-line code.

  \<^bold>\<open>Not modelled.\<close> Timing (a delay is an event in the trace and a call of the
  device's \<open>dv_wait\<close>), the electrical bus, the Arduino core beyond the behaviour of
  the \<open>Wire\<close> calls used, and \<open>float\<close> special values (NaN, infinities). Of the three
  source files every declaration and statement is translated; only the
  \<open>#include\<close>/\<open>#pragma\<close> lines and the comments have no counterpart. The seek and RDS
  engines the header comments announce (\<open>process\<close>, the seek and RDS bit masks) have
  no code yet: the masks are modelled as constants and \<open>process\<close> as the empty step.
\<close>

section \<open>Properties of the whole driver\<close>

text \<open>
  C16: every driver object reachable from the constructor by any sequence of calls, on
  any device, satisfies the invariant: a shadow store of sixteen words, a cached
  frequency that is \<open>0\<close> (never tuned) or within \<open>[87.5, 108]\<close>, and a non-zero cached
  frequency only on an initialised driver.
\<close>

theorem reachable_drv_inv:
  assumes "reachable D d0 s"
  shows "drv_inv s"
proof -
  have "drv_inv s \<and> length (regs s) = 16 \<and> i2cAddr s = SI4703_I2C_ADDR"
  proof (rule reachable_rule [OF assms])
    show "drv_inv (SI4703_new d0)"
      by (simp add: drv_inv_def SI4703_new_def SI4703_REGISTER_COUNT_def)
    show "drv_inv (snd (run_state (exec D c) t))" if "length (regs t) = 16" "drv_inv t" for t c
      using exec_step [OF that(1)] abs_step_inv that(2) by blast
  qed
  then show ?thesis
    by blast
qed

theorem reachable_drv_inv_witness:
  "reachable \<lparr>dv_read = \<lambda>a n d. (replicate 32 0x12, d), dv_write = \<lambda>a bs d. (0, d), dv_wait = \<lambda>n d. d\<rparr> ()
     (snd (run_state (exec \<lparr>dv_read = \<lambda>a n d. (replicate 32 0x12, d), dv_write = \<lambda>a bs d. (0, d),
        dv_wait = \<lambda>n d. d\<rparr> (SetFrequency 120))
       (snd (run_state (exec \<lparr>dv_read = \<lambda>a n d. (replicate 32 0x12, d), dv_write = \<lambda>a bs d. (0, d),
        dv_wait = \<lambda>n d. d\<rparr> (Begin 21 22 100000)) (SI4703_new ())))))
   \<and> drv_inv (snd (run_state (exec \<lparr>dv_read = \<lambda>a n d. (replicate 32 0x12, d), dv_write = \<lambda>a bs d. (0, d),
        dv_wait = \<lambda>n d. d\<rparr> (SetFrequency 120))
       (snd (run_state (exec \<lparr>dv_read = \<lambda>a n d. (replicate 32 0x12, d), dv_write = \<lambda>a bs d. (0, d),
        dv_wait = \<lambda>n d. d\<rparr> (Begin 21 22 100000)) (SI4703_new ())))))"
proof -
  have r: "reachable \<lparr>dv_read = \<lambda>a n d. (replicate 32 0x12, d), dv_write = \<lambda>a bs d. (0, d), dv_wait = \<lambda>n d. d\<rparr> ()
     (snd (run_state (exec \<lparr>dv_read = \<lambda>a n d. (replicate 32 0x12, d), dv_write = \<lambda>a bs d. (0, d),
        dv_wait = \<lambda>n d. d\<rparr> (SetFrequency 120))
       (snd (run_state (exec \<lparr>dv_read = \<lambda>a n d. (replicate 32 0x12, d), dv_write = \<lambda>a bs d. (0, d),
        dv_wait = \<lambda>n d. d\<rparr> (Begin 21 22 100000)) (SI4703_new ())))))"
    by (intro reachable.reachable_exec reachable.reachable_new)
  show ?thesis
    using r reachable_drv_inv [OF r] by blast
qed

text \<open>
  C17: the driver refines the abstract driver of the spec's data model: for every
  sequence of calls, started on any object with a sixteen-word shadow store, the replies
  and the final \<open>(initialized, cached frequency)\<close> pair form a run of \<open>abs_step\<close> from
  the initial pair. So \<open>begin\<close> only ever sets the flag, tuning caches the clamped value
  exactly when initialised, \<open>getFrequency\<close> answers the cache, the signal strength is
  \<open>0\<close> before initialisation, and no other call touches the session.
\<close>

theorem run_cmds_refines_abstract:
  assumes "length (regs s) = 16"
  shows "abs_run cs (abs_of s) (fst (run_state (run_cmds D cs) s)) (abs_of (snd (run_state (run_cmds D cs) s)))"
  using assms
proof (induction cs arbitrary: s)
  case (Cons c cs)
  have step: "keeps_regs_addr s (snd (run_state (exec D c) s))
      \<and> abs_step c (abs_of s) (fst (run_state (exec D c) s)) (abs_of (snd (run_state (exec D c) s)))"
    using Cons.prems by (rule exec_step)
  then have "length (regs (snd (run_state (exec D c) s))) = 16"
    by (simp add: keeps_regs_addr_def)
  then show ?case
    using Cons.IH step by (auto simp: run_cmds_Cons)
qed (simp add: run_cmds_Nil)

theorem run_cmds_refines_abstract_witness:
  "length (regs (SI4703_new ())) = 16 \<and>
   abs_run [Begin 21 22 100000, SetFrequency 120, GetFrequency] (abs_of (SI4703_new ()))
     (fst (run_state (run_cmds \<lparr>dv_read = \<lambda>a n d. (replicate 32 0x12, d), dv_write = \<lambda>a bs d. (0, d),
        dv_wait = \<lambda>n d. d\<rparr> [Begin 21 22 100000, SetFrequency 120, GetFrequency]) (SI4703_new ())))
     (abs_of (snd (run_state (run_cmds \<lparr>dv_read = \<lambda>a n d. (replicate 32 0x12, d), dv_write = \<lambda>a bs d. (0, d),
        dv_wait = \<lambda>n d. d\<rparr> [Begin 21 22 100000, SetFrequency 120, GetFrequency]) (SI4703_new ()))))"
proof -
  have h: "length (regs (SI4703_new ())) = 16"
    by (simp add: SI4703_new_def SI4703_REGISTER_COUNT_def)
  show ?thesis
    using run_cmds_refines_abstract [OF h] h by blast
qed

text \<open>
  C18: on an initialised driver, after \<open>setFrequency m\<close> followed by any calls other than
  \<open>setFrequency\<close>, \<open>getFrequency\<close> returns the clamped value of \<open>m\<close>: the cache holds the
  last requested frequency and no read path changes it.
\<close>

theorem getFrequency_returns_last_tune:
  assumes "initialized s" "length (regs s) = 16" "\<not> list_ex is_tune cs"
  shows "last (fst (run_state (run_cmds D (SetFrequency m # cs @ [GetFrequency])) s)) = Freq (clamp_freq m)"
proof -
  let ?s1 = "snd (run_state (exec D (SetFrequency m)) s)"
  let ?s2 = "snd (run_state (run_cmds D cs) ?s1)"
  have step: "keeps_regs_addr s ?s1
      \<and> abs_step (SetFrequency m) (abs_of s) (fst (run_state (exec D (SetFrequency m)) s)) (abs_of ?s1)"
    using assms(2) by (rule exec_step)
  then have s1: "length (regs ?s1) = 16" "currentFreq ?s1 = clamp_freq m"
    using assms(1) by (simp_all add: keeps_regs_addr_def abs_of_def)
  then have "currentFreq ?s2 = clamp_freq m"
    using run_cmds_no_tune [OF s1(1) assms(3)] by simp
  then show ?thesis
    by (simp add: run_cmds_Cons run_cmds_append exec_def run_simps prod.case_eq_if)
qed

theorem getFrequency_returns_last_tune_witness:
  "initialized ((SI4703_new ())\<lparr>initialized := True\<rparr>) \<and> length (regs ((SI4703_new ())\<lparr>initialized := True\<rparr>)) = 16
   \<and> \<not> list_ex is_tune [SetVolume 9, GetRSSI, Reset] \<and>
   last (fst (run_state (run_cmds \<lparr>dv_read = \<lambda>a n d. (replicate 32 0x12, d), dv_write = \<lambda>a bs d. (0, d),
        dv_wait = \<lambda>n d. d\<rparr> (SetFrequency 120 # [SetVolume 9, GetRSSI, Reset] @ [GetFrequency]))
     ((SI4703_new ())\<lparr>initialized := True\<rparr>))) = Freq (clamp_freq 120)"
proof -
  have h: "initialized ((SI4703_new ())\<lparr>initialized := True\<rparr>)"
    "length (regs ((SI4703_new ())\<lparr>initialized := True\<rparr>)) = 16"
    "\<not> list_ex is_tune [SetVolume 9, GetRSSI, Reset]"
    by (simp_all add: SI4703_new_def SI4703_REGISTER_COUNT_def)
  show ?thesis
    using getFrequency_returns_last_tune [OF h] h by blast
qed

text \<open>
  C19: until \<open>begin\<close> has succeeded, nothing is ever written to the chip: in every
  reachable object whose \<open>_initialized\<close> is false, the bus trace holds no I2C write.
  A failed \<open>begin\<close> only configures the bus and reads; every other call is a no-op.
\<close>

theorem no_write_before_begin:
  assumes "reachable D d0 s" "\<not> initialized s"
  shows "writes_of (trace s) = []"
proof -
  have "(\<not> initialized s \<longrightarrow> writes_of (trace s) = []) \<and> length (regs s) = 16
      \<and> i2cAddr s = SI4703_I2C_ADDR"
  proof (rule reachable_rule [OF assms(1)])
    show "\<not> initialized (SI4703_new d0) \<longrightarrow> writes_of (trace (SI4703_new d0)) = []"
      by (simp add: SI4703_new_def writes_of_def)
    show "\<not> initialized (snd (run_state (exec D c) t)) \<longrightarrow> writes_of (trace (snd (run_state (exec D c) t))) = []"
      if len: "length (regs t) = 16" and ih: "\<not> initialized t \<longrightarrow> writes_of (trace t) = []" for t c
    proof
      assume off': "\<not> initialized (snd (run_state (exec D c) t))"
      have "a_init (abs_of t) \<Longrightarrow> a_init (abs_of (snd (run_state (exec D c) t)))"
        using exec_step [OF len] abs_step_init by blast
      then have "\<not> initialized t"
        using off' by (auto simp: abs_of_def)
      then show "writes_of (trace (snd (run_state (exec D c) t))) = []"
        using exec_uninit_writes [OF len _ off'] ih by simp
    qed
  qed
  then show ?thesis
    using assms(2) by blast
qed

theorem no_write_before_begin_witness:
  "reachable \<lparr>dv_read = \<lambda>a n d. (replicate 32 0, d), dv_write = \<lambda>a bs d. (0, d), dv_wait = \<lambda>n d. d\<rparr> ()
     (snd (run_state (exec \<lparr>dv_read = \<lambda>a n d. (replicate 32 0, d), dv_write = \<lambda>a bs d. (0, d),
        dv_wait = \<lambda>n d. d\<rparr> (SetFrequency 100)) (SI4703_new ())))
   \<and> \<not> initialized (snd (run_state (exec \<lparr>dv_read = \<lambda>a n d. (replicate 32 0, d), dv_write = \<lambda>a bs d. (0, d),
        dv_wait = \<lambda>n d. d\<rparr> (SetFrequency 100)) (SI4703_new ())))
   \<and> writes_of (trace (snd (run_state (exec \<lparr>dv_read = \<lambda>a n d. (replicate 32 0, d), dv_write = \<lambda>a bs d. (0, d),
        dv_wait = \<lambda>n d. d\<rparr> (SetFrequency 100)) (SI4703_new ())))) = []"
proof -
  have r: "reachable \<lparr>dv_read = \<lambda>a n d. (replicate 32 0, d), dv_write = \<lambda>a bs d. (0, d), dv_wait = \<lambda>n d. d\<rparr> ()
     (snd (run_state (exec \<lparr>dv_read = \<lambda>a n d. (replicate 32 0, d), dv_write = \<lambda>a bs d. (0, d),
        dv_wait = \<lambda>n d. d\<rparr> (SetFrequency 100)) (SI4703_new ())))"
    by (intro reachable.reachable_exec reachable.reachable_new)
  have n: "\<not> initialized (snd (run_state (exec \<lparr>dv_read = \<lambda>a n d. (replicate 32 0, d), dv_write = \<lambda>a bs d. (0, d),
        dv_wait = \<lambda>n d. d\<rparr> (SetFrequency 100)) (SI4703_new ())))"
    by (simp add: exec_def SI4703_new_def run_setFrequency_off prod.case_eq_if)
  show ?thesis
    using no_write_before_begin [OF r n] r n by blast
qed

text \<open>
  C26: every bus transaction the driver ever issues is one of the two the spec allows:
  in the trace of every reachable object each I2C read requests 32 bytes and each I2C
  write carries exactly the 12 bytes of the control window, both addressed to the chip
  at \<open>0x10\<close>. Nothing else is transmitted, whatever the device answers.
\<close>

theorem reachable_bus_transactions:
  assumes "reachable D d0 s"
  shows "list_all (wf_event SI4703_I2C_ADDR) (trace s)"
proof -
  have "list_all (wf_event SI4703_I2C_ADDR) (trace s) \<and> length (regs s) = 16
      \<and> i2cAddr s = SI4703_I2C_ADDR"
  proof (rule reachable_rule [OF assms])
    show "list_all (wf_event SI4703_I2C_ADDR) (trace (SI4703_new d0))"
      by (simp add: SI4703_new_def)
    show "list_all (wf_event SI4703_I2C_ADDR) (trace (snd (run_state (exec D c) t)))"
      if "length (regs t) = 16" "i2cAddr t = SI4703_I2C_ADDR"
        "list_all (wf_event SI4703_I2C_ADDR) (trace t)" for t c
      using exec_trace_ok [OF that(1), of D c] that(2,3) by (auto simp: trace_ok_def)
  qed
  then show ?thesis
    by blast
qed

theorem reachable_bus_transactions_witness:
  "reachable \<lparr>dv_read = \<lambda>a n d. (replicate 32 0x12, d), dv_write = \<lambda>a bs d. (0, d), dv_wait = \<lambda>n d. d\<rparr> () (snd (run_state (exec \<lparr>dv_read = \<lambda>a n d. (replicate 32 0x12, d), dv_write = \<lambda>a bs d. (0, d), dv_wait = \<lambda>n d. d\<rparr> Reset) (snd (run_state (exec \<lparr>dv_read = \<lambda>a n d. (replicate 32 0x12, d), dv_write = \<lambda>a bs d. (0, d), dv_wait = \<lambda>n d. d\<rparr> (Begin 21 22 100000)) (SI4703_new ())))))
   \<and> list_all (wf_event SI4703_I2C_ADDR) (trace (snd (run_state (exec \<lparr>dv_read = \<lambda>a n d. (replicate 32 0x12, d), dv_write = \<lambda>a bs d. (0, d), dv_wait = \<lambda>n d. d\<rparr> Reset) (snd (run_state (exec \<lparr>dv_read = \<lambda>a n d. (replicate 32 0x12, d), dv_write = \<lambda>a bs d. (0, d), dv_wait = \<lambda>n d. d\<rparr> (Begin 21 22 100000)) (SI4703_new ()))))))"
proof -
  have r: "reachable \<lparr>dv_read = \<lambda>a n d. (replicate 32 0x12, d), dv_write = \<lambda>a bs d. (0, d), dv_wait = \<lambda>n d. d\<rparr> () (snd (run_state (exec \<lparr>dv_read = \<lambda>a n d. (replicate 32 0x12, d), dv_write = \<lambda>a bs d. (0, d), dv_wait = \<lambda>n d. d\<rparr> Reset) (snd (run_state (exec \<lparr>dv_read = \<lambda>a n d. (replicate 32 0x12, d), dv_write = \<lambda>a bs d. (0, d), dv_wait = \<lambda>n d. d\<rparr> (Begin 21 22 100000)) (SI4703_new ())))))"
    by (intro reachable.reachable_exec reachable.reachable_new)
  show ?thesis
    using r reachable_bus_transactions [OF r] by blast
qed

end
